theory Spec2Isabelle
  imports Complex_Main "HOL-Library.AList"
begin

section \<open>Errors and run-time values\<close>

text \<open>
  The exception classes of \<^verbatim>\<open>zisk_repl.py\<close> (\<^verbatim>\<open>ZiskError\<close> and its subclasses) and the
  host exceptions the interpreter can let escape. An error carries its class, its message
  and the line and column it was raised with. Messages are the source's, written without
  accents.
\<close>

datatype err_kind =
    ZiskError | ZiskTypeError | ZiskRuntimeError
  | ZiskAttributeError | ZiskIndexError | ZiskKeyError
  | PyTypeError | PyValueError | PyIndexError | PyZeroDivisionError | PyOverflowError

datatype error = Err err_kind string int int

fun err_kind_of :: "error \<Rightarrow> err_kind" where
  "err_kind_of (Err k m l c) = k"

text \<open>\<^verbatim>\<open>isinstance(e, ZiskRuntimeError)\<close>: the class itself and its three subclasses.\<close>

fun is_runtime_error :: "err_kind \<Rightarrow> bool" where
  "is_runtime_error ZiskRuntimeError = True"
| "is_runtime_error ZiskAttributeError = True"
| "is_runtime_error ZiskIndexError = True"
| "is_runtime_error ZiskKeyError = True"
| "is_runtime_error k = False"

text \<open>\<^verbatim>\<open>isinstance(e, ZiskError)\<close>: what \<^verbatim>\<open>except ZiskError\<close> catches.\<close>

fun is_zisk_error :: "err_kind \<Rightarrow> bool" where
  "is_zisk_error ZiskError = True"
| "is_zisk_error ZiskTypeError = True"
| "is_zisk_error k = is_runtime_error k"

fun err_class_name :: "err_kind \<Rightarrow> string" where
  "err_class_name ZiskError = ''ZiskError''"
| "err_class_name ZiskTypeError = ''ZiskTypeError''"
| "err_class_name ZiskRuntimeError = ''ZiskRuntimeError''"
| "err_class_name ZiskAttributeError = ''ZiskAttributeError''"
| "err_class_name ZiskIndexError = ''ZiskIndexError''"
| "err_class_name ZiskKeyError = ''ZiskKeyError''"
| "err_class_name PyTypeError = ''TypeError''"
| "err_class_name PyValueError = ''ValueError''"
| "err_class_name PyIndexError = ''IndexError''"
| "err_class_name PyZeroDivisionError = ''ZeroDivisionError''"
| "err_class_name PyOverflowError = ''OverflowError''"

text \<open>
  The host values a Zisk program manipulates. Lists and object literals are mutable and
  shared, so they are addresses into a store. The type \<open>'f\<close> stands for the host's
  floating-point numbers, whose arithmetic is a parameter of the evaluator.
  \<^item> \<open>VFunction i\<close>: a host function object, the \<open>i\<close>-th wrapper built for a declared
    function;
  \<^item> \<open>VNative\<close>: a bound method of the interpreter (a native routine);
  \<^item> \<open>VClass n\<close>: the class object built by \<^verbatim>\<open>type(n, bases, attrs)\<close>;
  \<^item> \<open>VInstance n a\<close>: an instance of the class named \<open>n\<close>, attributes at address \<open>a\<close>;
  \<^item> \<open>VError e\<close>: an exception object, as bound by \<^verbatim>\<open>catch\<close>.
\<close>

datatype 'f val =
    VNone | VBool bool | VInt int | VFloat 'f | VStr string
  | VList nat | VDict nat
  | VFunction nat | VNative string
  | VClass string | VInstance string nat
  | VError error

text \<open>\<^verbatim>\<open>value.__class__.__name__\<close>\<close>

fun class_name_of :: "'f val \<Rightarrow> string" where
  "class_name_of VNone = ''NoneType''"
| "class_name_of (VBool b) = ''bool''"
| "class_name_of (VInt i) = ''int''"
| "class_name_of (VFloat x) = ''float''"
| "class_name_of (VStr s) = ''str''"
| "class_name_of (VList a) = ''list''"
| "class_name_of (VDict a) = ''dict''"
| "class_name_of (VFunction n) = ''function''"
| "class_name_of (VNative n) = ''method''"
| "class_name_of (VClass n) = ''type''"
| "class_name_of (VInstance n a) = n"
| "class_name_of (VError e) = err_class_name (err_kind_of e)"

section \<open>The type system (class ZiskTypeSystem)\<close>

datatype pytype =
  PyInt | PyFloat | PyStr | PyBool | PyList | PyDict | PyFunction | PyType | PyNoneType

text \<open>\<^verbatim>\<open>isinstance(value, py_type)\<close>; a host boolean is also a host integer.\<close>

fun isinstance :: "'f val \<Rightarrow> pytype \<Rightarrow> bool" where
  "isinstance (VInt i) PyInt = True"
| "isinstance (VBool b) PyInt = True"
| "isinstance (VBool b) PyBool = True"
| "isinstance (VFloat x) PyFloat = True"
| "isinstance (VStr s) PyStr = True"
| "isinstance (VList a) PyList = True"
| "isinstance (VDict a) PyDict = True"
| "isinstance (VFunction n) PyFunction = True"
| "isinstance (VClass n) PyType = True"
| "isinstance VNone PyNoneType = True"
| "isinstance v t = False"

text \<open>\<^verbatim>\<open>self.type_map\<close>, in insertion order.\<close>

definition type_map :: "(string \<times> pytype) list" where
  "type_map =
    [(''entero'', PyInt), (''decimal'', PyFloat), (''texto'', PyStr), (''booleano'', PyBool),
     (''lista'', PyList), (''objeto'', PyDict), (''funcion'', PyFunction), (''clase'', PyType),
     (''nulo'', PyNoneType)]"

record type_system =
  type_annotations :: "(string \<times> string) list"
  class_hierarchy :: "(string \<times> string option) list"

definition init_type_system :: type_system where
  "init_type_system = \<lparr> type_annotations = [], class_hierarchy = [] \<rparr>"

definition in_hierarchy :: "type_system \<Rightarrow> string \<Rightarrow> bool" where
  "in_hierarchy ts n = (map_of (class_hierarchy ts) n \<noteq> None)"

definition add_class :: "type_system \<Rightarrow> string \<Rightarrow> string option \<Rightarrow> type_system" where
  "add_class ts class_name superclass_name =
     ts\<lparr> class_hierarchy := AList.update class_name superclass_name (class_hierarchy ts) \<rparr>"

definition add_variable_annotation :: "type_system \<Rightarrow> string \<Rightarrow> string option \<Rightarrow> type_system" where
  "add_variable_annotation ts var_name var_type =
     (case var_type of
        None \<Rightarrow> ts
      | Some t \<Rightarrow> if t = [] then ts
                  else ts\<lparr> type_annotations := AList.update var_name t (type_annotations ts) \<rparr>)"

text \<open>
  \<^verbatim>\<open>check_type\<close>. For a name in the class hierarchy the source compares names three times:
  the class object itself, the value's class, and the first (and only) turn of the
  \<^verbatim>\<open>while current_class\<close> loop, which ends in \<^verbatim>\<open>break\<close>. Control then falls through to
  the table of built-in types.
\<close>

definition check_type :: "type_system \<Rightarrow> 'f val \<Rightarrow> string \<Rightarrow> bool" where
  "check_type ts v expected =
     (if expected = ''nulo'' then v = VNone
      else if in_hierarchy ts expected \<and>
              ((case v of VClass n \<Rightarrow> n = expected | _ \<Rightarrow> False)
               \<or> class_name_of v = expected
               \<or> class_name_of v = expected)
           then True
      else (case map_of type_map expected of
              None \<Rightarrow> False
            | Some py_type \<Rightarrow> isinstance v py_type))"

text \<open>The loop of \<^verbatim>\<open>infer_type\<close> over \<^verbatim>\<open>type_map.items()\<close>.\<close>

fun infer_loop :: "type_system \<Rightarrow> 'f val \<Rightarrow> (string \<times> pytype) list \<Rightarrow> string" where
  "infer_loop ts v [] = ''desconocido''"
| "infer_loop ts v ((type_name, py_type) # rest) =
     (if type_name = ''clase'' \<and> (case v of VClass n \<Rightarrow> in_hierarchy ts n | _ \<Rightarrow> False)
        then ''clase''
      else if isinstance v py_type then type_name
      else infer_loop ts v rest)"

definition infer_type :: "type_system \<Rightarrow> 'f val \<Rightarrow> string" where
  "infer_type ts v =
     (if v = VNone then ''nulo''
      else if in_hierarchy ts (class_name_of v) then class_name_of v
      else infer_loop ts v type_map)"

definition sq :: string where
  "sq = [CHR 0x27]"

text \<open>
  \<^verbatim>\<open>validate_assignment\<close>: \<open>Inr ()\<close> when it returns, \<open>Inl\<close> the \<^verbatim>\<open>ZiskTypeError\<close> it raises.
  The branch for a null value against a type other than \<^verbatim>\<open>nulo\<close> is \<^verbatim>\<open>pass\<close>.
\<close>

definition validate_assignment ::
  "type_system \<Rightarrow> string \<Rightarrow> 'f val \<Rightarrow> string option \<Rightarrow> int \<Rightarrow> int \<Rightarrow> bool \<Rightarrow> error + unit" where
  "validate_assignment ts var_name_or_context v expected linea col is_return =
     (case expected of
        None \<Rightarrow> Inr ()
      | Some expected_type \<Rightarrow>
          if v \<noteq> VNone \<and> \<not> check_type ts v expected_type then
            Inl (Err ZiskTypeError
                  (''Tipos incompatibles: no se puede ''
                   @ (if is_return then ''retornar valor'' else ''asignar valor'')
                   @ '' de tipo '' @ sq @ infer_type ts v @ sq
                   @ '' a '' @ sq @ var_name_or_context @ sq
                   @ '' de tipo '' @ sq @ expected_type @ sq @ ''.'')
                  linea col)
          else Inr ())"

text \<open>\<^verbatim>\<open>is_subclass_or_same\<close>: the walk up the hierarchy, with its visited set.\<close>

function subclass_walk :: "type_system \<Rightarrow> string \<Rightarrow> string list \<Rightarrow> string \<Rightarrow> bool" where
  "subclass_walk ts current visited parent =
     (case map_of (class_hierarchy ts) current of
        None \<Rightarrow> False
      | Some superclass \<Rightarrow>
          if superclass = Some parent then True
          else (case superclass of
                  None \<Rightarrow> False
                | Some s \<Rightarrow>
                    if s \<in> set visited then False
                    else if s \<in> fst ` set (class_hierarchy ts)
                      then subclass_walk ts s (s # visited) parent
                      else False))"
  by pat_completeness auto
termination
proof (relation "measure (\<lambda>(ts, current, visited, parent).
        card (fst ` set (class_hierarchy ts) - set visited))", goal_cases)
  case 1
  show ?case by simp
next
  case (2 ts current visited parent superclass s)
  have "fst ` set (class_hierarchy ts) - set (s # visited)
          \<subset> fst ` set (class_hierarchy ts) - set visited"
    using 2 by auto
  then have "card (fst ` set (class_hierarchy ts) - set (s # visited))
          < card (fst ` set (class_hierarchy ts) - set visited)"
    by (intro psubset_card_mono) simp_all
  then show ?case by simp
qed

definition is_subclass_or_same :: "type_system \<Rightarrow> string \<Rightarrow> string \<Rightarrow> bool" where
  "is_subclass_or_same ts child parent =
     (if child = parent then True else subclass_walk ts child [child] parent)"


section \<open>Host arithmetic\<close>

text \<open>
  Zisk numbers are the host's integers (unbounded) and floating-point numbers. The
  floating-point operations are not modelled bit by bit: they are taken as a parameter,
  and every definition and theorem below holds for any choice of them.
  \<^item> \<open>f_of_int\<close>: conversion of an integer, \<open>None\<close> when the host raises \<^verbatim>\<open>OverflowError\<close>;
  \<^item> \<open>i_truediv\<close>: true division of two integers (divisor not zero), \<open>None\<close> on
    \<^verbatim>\<open>OverflowError\<close>;
  \<^item> \<open>f_truediv\<close> and \<open>f_mod\<close> are only applied to a divisor that is not zero;
  \<^item> \<open>f_of_str\<close>: \<^verbatim>\<open>float(s)\<close> of a string, \<open>None\<close> when the host raises \<^verbatim>\<open>ValueError\<close>.
\<close>

record 'f host =
  f_of_int :: "int \<Rightarrow> 'f option"
  f_add :: "'f \<Rightarrow> 'f \<Rightarrow> 'f"
  f_sub :: "'f \<Rightarrow> 'f \<Rightarrow> 'f"
  f_mul :: "'f \<Rightarrow> 'f \<Rightarrow> 'f"
  f_truediv :: "'f \<Rightarrow> 'f \<Rightarrow> 'f"
  f_mod :: "'f \<Rightarrow> 'f \<Rightarrow> 'f"
  f_neg :: "'f \<Rightarrow> 'f"
  f_is_zero :: "'f \<Rightarrow> bool"
  i_truediv :: "int \<Rightarrow> int \<Rightarrow> 'f option"
  f_of_str :: "string \<Rightarrow> 'f option"

datatype 'f num = NInt int | NFloat 'f

fun num_val :: "'f num \<Rightarrow> 'f val" where
  "num_val (NInt i) = VInt i"
| "num_val (NFloat x) = VFloat x"

text \<open>The numeric reading of a value: \<^verbatim>\<open>isinstance(v, (int, float))\<close>, booleans included.\<close>

fun as_num :: "'f val \<Rightarrow> 'f num option" where
  "as_num (VInt i) = Some (NInt i)"
| "as_num (VBool b) = Some (NInt (if b then 1 else 0))"
| "as_num (VFloat x) = Some (NFloat x)"
| "as_num v = None"

fun num_is_zero :: "'f host \<Rightarrow> 'f num \<Rightarrow> bool" where
  "num_is_zero h (NInt i) = (i = 0)"
| "num_is_zero h (NFloat x) = f_is_zero h x"

text \<open>\<^verbatim>\<open>v == 0\<close> in the host: true for a zero number and for \<^verbatim>\<open>False\<close>, false otherwise.\<close>

definition py_eq_zero :: "'f host \<Rightarrow> 'f val \<Rightarrow> bool" where
  "py_eq_zero h v = (case as_num v of None \<Rightarrow> False | Some n \<Rightarrow> num_is_zero h n)"

fun to_float :: "'f host \<Rightarrow> 'f num \<Rightarrow> 'f option" where
  "to_float h (NInt i) = f_of_int h i"
| "to_float h (NFloat x) = Some x"

definition overflow_error :: error where
  "overflow_error = Err PyOverflowError ''int too large to convert to float'' 0 0"

definition zero_division_error :: error where
  "zero_division_error = Err PyZeroDivisionError ''division by zero'' 0 0"

text \<open>
  The host's own \<^verbatim>\<open>a op b\<close> on two numbers, for \<open>op\<close> one of \<^verbatim>\<open>+ - * / %\<close>: what Python
  computes, with the exceptions it raises. Integer \<^verbatim>\<open>%\<close> is floored, as \<open>mod\<close> on \<open>int\<close>.
\<close>

definition py_num_op :: "'f host \<Rightarrow> string \<Rightarrow> 'f num \<Rightarrow> 'f num \<Rightarrow> error + 'f num" where
  "py_num_op h op a b =
     (case (a, b) of
        (NInt i, NInt j) \<Rightarrow>
          if op = ''+'' then Inr (NInt (i + j))
          else if op = ''-'' then Inr (NInt (i - j))
          else if op = ''*'' then Inr (NInt (i * j))
          else if op = ''/'' then
            (if j = 0 then Inl zero_division_error
             else case i_truediv h i j of
                    None \<Rightarrow> Inl overflow_error
                  | Some x \<Rightarrow> Inr (NFloat x))
          else (if j = 0 then Inl zero_division_error else Inr (NInt (i mod j)))
      | _ \<Rightarrow>
          (case to_float h a of
             None \<Rightarrow> Inl overflow_error
           | Some x \<Rightarrow>
              (case to_float h b of
                 None \<Rightarrow> Inl overflow_error
               | Some y \<Rightarrow>
                   if op = ''+'' then Inr (NFloat (f_add h x y))
                   else if op = ''-'' then Inr (NFloat (f_sub h x y))
                   else if op = ''*'' then Inr (NFloat (f_mul h x y))
                   else if op = ''/'' then
                     (if f_is_zero h y then Inl zero_division_error
                      else Inr (NFloat (f_truediv h x y)))
                   else (if f_is_zero h y then Inl zero_division_error
                         else Inr (NFloat (f_mod h x y))))))"

text \<open>\<^verbatim>\<open>s * n\<close> on a text: \<open>n\<close> copies, none when \<open>n\<close> is not positive.\<close>

definition str_repeat :: "string \<Rightarrow> int \<Rightarrow> string" where
  "str_repeat s n = concat (replicate (nat n) s)"

section \<open>Syntax trees\<close>

text \<open>
  The tuples built by \<^verbatim>\<open>ZiskParser\<close>, one constructor for each tag, with the fields in
  the order of the tuple. An absent child (\<^verbatim>\<open>None\<close>) is \<open>None\<close>. Operators stay texts,
  as in the source.
\<close>

datatype 'f node =
    PROGRAMA "'f node list"
  | BLOQUE "'f node list"
  | DECLARACION_VAR string "string option" "'f node option"
  | DECLARACION_CONST string "string option" "'f node option"
  | DECLARACION_VAR_MIEMBRO string "string option" "'f node option" bool bool
  | DECLARACION_CONST_MIEMBRO string "string option" "'f node option" bool bool
  | FUNCION string "(string \<times> string option) list" "string option" "'f node"
  | METODO string "(string \<times> string option) list" "string option" "'f node" bool bool
  | CLASE string "string option" "'f node list"
  | IMPORTA string "string option"
  | SI "'f node" "'f node" "'f node option"
  | MIENTRAS "'f node" "'f node"
  | PARA "'f node option" "'f node option" "'f node option" "'f node"
  | HACER_MIENTRAS "'f node" "'f node"
  | RETORNA "'f node option" "int \<times> int"
  | BREAK "int \<times> int"
  | CONTINUA "int \<times> int"
  | TRY_CATCH "'f node" "string option" "'f node option" "'f node option"
  | ASIGNACION string "'f node" "'f node"
  | OPERACION_ARITMETICA string "'f node" "'f node"
  | OPERACION_COMPARACION string "'f node" "'f node"
  | OPERACION_LOGICA string "'f node" "'f node"
  | OPERACION_UNARIA string "'f node"
  | LLAMADA "'f node" "'f node list"
  | LLAMADA_NATIVA string "'f node list"
  | CONSTRUCTOR string "'f node list"
  | ACCESO_MIEMBRO "'f node" string
  | ACCESO_INDICE "'f node" "'f node"
  | IDENTIFICADOR string
  | ESTE
  | NUMERO "'f num"
  | CADENA string
  | BOOLEANO bool
  | NULO
  | LISTA_LITERAL "'f node list"
  | OBJETO_LITERAL "(string \<times> 'f node) list"

section \<open>The evaluator's state (class ZiskREPL)\<close>

text \<open>
  A binding of a run-time scope: the value, \<^verbatim>\<open>is_const\<close> and \<^verbatim>\<open>type\<close>. A scope is a
  dictionary in insertion order; \<open>scopes\<close> is the stack as the source holds it, innermost
  scope last. Lists and object literals live in \<open>store\<close>, at the address that is their
  position. \<open>closures\<close> holds, for each \<open>VFunction\<close>, the name, parameters, return type and
  body captured by its wrapper. \<open>stdout\<close> records the arguments of each call of
  \<^verbatim>\<open>mostrar\<close>.
\<close>

type_synonym 'f binding = "'f val \<times> bool \<times> string"

type_synonym 'f scope = "(string \<times> 'f binding) list"

datatype 'f obj = OList "'f val list" | ODict "(string \<times> 'f val) list"

type_synonym 'f closure =
  "string \<times> (string \<times> string option) list \<times> string option \<times> 'f node"

record 'f state =
  scopes :: "'f scope list"
  store :: "'f obj list"
  functions_t :: "(string \<times> 'f val) list"
  closures :: "'f closure list"
  classes_t :: "(string \<times> 'f val) list"
  type_sys :: type_system
  is_in_loop :: int
  is_in_function :: int
  stdout :: "'f val list list"

definition init_state :: "'f state" where
  "init_state =
     \<lparr> scopes = [[]], store = [],
       functions_t =
         [(''mostrar'', VNative ''mostrar''), (''ingresar'', VNative ''ingresar''),
          (''longitud'', VNative ''longitud''), (''tipo_de'', VNative ''tipo_de''),
          (''convertir_a_entero'', VNative ''convertir_a_entero''),
          (''convertir_a_decimal'', VNative ''convertir_a_decimal''),
          (''convertir_a_texto'', VNative ''convertir_a_texto''),
          (''convertir_a_booleano'', VNative ''convertir_a_booleano'')],
       closures = [], classes_t = [], type_sys = init_type_system,
       is_in_loop = 0, is_in_function = 0, stdout = [] \<rparr>"

definition enter_scope :: "'f state \<Rightarrow> 'f state" where
  "enter_scope s = s\<lparr> scopes := scopes s @ [[]] \<rparr>"

definition exit_scope :: "'f state \<Rightarrow> 'f state" where
  "exit_scope s = (if length (scopes s) > 1 then s\<lparr> scopes := butlast (scopes s) \<rparr> else s)"

text \<open>\<^verbatim>\<open>self.scopes[-1]\<close>; the stack is never empty.\<close>

definition get_current_scope :: "'f state \<Rightarrow> 'f scope" where
  "get_current_scope s = last (scopes s)"

text \<open>A declared type counts when it is neither \<^verbatim>\<open>None\<close> nor empty (\<^verbatim>\<open>if tipo_zisk:\<close>).\<close>

definition given_type :: "string option \<Rightarrow> bool" where
  "given_type t = (case t of None \<Rightarrow> False | Some n \<Rightarrow> n \<noteq> [])"

text \<open>\<^verbatim>\<open>_declare_variable\<close>: the new state, or the error raised.\<close>

definition declare_variable ::
  "'f state \<Rightarrow> string \<Rightarrow> 'f val \<Rightarrow> string option \<Rightarrow> bool \<Rightarrow> int \<Rightarrow> int \<Rightarrow> error + 'f state" where
  "declare_variable s name v tipo_zisk is_const linea col =
     (let scope = get_current_scope s in
      if (case map_of scope name of Some (v0, c0, t0) \<Rightarrow> c0 | None \<Rightarrow> False) then
        Inl (Err ZiskRuntimeError
              (''No se puede reasignar la constante '' @ sq @ name @ sq @ ''.'') linea col)
      else if map_of scope name \<noteq> None \<and> is_const then
        Inl (Err ZiskRuntimeError
              (sq @ name @ sq @
               '' ya esta declarada como variable, no puede ser redeclarada como constante.'')
              linea col)
      else
        (case (if given_type tipo_zisk
               then validate_assignment (type_sys s) name v tipo_zisk linea col False
               else Inr ()) of
           Inl e \<Rightarrow> Inl e
         | Inr u \<Rightarrow>
             Inr (s\<lparr> scopes := butlast (scopes s) @
                        [AList.update name
                           (v, is_const,
                            if given_type tipo_zisk then the tipo_zisk
                            else infer_type (type_sys s) v)
                           scope],
                     type_sys := (if given_type tipo_zisk
                                  then add_variable_annotation (type_sys s) name tipo_zisk
                                  else type_sys s) \<rparr>)))"

text \<open>
  The search \<^verbatim>\<open>for scope in reversed(self.scopes): if name in scope\<close>, given the reversed
  stack: the position of the scope found in the stack, and the binding.
\<close>

fun lookup_scopes :: "'f scope list \<Rightarrow> string \<Rightarrow> (nat \<times> 'f binding) option" where
  "lookup_scopes [] name = None"
| "lookup_scopes (scope # outer) name =
     (case map_of scope name of
        Some b \<Rightarrow> Some (length outer, b)
      | None \<Rightarrow> lookup_scopes outer name)"

text \<open>\<^verbatim>\<open>_get_variable_value\<close> (imported modules are not modelled).\<close>

definition get_variable_value :: "'f state \<Rightarrow> string \<Rightarrow> int \<Rightarrow> int \<Rightarrow> error + 'f val" where
  "get_variable_value s name linea col =
     (case lookup_scopes (rev (scopes s)) name of
        Some (i, (v, c, t)) \<Rightarrow> Inr v
      | None \<Rightarrow>
         (case map_of (functions_t s) name of
            Some f \<Rightarrow> Inr f
          | None \<Rightarrow>
             (case map_of (classes_t s) name of
                Some c \<Rightarrow> Inr c
              | None \<Rightarrow>
                  Inl (Err ZiskRuntimeError
                        (''Nombre '' @ sq @ name @ sq @ '' no definido.'') linea col))))"

text \<open>
  \<^verbatim>\<open>_assign_variable\<close>: the only assignment routine that checks \<^verbatim>\<open>is_const\<close>. Nothing in
  \<^verbatim>\<open>execute\<close> calls it.
\<close>

definition assign_variable ::
  "'f state \<Rightarrow> string \<Rightarrow> 'f val \<Rightarrow> int \<Rightarrow> int \<Rightarrow> error + 'f state" where
  "assign_variable s name v linea col =
     (case lookup_scopes (rev (scopes s)) name of
        None \<Rightarrow>
          Inl (Err ZiskRuntimeError
                (''Variable '' @ sq @ name @ sq @ '' no definida.'') linea col)
      | Some (i, (v0, c0, original_type)) \<Rightarrow>
          if c0 then
            Inl (Err ZiskRuntimeError
                  (''No se puede reasignar la constante '' @ sq @ name @ sq @ ''.'') linea col)
          else
            (case (if original_type \<noteq> []
                   then validate_assignment (type_sys s) name v (Some original_type) linea col
                          False
                   else Inr ()) of
               Inl e \<Rightarrow> Inl e
             | Inr u \<Rightarrow>
                 Inr (s\<lparr> scopes := (scopes s)
                        [i := AList.update name
                                (v, False,
                                 if original_type \<noteq> [] then original_type
                                 else infer_type (type_sys s) v)
                                (scopes s ! i)] \<rparr>)))"

text \<open>
  Truth of a value in the host (\<^verbatim>\<open>if v\<close>, \<^verbatim>\<open>not v\<close>): null, false, zero and the empty
  text, list and object are false; everything else is true.
\<close>

definition truthy :: "'f host \<Rightarrow> 'f state \<Rightarrow> 'f val \<Rightarrow> bool" where
  "truthy h s v =
     (case v of
        VNone \<Rightarrow> False
      | VBool b \<Rightarrow> b
      | VInt i \<Rightarrow> i \<noteq> 0
      | VFloat x \<Rightarrow> \<not> f_is_zero h x
      | VStr t \<Rightarrow> t \<noteq> []
      | VList a \<Rightarrow> (case store s ! a of OList xs \<Rightarrow> xs \<noteq> [] | ODict kvs \<Rightarrow> kvs \<noteq> [])
      | VDict a \<Rightarrow> (case store s ! a of OList xs \<Rightarrow> xs \<noteq> [] | ODict kvs \<Rightarrow> kvs \<noteq> [])
      | _ \<Rightarrow> True)"

section \<open>Outcomes of evaluation\<close>

text \<open>
  What a call of the evaluator ends in: a value, a raised error, or one of the three
  control-transfer exceptions (\<^verbatim>\<open>ReturnException\<close>, \<^verbatim>\<open>BreakException\<close>,
  \<^verbatim>\<open>ContinueException\<close>). \<open>OutOfFuel\<close> is the model's bound on the depth of evaluation:
  a run that needs more steps than it was given has not returned. \<open>NotModelled\<close> marks a
  construct this development leaves out (classes and instances, modules, input, host
  operations on whole lists and on floating-point comparisons); neither of the two is
  caught by anything, and no theorem below reads them as a result of the program.
\<close>

datatype ('f, 'a) res =
    Normal 'a | Raise error | ReturnEx "'f val" | BreakEx | ContinueEx
  | OutOfFuel | NotModelled

definition then_do ::
  "('f, 'a) res \<times> 's \<Rightarrow> ('a \<Rightarrow> 's \<Rightarrow> ('f, 'b) res \<times> 's) \<Rightarrow> ('f, 'b) res \<times> 's" where
  "then_do m f =
     (case m of
        (Normal v, s) \<Rightarrow> f v s
      | (Raise e, s) \<Rightarrow> (Raise e, s)
      | (ReturnEx v, s) \<Rightarrow> (ReturnEx v, s)
      | (BreakEx, s) \<Rightarrow> (BreakEx, s)
      | (ContinueEx, s) \<Rightarrow> (ContinueEx, s)
      | (OutOfFuel, s) \<Rightarrow> (OutOfFuel, s)
      | (NotModelled, s) \<Rightarrow> (NotModelled, s))"

definition of_sum :: "error + 'a \<Rightarrow> ('f, 'a) res" where
  "of_sum x = (case x of Inl e \<Rightarrow> Raise e | Inr v \<Rightarrow> Normal v)"

section \<open>Host operations on values\<close>

definition type_error :: "string \<Rightarrow> 'f val \<Rightarrow> 'f val \<Rightarrow> error" where
  "type_error op a b =
     Err PyTypeError
       (''unsupported operand type(s) for '' @ op @ '': '' @ sq @ class_name_of a @ sq
        @ '' and '' @ sq @ class_name_of b @ sq) 0 0"

definition is_container :: "'f val \<Rightarrow> bool" where
  "is_container v =
     (case v of VList a \<Rightarrow> True | VDict a \<Rightarrow> True | VInstance n a \<Rightarrow> True
              | _ \<Rightarrow> False)"

text \<open>
  The host's \<^verbatim>\<open>a op b\<close> for \<open>op\<close> one of \<^verbatim>\<open>+ - * / %\<close> on any two values: arithmetic on
  numbers (booleans count as 0 and 1), concatenation of texts, repetition of a text. A
  mismatch raises the host's \<^verbatim>\<open>TypeError\<close>. Operations that build or format (on lists,
  objects, instances, and \<^verbatim>\<open>%\<close> on a text) are left out.
\<close>

definition py_arith :: "'f host \<Rightarrow> string \<Rightarrow> 'f val \<Rightarrow> 'f val \<Rightarrow> ('f, 'f val) res" where
  "py_arith h op a b =
     (case as_num a of
        Some x \<Rightarrow>
          (case as_num b of
             Some y \<Rightarrow> (case py_num_op h op x y of
                           Inl e \<Rightarrow> Raise e
                         | Inr n \<Rightarrow> Normal (num_val n))
           | None \<Rightarrow>
              (case b of
                 VStr t \<Rightarrow>
                   (case x of
                      NInt i \<Rightarrow> if op = ''*'' then Normal (VStr (str_repeat t i))
                                else Raise (type_error op a b)
                    | NFloat y \<Rightarrow> Raise (type_error op a b))
               | _ \<Rightarrow> if is_container b then NotModelled else Raise (type_error op a b)))
      | None \<Rightarrow>
          (case a of
             VStr t \<Rightarrow>
               if op = ''%'' then NotModelled
               else
                 (case b of
                    VStr u \<Rightarrow> if op = ''+'' then Normal (VStr (t @ u))
                              else Raise (type_error op a b)
                  | VInt n \<Rightarrow> if op = ''*'' then Normal (VStr (str_repeat t n))
                              else Raise (type_error op a b)
                  | VBool c \<Rightarrow> if op = ''*'' then Normal (VStr (str_repeat t (if c then 1 else 0)))
                              else Raise (type_error op a b)
                  | _ \<Rightarrow> if is_container b then NotModelled else Raise (type_error op a b))
           | _ \<Rightarrow> if is_container a \<or> is_container b then NotModelled
                  else Raise (type_error op a b)))"

text \<open>
  \<^verbatim>\<open>a == b\<close>, where it is decided without looking into the store or at floating-point
  numbers (\<open>None\<close> otherwise).
\<close>

definition py_eq :: "'f val \<Rightarrow> 'f val \<Rightarrow> bool option" where
  "py_eq a b =
     (if is_container a \<or> is_container b then None
      else case (as_num a, as_num b) of
             (Some (NInt i), Some (NInt j)) \<Rightarrow> Some (i = j)
           | (Some (NFloat x), _) \<Rightarrow> None
           | (_, Some (NFloat y)) \<Rightarrow> None
           | (Some (NInt i), None) \<Rightarrow> Some False
           | (None, Some (NInt j)) \<Rightarrow> Some False
           | (None, None) \<Rightarrow> Some (a = b))"

text \<open>The order comparisons, decided here between integers (and booleans) only.\<close>

definition py_compare :: "string \<Rightarrow> 'f val \<Rightarrow> 'f val \<Rightarrow> ('f, 'f val) res" where
  "py_compare op a b =
     (case (as_num a, as_num b) of
        (Some (NInt i), Some (NInt j)) \<Rightarrow>
          Normal (VBool (if op = ''<'' then i < j else if op = ''>'' then i > j
                         else if op = ''<='' then i \<le> j else i \<ge> j))
      | (Some x, Some y) \<Rightarrow> NotModelled
      | (Some x, None) \<Rightarrow> if is_container b then NotModelled else Raise (type_error op a b)
      | (None, Some y) \<Rightarrow> if is_container a then NotModelled else Raise (type_error op a b)
      | (None, None) \<Rightarrow>
          (case (a, b) of
             (VStr t, VStr u) \<Rightarrow> NotModelled
           | _ \<Rightarrow> if is_container a \<or> is_container b then NotModelled
                  else Raise (type_error op a b)))"

datatype op_class = Aritmetica | Comparacion | Logica

text \<open>The run-time check of \<^verbatim>\<open>OPERACION_ARITMETICA\<close> on its two operands.\<close>

definition arith_operands_ok :: "string \<Rightarrow> 'f val \<Rightarrow> 'f val \<Rightarrow> bool" where
  "arith_operands_ok op l r =
     ((as_num l \<noteq> None \<and> as_num r \<noteq> None)
      \<or> (op = ''+'' \<and> isinstance l PyStr \<and> isinstance r PyStr)
      \<or> (op = ''*'' \<and> ((isinstance l PyStr \<and> isinstance r PyInt)
                      \<or> (isinstance l PyInt \<and> isinstance r PyStr))))"

text \<open>\<^verbatim>\<open>except TypeError as e: raise ZiskTypeError(...)\<close> around the operator chain.\<close>

definition wrap_type_error :: "string \<Rightarrow> ('f, 'a) res \<Rightarrow> ('f, 'a) res" where
  "wrap_type_error op r =
     (case r of
        Raise e \<Rightarrow>
          if err_kind_of e = PyTypeError
          then Raise (Err ZiskTypeError (''Error de tipo en operacion '' @ sq @ op @ sq) 0 0)
          else Raise e
      | _ \<Rightarrow> r)"

text \<open>
  What \<^verbatim>\<open>execute\<close> does with the two operand values of a binary operation, after the
  short-circuit test: the operand check of the arithmetic node, then the chain of
  \<^verbatim>\<open>if op == ...\<close> inside \<^verbatim>\<open>try\<close>. An operator outside the chain falls through and
  the call returns \<^verbatim>\<open>None\<close>.
\<close>

definition binary_result ::
  "'f host \<Rightarrow> 'f state \<Rightarrow> op_class \<Rightarrow> string \<Rightarrow> 'f val \<Rightarrow> 'f val \<Rightarrow> ('f, 'f val) res" where
  "binary_result h s cls op l r =
     (if cls = Aritmetica \<and> \<not> arith_operands_ok op l r then
        Raise (Err ZiskTypeError
                (''Operacion aritmetica '' @ sq @ op @ sq @ '' requiere operandos numericos'')
                0 0)
      else wrap_type_error op
        (if op = ''+'' \<or> op = ''-'' \<or> op = ''*'' then py_arith h op l r
         else if op = ''/'' then
           (if py_eq_zero h r then Raise (Err ZiskRuntimeError ''Division por cero.'' 0 0)
            else py_arith h op l r)
         else if op = ''%'' then
           (if py_eq_zero h r then Raise (Err ZiskRuntimeError ''Modulo por cero.'' 0 0)
            else py_arith h op l r)
         else if op = ''=='' then
           (case py_eq l r of None \<Rightarrow> NotModelled | Some b \<Rightarrow> Normal (VBool b))
         else if op = ''!='' then
           (case py_eq l r of None \<Rightarrow> NotModelled | Some b \<Rightarrow> Normal (VBool (\<not> b)))
         else if op = ''<'' \<or> op = ''>'' \<or> op = ''<='' \<or> op = ''>='' then py_compare op l r
         else if op = ''&&'' then Normal (if truthy h s l then r else l)
         else if op = ''||'' then Normal (if truthy h s l then l else r)
         else Normal VNone))"

text \<open>\<^verbatim>\<open>OPERACION_UNARIA\<close> on the operand's value.\<close>

definition unary_result :: "'f host \<Rightarrow> 'f state \<Rightarrow> string \<Rightarrow> 'f val \<Rightarrow> ('f, 'f val) res" where
  "unary_result h s op v =
     (if op = ''-'' then
        (case as_num v of
           None \<Rightarrow> Raise (Err ZiskTypeError
                     (''Operador unario '' @ sq @ ''-'' @ sq @ '' requiere operando numerico'') 0 0)
         | Some (NInt i) \<Rightarrow> Normal (VInt (- i))
         | Some (NFloat x) \<Rightarrow> Normal (VFloat (f_neg h x)))
      else if op = ''!'' then Normal (VBool (\<not> truthy h s v))
      else Normal VNone)"

text \<open>\<^verbatim>\<open>validate_function_call\<close> and its loop over the arguments.\<close>

fun validate_args ::
  "type_system \<Rightarrow> string \<Rightarrow> 'f val list \<Rightarrow> (string \<times> string option) list \<Rightarrow> int \<Rightarrow> int
     \<Rightarrow> error + unit" where
  "validate_args ts func_name (arg_value # args) ((param_name, expected_type) # params) linea col =
     (case (if given_type expected_type
            then validate_assignment ts
                   (''parametro '' @ sq @ param_name @ sq @ '' de '' @ sq @ func_name @ sq)
                   arg_value expected_type linea col False
            else Inr ()) of
        Inl e \<Rightarrow> Inl e
      | Inr u \<Rightarrow> validate_args ts func_name args params linea col)"
| "validate_args ts func_name args params linea col = Inr ()"

definition validate_function_call ::
  "type_system \<Rightarrow> string \<Rightarrow> 'f val list \<Rightarrow> (string \<times> string option) list \<Rightarrow> int \<Rightarrow> int
     \<Rightarrow> error + unit" where
  "validate_function_call ts func_name args expected_params linea col =
     (if length args \<noteq> length expected_params then
        Inl (Err ZiskTypeError
              (''Funcion/Metodo '' @ sq @ func_name @ sq @ '' espera otro numero de argumentos'')
              linea col)
      else validate_args ts func_name args expected_params linea col)"

section \<open>Assignment\<close>

text \<open>
  The place \<^verbatim>\<open>_get_lvalue_location\<close> returns: a scope of the stack (by position) and a
  name; an object in the store and a key; a list in the store and the index value, which
  the source carries as \<^verbatim>\<open>str(index_val)\<close>.
\<close>

datatype 'f location = LocScope nat string | LocDict nat string | LocList nat "'f val"

text \<open>
  \<^verbatim>\<open>int(key_or_name)\<close> for a list element, where \<^verbatim>\<open>key_or_name = str(index_val)\<close> and
  \<open>index_val\<close> has passed \<^verbatim>\<open>isinstance(index_val, int)\<close>: an integer comes back
  unchanged; a boolean was written as \<^verbatim>\<open>True\<close> or \<^verbatim>\<open>False\<close>, which \<^verbatim>\<open>int\<close> rejects.
\<close>

definition int_of_index_key :: "'f val \<Rightarrow> error + int" where
  "int_of_index_key index_val =
     (case index_val of
        VInt i \<Rightarrow> Inr i
      | _ \<Rightarrow> Inl (Err PyValueError ''invalid literal for int() with base 10'' 0 0))"

text \<open>\<^verbatim>\<open>final_value_to_assign\<close> from the current value of a list element or object key.\<close>

definition compound_value :: "'f host \<Rightarrow> string \<Rightarrow> 'f val \<Rightarrow> 'f val \<Rightarrow> ('f, 'f val) res" where
  "compound_value h op_str current_value rhs_value =
     (if op_str = ''+='' then py_arith h ''+'' current_value rhs_value
      else if op_str = ''-='' then py_arith h ''-'' current_value rhs_value
      else if op_str = ''*='' then py_arith h ''*'' current_value rhs_value
      else if op_str = ''/='' then
        (if py_eq_zero h rhs_value
         then Raise (Err ZiskRuntimeError ''Division por cero en asignacion.'' 0 0)
         else py_arith h ''/'' current_value rhs_value)
      else if op_str = ''%='' then
        (if py_eq_zero h rhs_value
         then Raise (Err ZiskRuntimeError ''Modulo por cero en asignacion.'' 0 0)
         else py_arith h ''%'' current_value rhs_value)
      else Normal rhs_value)"

text \<open>
  The same for a variable. There \<^verbatim>\<open>lvalue_container\<close> is the scope, a dictionary, so the
  branch \<^verbatim>\<open>current_value = lvalue_container.get(key_or_name)\<close> is taken and the current
  value is the whole entry, the host tuple \<^verbatim>\<open>(value, meta)\<close>, never \<^verbatim>\<open>None\<close>. The host
  then rejects \<^verbatim>\<open>+\<close>, \<^verbatim>\<open>-\<close>, \<^verbatim>\<open>/\<close> and \<^verbatim>\<open>%\<close> between a tuple and a Zisk value; the
  tests for a zero divisor come first. A tuple times an integer is a host operation on
  tuples and is left out.
\<close>

definition tuple_error :: "string \<Rightarrow> 'f val \<Rightarrow> error" where
  "tuple_error op b =
     Err PyTypeError
       (''unsupported operand type(s) for '' @ op @ '': '' @ sq @ ''tuple'' @ sq
        @ '' and '' @ sq @ class_name_of b @ sq) 0 0"

definition compound_value_of_entry ::
  "'f host \<Rightarrow> string \<Rightarrow> 'f val \<Rightarrow> ('f, 'f val) res" where
  "compound_value_of_entry h op_str rhs_value =
     (if op_str = ''+='' then Raise (tuple_error ''+'' rhs_value)
      else if op_str = ''-='' then Raise (tuple_error ''-'' rhs_value)
      else if op_str = ''*='' then
        (if isinstance rhs_value PyInt then NotModelled
         else Raise (tuple_error ''*'' rhs_value))
      else if op_str = ''/='' then
        (if py_eq_zero h rhs_value
         then Raise (Err ZiskRuntimeError ''Division por cero en asignacion.'' 0 0)
         else Raise (tuple_error ''/'' rhs_value))
      else if op_str = ''%='' then
        (if py_eq_zero h rhs_value
         then Raise (Err ZiskRuntimeError ''Modulo por cero en asignacion.'' 0 0)
         else Raise (tuple_error ''%'' rhs_value))
      else Normal rhs_value)"

definition no_initial_value :: "string \<Rightarrow> error" where
  "no_initial_value op_str =
     Err ZiskRuntimeError
       (''Variable/propiedad no tiene valor inicial para operador '' @ sq @ op_str @ sq @ ''.'')
       0 0"

text \<open>
  The rest of the \<^verbatim>\<open>ASIGNACION\<close> branch once the right-hand side and the location are
  known: reading the current value for a compound operator, computing the value to
  assign, and the write. For a variable the write stores \<^verbatim>\<open>is_const: False\<close> and never
  reads the flag of the entry it replaces.
\<close>

definition perform_assignment ::
  "'f host \<Rightarrow> string \<Rightarrow> 'f location \<Rightarrow> 'f val \<Rightarrow> 'f state \<Rightarrow> ('f, 'f val) res \<times> 'f state" where
  "perform_assignment h op_str loc rhs_value s =
     (case loc of
        LocScope i name \<Rightarrow>
          then_do
            ((if op_str \<noteq> ''='' then compound_value_of_entry h op_str rhs_value
              else Normal rhs_value), s)
            (\<lambda>final s.
               let original_type =
                     (case lookup_scopes (rev (scopes s)) name of
                        Some (j, (v0, c0, t0)) \<Rightarrow> t0
                      | None \<Rightarrow> [])
               in case (if original_type \<noteq> []
                        then validate_assignment (type_sys s) name final (Some original_type)
                               0 0 False
                        else Inr ()) of
                    Inl e \<Rightarrow> (Raise e, s)
                  | Inr u \<Rightarrow>
                      (Normal final,
                       s\<lparr> scopes := (scopes s)
                            [i := AList.update name
                                    (final, False,
                                     if original_type \<noteq> [] then original_type
                                     else infer_type (type_sys s) final)
                                    (scopes s ! i)] \<rparr>))
      | LocList a index_val \<Rightarrow>
          (case store s ! a of
             ODict kvs \<Rightarrow> (NotModelled, s)
           | OList xs \<Rightarrow>
              (case int_of_index_key index_val of
                 Inl e \<Rightarrow> (Raise e, s)
               | Inr idx \<Rightarrow>
                  then_do
                    ((if op_str \<noteq> ''='' then
                        (if 0 \<le> idx \<and> idx < int (length xs) then
                           (if xs ! nat idx = VNone then Raise (no_initial_value op_str)
                            else compound_value h op_str (xs ! nat idx) rhs_value)
                         else Raise (Err ZiskRuntimeError
                                      ''Indice fuera de rango para la lista.'' 0 0))
                      else Normal rhs_value), s)
                    (\<lambda>final s.
                       if 0 \<le> idx \<and> idx < int (length xs) then
                         (Normal final, s\<lparr> store := (store s)[a := OList (xs[nat idx := final])] \<rparr>)
                       else if idx = int (length xs) \<and> op_str = ''='' then
                         (Normal final, s\<lparr> store := (store s)[a := OList (xs @ [final])] \<rparr>)
                       else
                         (Raise (Err ZiskRuntimeError
                                  ''Indice fuera de rango para asignacion a lista.'' 0 0), s))))
      | LocDict a key \<Rightarrow>
          (case store s ! a of
             OList xs \<Rightarrow> (NotModelled, s)
           | ODict kvs \<Rightarrow>
               then_do
                 ((if op_str \<noteq> ''='' then
                     (case map_of kvs key of
                        None \<Rightarrow> Raise (no_initial_value op_str)
                      | Some current_value \<Rightarrow>
                          if current_value = VNone then Raise (no_initial_value op_str)
                          else compound_value h op_str current_value rhs_value)
                   else Normal rhs_value), s)
                 (\<lambda>final s.
                    (Normal final,
                     s\<lparr> store := (store s)[a := ODict (AList.update key final kvs)] \<rparr>))))"

text \<open>Binding the arguments of a call, one \<^verbatim>\<open>_declare_variable\<close> after the other.\<close>

fun bind_params ::
  "'f state \<Rightarrow> (string \<times> string option) list \<Rightarrow> 'f val list \<Rightarrow> (error \<times> 'f state) + 'f state" where
  "bind_params s ((p_name, p_type) # params) (a # args) =
     (case declare_variable s p_name a p_type False 0 0 of
        Inl e \<Rightarrow> Inl (e, s)
      | Inr s' \<Rightarrow> bind_params s' params args)"
| "bind_params s params args = Inr s"

text \<open>The handlers of \<^verbatim>\<open>TRY_CATCH\<close>: the error object bound by \<^verbatim>\<open>catch\<close>, and the error
  raised again when there is no \<^verbatim>\<open>catch\<close>.\<close>

definition caught_error :: "error \<Rightarrow> error" where
  "caught_error e =
     (if is_zisk_error (err_kind_of e) then e
      else Err ZiskRuntimeError
             (''Excepcion Python: '' @ err_class_name (err_kind_of e)) 0 0)"

definition uncaught_error :: "error \<Rightarrow> error" where
  "uncaught_error e =
     (if is_zisk_error (err_kind_of e) then e
      else Err ZiskRuntimeError
             (''Error no capturado: '' @ err_class_name (err_kind_of e)) 0 0)"

section \<open>The evaluator (ZiskREPL.execute)\<close>

text \<open>
  \<^verbatim>\<open>execute\<close> calls itself, directly and through the loops it contains. Each of these
  is written first as one step that receives, in a record, the functions it calls; the
  recursion is then closed over a bound on the depth of calls (the fuel).
  The fields stand for: \<^verbatim>\<open>execute\<close>; the statements of a block, carrying \<^verbatim>\<open>result\<close>; the
  elements of an argument list or list literal; the properties of an object literal; the
  loops of \<^verbatim>\<open>MIENTRAS\<close>, \<^verbatim>\<open>PARA\<close> and \<^verbatim>\<open>HACER_MIENTRAS\<close>; \<^verbatim>\<open>_get_lvalue_location\<close>; and the
  wrapper built for a declared function.
\<close>

record 'f evaluator =
  ev_execute :: "'f node \<Rightarrow> 'f state \<Rightarrow> ('f, 'f val) res \<times> 'f state"
  ev_stmts :: "'f node list \<Rightarrow> 'f val \<Rightarrow> 'f state \<Rightarrow> ('f, 'f val) res \<times> 'f state"
  ev_list :: "'f node list \<Rightarrow> 'f state \<Rightarrow> ('f, 'f val list) res \<times> 'f state"
  ev_props :: "(string \<times> 'f node) list \<Rightarrow> (string \<times> 'f val) list \<Rightarrow> 'f state
                 \<Rightarrow> ('f, (string \<times> 'f val) list) res \<times> 'f state"
  ev_mientras :: "'f node \<Rightarrow> 'f node \<Rightarrow> 'f val \<Rightarrow> 'f state \<Rightarrow> ('f, 'f val) res \<times> 'f state"
  ev_para :: "'f node option \<Rightarrow> 'f node option \<Rightarrow> 'f node \<Rightarrow> 'f val \<Rightarrow> 'f state
                \<Rightarrow> ('f, 'f val) res \<times> 'f state"
  ev_hacer :: "'f node \<Rightarrow> 'f node \<Rightarrow> 'f val \<Rightarrow> 'f state \<Rightarrow> ('f, 'f val) res \<times> 'f state"
  ev_lvalue :: "'f node \<Rightarrow> 'f state \<Rightarrow> ('f, 'f location) res \<times> 'f state"
  ev_call :: "'f closure \<Rightarrow> 'f val list \<Rightarrow> 'f state \<Rightarrow> ('f, 'f val) res \<times> 'f state"

text \<open>One call of \<^verbatim>\<open>execute\<close> on a node: the chain of \<^verbatim>\<open>if node_type == ...\<close>, one equation for
  each tag.\<close>

fun execute_node ::
  "'f host \<Rightarrow> 'f evaluator \<Rightarrow> 'f node \<Rightarrow> 'f state \<Rightarrow> ('f, 'f val) res \<times> 'f state" where
  "execute_node h E (PROGRAMA stmts) s = ev_stmts E stmts VNone s"
| "execute_node h E (BLOQUE stmts) s =
     (let (r, s1) = ev_stmts E stmts VNone (enter_scope s) in (r, exit_scope s1))"
| "execute_node h E (DECLARACION_VAR name tipo val_node) s =
     then_do (case val_node of None \<Rightarrow> (Normal VNone, s) | Some vn \<Rightarrow> ev_execute E vn s)
       (\<lambda>v s1. case declare_variable s1 name v tipo False 0 0 of
                  Inl e \<Rightarrow> (Raise e, s1)
                | Inr s2 \<Rightarrow> (Normal v, s2))"
| "execute_node h E (DECLARACION_CONST name tipo val_node) s =
     (case val_node of
        None \<Rightarrow> (Raise (Err ZiskRuntimeError ''Constante debe ser inicializada.'' 0 0), s)
      | Some vn \<Rightarrow>
          then_do (ev_execute E vn s)
            (\<lambda>v s1. case declare_variable s1 name v tipo True 0 0 of
                       Inl e \<Rightarrow> (Raise e, s1)
                     | Inr s2 \<Rightarrow> (Normal v, s2)))"
| "execute_node h E (DECLARACION_VAR_MIEMBRO name tipo val_node es_estatico es_publico) s =
     (Normal VNone, s)"
| "execute_node h E (DECLARACION_CONST_MIEMBRO name tipo val_node es_estatico es_publico) s =
     (Normal VNone, s)"
| "execute_node h E (FUNCION func_name params_desc ret_type body_node) s =
     (Normal VNone,
      s\<lparr> closures := closures s @ [(func_name, params_desc, ret_type, body_node)],
         functions_t := AList.update func_name (VFunction (length (closures s))) (functions_t s),
         type_sys := add_variable_annotation (type_sys s) func_name (Some ''funcion'') \<rparr>)"
| "execute_node h E (METODO name params ret_type body es_estatico es_publico) s =
     (Raise (Err ZiskRuntimeError ''Tipo de nodo AST desconocido o no ejecutable: METODO'' 0 0),
      s)"
| "execute_node h E (CLASE name super miembros) s = (NotModelled, s)"
| "execute_node h E (IMPORTA path alias) s = (NotModelled, s)"
| "execute_node h E (SI cond_node si_node sino_node) s =
     then_do (ev_execute E cond_node s)
       (\<lambda>c s1. if truthy h s1 c then ev_execute E si_node s1
                else (case sino_node of
                        Some sn \<Rightarrow> ev_execute E sn s1
                      | None \<Rightarrow> (Normal VNone, s1)))"
| "execute_node h E (MIENTRAS cond_node cuerpo_node) s =
     (let (r, s1) = ev_mientras E cond_node cuerpo_node VNone
                      (s\<lparr> is_in_loop := is_in_loop s + 1 \<rparr>)
      in (r, s1\<lparr> is_in_loop := is_in_loop s1 - 1 \<rparr>))"
| "execute_node h E (PARA init_node cond_node update_node cuerpo_node) s =
     (let s0 = (enter_scope s)\<lparr> is_in_loop := is_in_loop s + 1 \<rparr>;
          (r, s1) =
            (case (case init_node of
                     None \<Rightarrow> (Normal VNone, s0)
                   | Some i \<Rightarrow> ev_execute E i s0) of
               (Normal v, s') \<Rightarrow> ev_para E cond_node update_node cuerpo_node VNone s'
             | (BreakEx, s') \<Rightarrow> (Normal VNone, s')
             | (r', s') \<Rightarrow> (r', s'))
      in (r, exit_scope (s1\<lparr> is_in_loop := is_in_loop s1 - 1 \<rparr>)))"
| "execute_node h E (HACER_MIENTRAS cuerpo_node cond_node) s =
     (let (r, s1) = ev_hacer E cuerpo_node cond_node VNone
                      (s\<lparr> is_in_loop := is_in_loop s + 1 \<rparr>)
      in (r, s1\<lparr> is_in_loop := is_in_loop s1 - 1 \<rparr>))"
| "execute_node h E (RETORNA val_nodo lc) s =
     (if is_in_function s = 0 then
        (Raise (Err ZiskRuntimeError
                 (sq @ ''retorna'' @ sq @ '' solo puede usarse dentro de una funcion o metodo.'')
                 (fst lc) (snd lc)), s)
      else
        (case (case val_nodo of None \<Rightarrow> (Normal VNone, s) | Some vn \<Rightarrow> ev_execute E vn s) of
           (Normal v, s1) \<Rightarrow> (ReturnEx v, s1)
         | (r, s1) \<Rightarrow> (r, s1)))"
| "execute_node h E (BREAK lc) s =
     (if is_in_loop s = 0 then
        (Raise (Err ZiskRuntimeError
                 (sq @ ''break'' @ sq @ '' solo puede usarse dentro de un bucle.'')
                 (fst lc) (snd lc)), s)
      else (BreakEx, s))"
| "execute_node h E (CONTINUA lc) s =
     (if is_in_loop s = 0 then
        (Raise (Err ZiskRuntimeError
                 (sq @ ''continua'' @ sq @ '' solo puede usarse dentro de un bucle.'')
                 (fst lc) (snd lc)), s)
      else (ContinueEx, s))"
| "execute_node h E (TRY_CATCH try_b err_var_name catch_b finally_b) s =
     (let (r1, s1) = ev_execute E try_b s;
          (r2, s2) =
            (case r1 of
               Raise e \<Rightarrow>
                 (case (catch_b, err_var_name) of
                    (Some cb, Some ev) \<Rightarrow>
                      if ev = [] then (Raise (uncaught_error e), s1)
                      else
                        (case declare_variable (enter_scope s1) ev (VError (caught_error e))
                                (Some ''objeto'') False 0 0 of
                           Inl e' \<Rightarrow> (Raise e', enter_scope s1)
                         | Inr s' \<Rightarrow>
                             (let (rc, sc) = ev_execute E cb s' in (rc, exit_scope sc)))
                  | _ \<Rightarrow> (Raise (uncaught_error e), s1))
             | _ \<Rightarrow> (r1, s1))
      in if r2 = OutOfFuel \<or> r2 = NotModelled then (r2, s2)
         else (case finally_b of
                 None \<Rightarrow> (r2, s2)
               | Some fb \<Rightarrow>
                   (case ev_execute E fb s2 of
                      (Normal v, s3) \<Rightarrow> (r2, s3)
                    | (r3, s3) \<Rightarrow> (r3, s3))))"
| "execute_node h E (ASIGNACION op_str lhs_node_desc rhs_node_expr) s =
     then_do (ev_execute E rhs_node_expr s)
       (\<lambda>rhs_value s1.
          then_do (ev_lvalue E lhs_node_desc s1)
            (\<lambda>loc s2. perform_assignment h op_str loc rhs_value s2))"
| "execute_node h E (OPERACION_ARITMETICA op lhs_node rhs_node) s =
     then_do (ev_execute E lhs_node s)
       (\<lambda>lhs_val s1.
          then_do (ev_execute E rhs_node s1)
            (\<lambda>rhs_val s2. (binary_result h s2 Aritmetica op lhs_val rhs_val, s2)))"
| "execute_node h E (OPERACION_COMPARACION op lhs_node rhs_node) s =
     then_do (ev_execute E lhs_node s)
       (\<lambda>lhs_val s1.
          then_do (ev_execute E rhs_node s1)
            (\<lambda>rhs_val s2. (binary_result h s2 Comparacion op lhs_val rhs_val, s2)))"
| "execute_node h E (OPERACION_LOGICA op lhs_node rhs_node) s =
     then_do (ev_execute E lhs_node s)
       (\<lambda>lhs_val s1.
          if op = ''&&'' \<and> \<not> truthy h s1 lhs_val then (Normal (VBool False), s1)
          else if op = ''||'' \<and> truthy h s1 lhs_val then (Normal (VBool True), s1)
          else
            then_do (ev_execute E rhs_node s1)
              (\<lambda>rhs_val s2. (binary_result h s2 Logica op lhs_val rhs_val, s2)))"
| "execute_node h E (OPERACION_UNARIA op operand_node) s =
     then_do (ev_execute E operand_node s)
       (\<lambda>operand_val s1. (unary_result h s1 op operand_val, s1))"
| "execute_node h E (LLAMADA callee_expr_node arg_expr_nodes) s =
     then_do (ev_list E arg_expr_nodes s)
       (\<lambda>arg_values s1.
          then_do (ev_execute E callee_expr_node s1)
            (\<lambda>callee_val s2.
               case callee_val of
                 VFunction fid \<Rightarrow>
                   (if fid < length (closures s2) then
                      (case closures s2 ! fid of
                         (func_name, params_desc, ret_type, body) \<Rightarrow>
                           (case (if params_desc \<noteq> []
                                  then validate_function_call (type_sys s2) func_name
                                         arg_values params_desc 0 0
                                  else Inr ()) of
                              Inl e \<Rightarrow> (Raise e, s2)
                            | Inr u \<Rightarrow>
                                then_do (ev_call E (closures s2 ! fid) arg_values s2)
                                  (\<lambda>result s3.
                                     case (if given_type ret_type
                                           then validate_assignment (type_sys s3)
                                                  (''retorno de '' @ sq @ func_name @ sq)
                                                  result ret_type 0 0 True
                                           else Inr ()) of
                                       Inl e \<Rightarrow> (Raise e, s3)
                                     | Inr u \<Rightarrow> (Normal result, s3))))
                    else (NotModelled, s2))
               | VNative n \<Rightarrow> (NotModelled, s2)
               | VClass n \<Rightarrow> (NotModelled, s2)
               | VInstance n a \<Rightarrow> (NotModelled, s2)
               | _ \<Rightarrow>
                   (case callee_expr_node of
                      ACCESO_MIEMBRO o_node m \<Rightarrow> (NotModelled, s2)
                    | _ \<Rightarrow>
                        (Raise (Err ZiskTypeError
                                 ''El objeto no es una funcion o metodo llamable.'' 0 0), s2))))"
| "execute_node h E (LLAMADA_NATIVA native_name arg_expr_nodes) s =
     (case map_of (functions_t s) native_name of
        None \<Rightarrow>
          (Raise (Err ZiskRuntimeError
                   (''Funcion nativa '' @ sq @ native_name @ sq
                    @ '' no implementada o no es llamable.'') 0 0), s)
      | Some native_func \<Rightarrow>
          if native_func = VNative ''mostrar'' then
            then_do (ev_list E arg_expr_nodes s)
              (\<lambda>arg_values s1. (Normal VNone, s1\<lparr> stdout := stdout s1 @ [arg_values] \<rparr>))
          else (NotModelled, s))"
| "execute_node h E (CONSTRUCTOR class_name arg_expr_nodes) s = (NotModelled, s)"
| "execute_node h E (ACCESO_MIEMBRO obj_expr_node member_name) s =
     then_do (ev_execute E obj_expr_node s)
       (\<lambda>obj_val s1.
          case obj_val of
            VDict a \<Rightarrow>
              (case store s1 ! a of
                 ODict kvs \<Rightarrow>
                   (case map_of kvs member_name of
                      None \<Rightarrow>
                        (Raise (Err ZiskAttributeError
                                 (''Objeto (diccionario) no tiene la propiedad '' @ sq
                                  @ member_name @ sq @ ''.'') 0 0), s1)
                    | Some v \<Rightarrow> (Normal v, s1))
               | OList xs \<Rightarrow> (NotModelled, s1))
          | _ \<Rightarrow> (NotModelled, s1))"
| "execute_node h E (ACCESO_INDICE coll_node idx_node) s =
     then_do (ev_execute E coll_node s)
       (\<lambda>collection s1.
          then_do (ev_execute E idx_node s1)
            (\<lambda>index s2.
               case collection of
                 VList a \<Rightarrow>
                   (case store s2 ! a of
                      ODict kvs \<Rightarrow> (NotModelled, s2)
                    | OList xs \<Rightarrow>
                        (case as_num index of
                           Some (NInt i) \<Rightarrow>
                             if \<not> (0 \<le> i \<and> i < int (length xs)) then
                               (Raise (Err ZiskIndexError
                                        ''Indice fuera de rango para lista.'' 0 0), s2)
                             else (Normal (xs ! nat i), s2)
                         | _ \<Rightarrow>
                             (Raise (Err ZiskTypeError ''Indice de lista debe ser entero.'' 0 0),
                              s2)))
               | VDict a \<Rightarrow>
                   (case store s2 ! a of
                      OList xs \<Rightarrow> (NotModelled, s2)
                    | ODict kvs \<Rightarrow>
                        (case index of
                           VStr t \<Rightarrow>
                             (case map_of kvs t of
                                None \<Rightarrow>
                                  (Raise (Err ZiskKeyError
                                           (''Clave '' @ sq @ t @ sq
                                            @ '' no encontrada en el objeto (diccionario).'')
                                           0 0), s2)
                              | Some v \<Rightarrow> (Normal v, s2))
                         | _ \<Rightarrow> (NotModelled, s2)))
               | VStr t \<Rightarrow>
                   (case as_num index of
                      Some (NInt i) \<Rightarrow>
                        if \<not> (0 \<le> i \<and> i < int (length t)) then
                          (Raise (Err ZiskIndexError
                                   ''Indice fuera de rango para texto.'' 0 0), s2)
                        else (Normal (VStr [t ! nat i]), s2)
                    | _ \<Rightarrow>
                        (Raise (Err ZiskTypeError ''Indice de texto debe ser entero.'' 0 0), s2))
               | _ \<Rightarrow>
                   (Raise (Err ZiskTypeError
                            (''Tipo '' @ sq @ infer_type (type_sys s2) collection @ sq
                             @ '' no soporta acceso por indice.'') 0 0), s2)))"
| "execute_node h E (IDENTIFICADOR name) s = (of_sum (get_variable_value s name 0 0), s)"
| "execute_node h E ESTE s = (NotModelled, s)"
| "execute_node h E (NUMERO n) s = (Normal (num_val n), s)"
| "execute_node h E (CADENA t) s = (Normal (VStr t), s)"
| "execute_node h E (BOOLEANO b) s = (Normal (VBool b), s)"
| "execute_node h E NULO s = (Normal VNone, s)"
| "execute_node h E (LISTA_LITERAL elems) s =
     then_do (ev_list E elems s)
       (\<lambda>vs s1. (Normal (VList (length (store s1))), s1\<lparr> store := store s1 @ [OList vs] \<rparr>))"
| "execute_node h E (OBJETO_LITERAL props) s =
     then_do (ev_props E props [] s)
       (\<lambda>kvs s1. (Normal (VDict (length (store s1))), s1\<lparr> store := store s1 @ [ODict kvs] \<rparr>))"

text \<open>\<^verbatim>\<open>for stmt_node in ast_node[1]: result = self.execute(stmt_node)\<close>\<close>

fun stmts_step ::
  "'f host \<Rightarrow> 'f evaluator \<Rightarrow> 'f node list \<Rightarrow> 'f val \<Rightarrow> 'f state
     \<Rightarrow> ('f, 'f val) res \<times> 'f state" where
  "stmts_step h E [] result s = (Normal result, s)"
| "stmts_step h E (stmt_node # rest) result s =
     then_do (ev_execute E stmt_node s) (\<lambda>v s1. ev_stmts E rest v s1)"

text \<open>\<^verbatim>\<open>[self.execute(n) for n in nodes]\<close>\<close>

fun list_step ::
  "'f host \<Rightarrow> 'f evaluator \<Rightarrow> 'f node list \<Rightarrow> 'f state
     \<Rightarrow> ('f, 'f val list) res \<times> 'f state" where
  "list_step h E [] s = (Normal [], s)"
| "list_step h E (n # rest) s =
     then_do (ev_execute E n s)
       (\<lambda>v s1. then_do (ev_list E rest s1) (\<lambda>vs s2. (Normal (v # vs), s2)))"

text \<open>\<^verbatim>\<open>for key_str, val_node in ast_node[1]: obj_dict[key_str] = self.execute(val_node)\<close>\<close>

fun props_step ::
  "'f host \<Rightarrow> 'f evaluator \<Rightarrow> (string \<times> 'f node) list \<Rightarrow> (string \<times> 'f val) list
     \<Rightarrow> 'f state \<Rightarrow> ('f, (string \<times> 'f val) list) res \<times> 'f state" where
  "props_step h E [] obj_dict s = (Normal obj_dict, s)"
| "props_step h E ((key_str, val_node) # rest) obj_dict s =
     then_do (ev_execute E val_node s)
       (\<lambda>v s1. ev_props E rest (AList.update key_str v obj_dict) s1)"

text \<open>One turn of the loop of \<^verbatim>\<open>MIENTRAS\<close>, with its two handlers: \<^verbatim>\<open>ContinueException\<close> around
  the body, \<^verbatim>\<open>BreakException\<close> around the whole loop.\<close>

definition mientras_step ::
  "'f host \<Rightarrow> 'f evaluator \<Rightarrow> 'f node \<Rightarrow> 'f node \<Rightarrow> 'f val \<Rightarrow> 'f state
     \<Rightarrow> ('f, 'f val) res \<times> 'f state" where
  "mientras_step h E cond_node cuerpo_node result s =
     (case ev_execute E cond_node s of
        (Normal c, s1) \<Rightarrow>
          if truthy h s1 c then
            (case ev_execute E cuerpo_node s1 of
               (Normal v, s2) \<Rightarrow> ev_mientras E cond_node cuerpo_node v s2
             | (ContinueEx, s2) \<Rightarrow> ev_mientras E cond_node cuerpo_node result s2
             | (BreakEx, s2) \<Rightarrow> (Normal result, s2)
             | (r, s2) \<Rightarrow> (r, s2))
          else (Normal result, s1)
      | (BreakEx, s1) \<Rightarrow> (Normal result, s1)
      | (r, s1) \<Rightarrow> (r, s1))"

text \<open>One turn of the loop of \<^verbatim>\<open>PARA\<close>: condition, body, update.\<close>

definition para_step ::
  "'f host \<Rightarrow> 'f evaluator \<Rightarrow> 'f node option \<Rightarrow> 'f node option \<Rightarrow> 'f node \<Rightarrow> 'f val
     \<Rightarrow> 'f state \<Rightarrow> ('f, 'f val) res \<times> 'f state" where
  "para_step h E cond_node update_node cuerpo_node result s =
     (case (case cond_node of
              None \<Rightarrow> (Normal (VBool True), s)
            | Some c \<Rightarrow> ev_execute E c s) of
        (Normal c, s1) \<Rightarrow>
          if truthy h s1 c then
            (case ev_execute E cuerpo_node s1 of
               (BreakEx, s2) \<Rightarrow> (Normal result, s2)
             | (Raise e, s2) \<Rightarrow> (Raise e, s2)
             | (ReturnEx v, s2) \<Rightarrow> (ReturnEx v, s2)
             | (OutOfFuel, s2) \<Rightarrow> (OutOfFuel, s2)
             | (NotModelled, s2) \<Rightarrow> (NotModelled, s2)
             | (body_r, s2) \<Rightarrow>
                 (let result' = (case body_r of Normal v \<Rightarrow> v | _ \<Rightarrow> result) in
                  case (case update_node of
                          None \<Rightarrow> (Normal VNone, s2)
                        | Some u \<Rightarrow> ev_execute E u s2) of
                    (Normal uv, s3) \<Rightarrow> ev_para E cond_node update_node cuerpo_node result' s3
                  | (BreakEx, s3) \<Rightarrow> (Normal result', s3)
                  | (r, s3) \<Rightarrow> (r, s3)))
          else (Normal result, s1)
      | (BreakEx, s1) \<Rightarrow> (Normal result, s1)
      | (r, s1) \<Rightarrow> (r, s1))"

text \<open>One turn of the loop of \<^verbatim>\<open>HACER_MIENTRAS\<close>: body, then condition.\<close>

definition hacer_step ::
  "'f host \<Rightarrow> 'f evaluator \<Rightarrow> 'f node \<Rightarrow> 'f node \<Rightarrow> 'f val \<Rightarrow> 'f state
     \<Rightarrow> ('f, 'f val) res \<times> 'f state" where
  "hacer_step h E cuerpo_node cond_node result s =
     (case ev_execute E cuerpo_node s of
        (BreakEx, s1) \<Rightarrow> (Normal result, s1)
      | (Raise e, s1) \<Rightarrow> (Raise e, s1)
      | (ReturnEx v, s1) \<Rightarrow> (ReturnEx v, s1)
      | (OutOfFuel, s1) \<Rightarrow> (OutOfFuel, s1)
      | (NotModelled, s1) \<Rightarrow> (NotModelled, s1)
      | (body_r, s1) \<Rightarrow>
          (let result' = (case body_r of Normal v \<Rightarrow> v | _ \<Rightarrow> result) in
           case ev_execute E cond_node s1 of
             (Normal c, s2) \<Rightarrow>
               if \<not> truthy h s2 c then (Normal result', s2)
               else ev_hacer E cuerpo_node cond_node result' s2
           | (BreakEx, s2) \<Rightarrow> (Normal result', s2)
           | (r, s2) \<Rightarrow> (r, s2)))"

text \<open>\<^verbatim>\<open>_get_lvalue_location\<close>\<close>

definition lvalue_step ::
  "'f host \<Rightarrow> 'f evaluator \<Rightarrow> 'f node \<Rightarrow> 'f state
     \<Rightarrow> ('f, 'f location) res \<times> 'f state" where
  "lvalue_step h E lhs_node s =
     (case lhs_node of
        IDENTIFICADOR name \<Rightarrow>
          (case lookup_scopes (rev (scopes s)) name of
             Some (i, b) \<Rightarrow> (Normal (LocScope i name), s)
           | None \<Rightarrow> (Raise (Err PyIndexError ''tuple index out of range'' 0 0), s))
      | ACCESO_MIEMBRO obj_expr_node member_name \<Rightarrow>
          then_do (ev_execute E obj_expr_node s)
            (\<lambda>obj s1.
               case obj of
                 VDict a \<Rightarrow> (Normal (LocDict a member_name), s1)
               | VFunction f \<Rightarrow> (NotModelled, s1)
               | VNative f \<Rightarrow> (NotModelled, s1)
               | VClass c \<Rightarrow> (NotModelled, s1)
               | VInstance c a \<Rightarrow> (NotModelled, s1)
               | VError e \<Rightarrow> (NotModelled, s1)
               | _ \<Rightarrow>
                   (Raise (Err ZiskRuntimeError
                            (''No se puede asignar a la propiedad '' @ sq @ member_name @ sq
                             @ '' de un tipo no objetual/diccionario.'') 0 0), s1))
      | ACCESO_INDICE collection_expr_node index_expr_node \<Rightarrow>
          then_do (ev_execute E collection_expr_node s)
            (\<lambda>collection s1.
               then_do (ev_execute E index_expr_node s1)
                 (\<lambda>index_val s2.
                    case collection of
                      VList a \<Rightarrow>
                        if \<not> isinstance index_val PyInt then
                          (Raise (Err ZiskTypeError
                                   ''El indice de la lista debe ser un entero.'' 0 0), s2)
                        else (Normal (LocList a index_val), s2)
                    | VDict a \<Rightarrow>
                        (case index_val of
                           VStr t \<Rightarrow> (Normal (LocDict a t), s2)
                         | _ \<Rightarrow> (NotModelled, s2))
                    | _ \<Rightarrow>
                        (Raise (Err ZiskTypeError
                                 ''Solo se puede usar acceso por indice en listas o diccionarios.''
                                 0 0), s2)))
      | _ \<Rightarrow>
          (Raise (Err ZiskRuntimeError ''Lado izquierdo de asignacion no valido'' 0 0), s))"

text \<open>\<^verbatim>\<open>zisk_function_wrapper\<close>, the wrapper that \<^verbatim>\<open>FUNCION\<close> builds. The arity test and the
  binding of the parameters come before its \<^verbatim>\<open>try\<close>, so an error there leaves the new
  scope and the raised counter in place.\<close>

definition call_step ::
  "'f host \<Rightarrow> 'f evaluator \<Rightarrow> 'f closure \<Rightarrow> 'f val list \<Rightarrow> 'f state
     \<Rightarrow> ('f, 'f val) res \<times> 'f state" where
  "call_step h E clo args_values s =
     (case clo of
        (func_name, params_desc, ret_type_zisk, body_node) \<Rightarrow>
          (let s0 = (enter_scope s)\<lparr> is_in_function := is_in_function s + 1 \<rparr> in
           if length args_values \<noteq> length params_desc then
             (Raise (Err ZiskRuntimeError
                      (''Funcion '' @ sq @ func_name @ sq
                       @ '' esperaba otro numero de argumentos.'') 0 0), s0)
           else
             (case bind_params s0 params_desc args_values of
                Inl (e, s') \<Rightarrow> (Raise e, s')
              | Inr s1 \<Rightarrow>
                  (case ev_execute E body_node s1 of
                     (OutOfFuel, s2) \<Rightarrow> (OutOfFuel, s2)
                   | (NotModelled, s2) \<Rightarrow> (NotModelled, s2)
                   | (r, s2) \<Rightarrow>
                       (let s3 = exit_scope (s2\<lparr> is_in_function := is_in_function s2 - 1 \<rparr>) in
                        case r of
                          Raise e \<Rightarrow> (Raise e, s3)
                        | BreakEx \<Rightarrow> (BreakEx, s3)
                        | ContinueEx \<Rightarrow> (ContinueEx, s3)
                        | _ \<Rightarrow>
                            (let return_value = (case r of ReturnEx v \<Rightarrow> v | _ \<Rightarrow> VNone) in
                             case (if given_type ret_type_zisk
                                   then validate_assignment (type_sys s3)
                                          (''retorno de '' @ sq @ func_name @ sq)
                                          return_value ret_type_zisk 0 0 True
                                   else Inr ()) of
                               Inl e \<Rightarrow> (Raise e, s3)
                             | Inr u \<Rightarrow> (Normal return_value, s3)))))))"

text \<open>
  Closing the recursion. With no fuel left no call returns; with \<open>Suc k\<close> each function
  takes its step, and the calls it makes have \<open>k\<close>.
\<close>

primrec evaluator_at :: "'f host \<Rightarrow> nat \<Rightarrow> 'f evaluator" where
  "evaluator_at h 0 =
     \<lparr> ev_execute = (\<lambda>n s. (OutOfFuel, s)),
       ev_stmts = (\<lambda>stmts result s. (OutOfFuel, s)),
       ev_list = (\<lambda>nodes s. (OutOfFuel, s)),
       ev_props = (\<lambda>props obj_dict s. (OutOfFuel, s)),
       ev_mientras = (\<lambda>cond_node cuerpo_node result s. (OutOfFuel, s)),
       ev_para = (\<lambda>cond_node update_node cuerpo_node result s. (OutOfFuel, s)),
       ev_hacer = (\<lambda>cuerpo_node cond_node result s. (OutOfFuel, s)),
       ev_lvalue = (\<lambda>lhs_node s. (OutOfFuel, s)),
       ev_call = (\<lambda>clo args_values s. (OutOfFuel, s)) \<rparr>"
| "evaluator_at h (Suc k) =
     \<lparr> ev_execute = execute_node h (evaluator_at h k),
       ev_stmts = stmts_step h (evaluator_at h k),
       ev_list = list_step h (evaluator_at h k),
       ev_props = props_step h (evaluator_at h k),
       ev_mientras = mientras_step h (evaluator_at h k),
       ev_para = para_step h (evaluator_at h k),
       ev_hacer = hacer_step h (evaluator_at h k),
       ev_lvalue = lvalue_step h (evaluator_at h k),
       ev_call = call_step h (evaluator_at h k) \<rparr>"

definition execute ::
  "'f host \<Rightarrow> nat \<Rightarrow> 'f node \<Rightarrow> 'f state \<Rightarrow> ('f, 'f val) res \<times> 'f state" where
  "execute h k = ev_execute (evaluator_at h k)"

definition exec_stmts ::
  "'f host \<Rightarrow> nat \<Rightarrow> 'f node list \<Rightarrow> 'f val \<Rightarrow> 'f state \<Rightarrow> ('f, 'f val) res \<times> 'f state" where
  "exec_stmts h k = ev_stmts (evaluator_at h k)"

definition exec_list ::
  "'f host \<Rightarrow> nat \<Rightarrow> 'f node list \<Rightarrow> 'f state \<Rightarrow> ('f, 'f val list) res \<times> 'f state" where
  "exec_list h k = ev_list (evaluator_at h k)"

definition lvalue_location ::
  "'f host \<Rightarrow> nat \<Rightarrow> 'f node \<Rightarrow> 'f state \<Rightarrow> ('f, 'f location) res \<times> 'f state" where
  "lvalue_location h k = ev_lvalue (evaluator_at h k)"

text \<open>The hierarchy of \<^verbatim>\<open>clase A {}\<close> followed by \<^verbatim>\<open>clase B extiende A {}\<close>.\<close>

definition hierarchy_A_B :: type_system where
  "hierarchy_A_B = add_class (add_class init_type_system ''A'' None) ''B'' (Some ''A'')"

section \<open>The optimizer (ZiskOptimizer.optimize)\<close>

text \<open>
  \<^verbatim>\<open>optimize\<close> returns a tree, or \<^verbatim>\<open>None\<close> for a statement it removes, or lets a host
  exception escape. It first optimizes the children of a node, whatever the node: each
  element of a list child (dropping those that became \<^verbatim>\<open>None\<close>), and each child that is
  itself a tuple whose first component is a text. The result is \<open>NotModelled\<close> where a
  child that the tree type requires has become \<^verbatim>\<open>None\<close>.
\<close>

definition res_bind :: "('f, 'a) res \<Rightarrow> ('a \<Rightarrow> ('f, 'b) res) \<Rightarrow> ('f, 'b) res" where
  "res_bind m f =
     (case m of
        Normal v \<Rightarrow> f v
      | Raise e \<Rightarrow> Raise e
      | ReturnEx v \<Rightarrow> ReturnEx v
      | BreakEx \<Rightarrow> BreakEx
      | ContinueEx \<Rightarrow> ContinueEx
      | OutOfFuel \<Rightarrow> OutOfFuel
      | NotModelled \<Rightarrow> NotModelled)"

text \<open>A list child: the optimized items in order, without those that are \<^verbatim>\<open>None\<close>.\<close>

fun collect :: "('f, 'f node option) res list \<Rightarrow> ('f, 'f node list) res" where
  "collect [] = Normal []"
| "collect (r # rs) =
     res_bind r (\<lambda>item.
       res_bind (collect rs) (\<lambda>items.
         Normal (case item of None \<Rightarrow> items | Some n \<Rightarrow> n # items)))"

text \<open>A child the tree type requires.\<close>

definition need :: "('f, 'f node option) res \<Rightarrow> ('f, 'f node) res" where
  "need r = res_bind r (\<lambda>item. case item of None \<Rightarrow> NotModelled | Some n \<Rightarrow> Normal n)"

text \<open>A child that may be absent.\<close>

definition optional :: "('f, 'f node option) res option \<Rightarrow> ('f, 'f node option) res" where
  "optional r = (case r of None \<Rightarrow> Normal None | Some r' \<Rightarrow> r')"

text \<open>
  The items of a parameter list and of an object literal are pairs whose first component
  is a text, so \<^verbatim>\<open>optimize\<close> takes them for nodes tagged with that text. A pair tagged
  \<^verbatim>\<open>OPERACION_ARITMETICA\<close>, \<^verbatim>\<open>SI\<close> or \<^verbatim>\<open>MIENTRAS\<close> then fails to unpack.
\<close>

definition unpack_error :: error where
  "unpack_error = Err PyValueError ''not enough values to unpack'' 0 0"

definition special_tag :: "string \<Rightarrow> bool" where
  "special_tag t = (t = ''OPERACION_ARITMETICA'' \<or> t = ''SI'' \<or> t = ''MIENTRAS'')"

fun optimize_params ::
  "(string \<times> string option) list \<Rightarrow> ('f, (string \<times> string option) list) res" where
  "optimize_params [] = Normal []"
| "optimize_params ((name, tipo) # rest) =
     (if special_tag name then Raise unpack_error
      else res_bind (optimize_params rest) (\<lambda>ps. Normal ((name, tipo) # ps)))"

fun collect_props ::
  "(string \<times> ('f, 'f node option) res) list \<Rightarrow> ('f, (string \<times> 'f node) list) res" where
  "collect_props [] = Normal []"
| "collect_props ((key, r) # rest) =
     res_bind r (\<lambda>item.
       if special_tag key then Raise unpack_error
       else (case item of
               None \<Rightarrow> NotModelled
             | Some n \<Rightarrow> res_bind (collect_props rest) (\<lambda>ps. Normal ((key, n) # ps))))"

text \<open>
  Constant folding, on the optimized operands. The host computes \<^verbatim>\<open>l_val op r_val\<close>; for
  \<^verbatim>\<open>/\<close> and \<^verbatim>\<open>%\<close> with a zero divisor the source builds a \<^verbatim>\<open>ZiskError\<close> but does not raise
  it, and goes on to divide. Only \<^verbatim>\<open>TypeError\<close> is caught.
\<close>

definition fold_constants ::
  "'f host \<Rightarrow> string \<Rightarrow> 'f node \<Rightarrow> 'f node \<Rightarrow> ('f, 'f node option) res" where
  "fold_constants h op lhs rhs =
     (case (lhs, rhs) of
        (NUMERO l_val, NUMERO r_val) \<Rightarrow>
          if op = ''+'' \<or> op = ''-'' \<or> op = ''*'' \<or> op = ''/'' \<or> op = ''%'' then
            (case py_num_op h op l_val r_val of
               Inr n \<Rightarrow> Normal (Some (NUMERO n))
             | Inl e \<Rightarrow>
                 if err_kind_of e = PyTypeError
                 then Normal (Some (OPERACION_ARITMETICA op lhs rhs))
                 else Raise e)
          else Normal (Some (OPERACION_ARITMETICA op lhs rhs))
      | _ \<Rightarrow> Normal (Some (OPERACION_ARITMETICA op lhs rhs)))"

text \<open>Dead-code elimination on \<^verbatim>\<open>SI\<close> and \<^verbatim>\<open>MIENTRAS\<close>, on the optimized children.\<close>

definition eliminate_si ::
  "'f node \<Rightarrow> 'f node \<Rightarrow> 'f node option \<Rightarrow> ('f, 'f node option) res" where
  "eliminate_si cond si_b sino_b =
     (case cond of
        BOOLEANO b \<Rightarrow> if b then Normal (Some si_b) else Normal sino_b
      | _ \<Rightarrow> Normal (Some (SI cond si_b sino_b)))"

definition eliminate_mientras :: "'f node \<Rightarrow> 'f node \<Rightarrow> ('f, 'f node option) res" where
  "eliminate_mientras cond cuerpo =
     (case cond of
        BOOLEANO b \<Rightarrow> if \<not> b then Normal None else Normal (Some (MIENTRAS cond cuerpo))
      | _ \<Rightarrow> Normal (Some (MIENTRAS cond cuerpo)))"

primrec optimize :: "'f host \<Rightarrow> 'f node \<Rightarrow> ('f, 'f node option) res" where
  "optimize h (PROGRAMA ds) =
     res_bind (collect (map (optimize h) ds)) (\<lambda>ds'. Normal (Some (PROGRAMA ds')))"
| "optimize h (BLOQUE ss) =
     res_bind (collect (map (optimize h) ss)) (\<lambda>ss'. Normal (Some (BLOQUE ss')))"
| "optimize h (DECLARACION_VAR name tipo valor) =
     res_bind (optional (map_option (optimize h) valor))
       (\<lambda>v'. Normal (Some (DECLARACION_VAR name tipo v')))"
| "optimize h (DECLARACION_CONST name tipo valor) =
     res_bind (optional (map_option (optimize h) valor))
       (\<lambda>v'. Normal (Some (DECLARACION_CONST name tipo v')))"
| "optimize h (DECLARACION_VAR_MIEMBRO name tipo valor es_estatico es_publico) =
     res_bind (optional (map_option (optimize h) valor))
       (\<lambda>v'. Normal (Some (DECLARACION_VAR_MIEMBRO name tipo v' es_estatico es_publico)))"
| "optimize h (DECLARACION_CONST_MIEMBRO name tipo valor es_estatico es_publico) =
     res_bind (optional (map_option (optimize h) valor))
       (\<lambda>v'. Normal (Some (DECLARACION_CONST_MIEMBRO name tipo v' es_estatico es_publico)))"
| "optimize h (FUNCION name params tipo_retorno cuerpo) =
     res_bind (optimize_params params) (\<lambda>ps.
       res_bind (need (optimize h cuerpo)) (\<lambda>c'.
         Normal (Some (FUNCION name ps tipo_retorno c'))))"
| "optimize h (METODO name params tipo_retorno cuerpo es_estatico es_publico) =
     res_bind (optimize_params params) (\<lambda>ps.
       res_bind (need (optimize h cuerpo)) (\<lambda>c'.
         Normal (Some (METODO name ps tipo_retorno c' es_estatico es_publico))))"
| "optimize h (CLASE name superclase miembros) =
     res_bind (collect (map (optimize h) miembros))
       (\<lambda>ms'. Normal (Some (CLASE name superclase ms')))"
| "optimize h (IMPORTA path alias) = Normal (Some (IMPORTA path alias))"
| "optimize h (SI cond si_b sino_b) =
     res_bind (need (optimize h cond)) (\<lambda>c'.
       res_bind (need (optimize h si_b)) (\<lambda>si'.
         res_bind (optional (map_option (optimize h) sino_b)) (\<lambda>sino'.
           eliminate_si c' si' sino')))"
| "optimize h (MIENTRAS cond cuerpo) =
     res_bind (need (optimize h cond)) (\<lambda>c'.
       res_bind (need (optimize h cuerpo)) (\<lambda>b'. eliminate_mientras c' b'))"
| "optimize h (PARA inicializacion condicion actualizacion cuerpo) =
     res_bind (optional (map_option (optimize h) inicializacion)) (\<lambda>i'.
       res_bind (optional (map_option (optimize h) condicion)) (\<lambda>c'.
         res_bind (optional (map_option (optimize h) actualizacion)) (\<lambda>a'.
           res_bind (need (optimize h cuerpo)) (\<lambda>b'. Normal (Some (PARA i' c' a' b'))))))"
| "optimize h (HACER_MIENTRAS cuerpo condicion) =
     res_bind (need (optimize h cuerpo)) (\<lambda>b'.
       res_bind (need (optimize h condicion)) (\<lambda>c'. Normal (Some (HACER_MIENTRAS b' c'))))"
| "optimize h (RETORNA valor lc) =
     res_bind (optional (map_option (optimize h) valor)) (\<lambda>v'. Normal (Some (RETORNA v' lc)))"
| "optimize h (BREAK lc) = Normal (Some (BREAK lc))"
| "optimize h (CONTINUA lc) = Normal (Some (CONTINUA lc))"
| "optimize h (TRY_CATCH bloque_try error_var bloque_catch bloque_finally) =
     res_bind (need (optimize h bloque_try)) (\<lambda>t'.
       res_bind (optional (map_option (optimize h) bloque_catch)) (\<lambda>c'.
         res_bind (optional (map_option (optimize h) bloque_finally)) (\<lambda>f'.
           Normal (Some (TRY_CATCH t' error_var c' f')))))"
| "optimize h (ASIGNACION operador izquierda derecha) =
     res_bind (need (optimize h izquierda)) (\<lambda>l'.
       res_bind (need (optimize h derecha)) (\<lambda>r'. Normal (Some (ASIGNACION operador l' r'))))"
| "optimize h (OPERACION_ARITMETICA op lhs rhs) =
     res_bind (need (optimize h lhs)) (\<lambda>l'.
       res_bind (need (optimize h rhs)) (\<lambda>r'. fold_constants h op l' r'))"
| "optimize h (OPERACION_COMPARACION op lhs rhs) =
     res_bind (need (optimize h lhs)) (\<lambda>l'.
       res_bind (need (optimize h rhs)) (\<lambda>r'. Normal (Some (OPERACION_COMPARACION op l' r'))))"
| "optimize h (OPERACION_LOGICA op lhs rhs) =
     res_bind (need (optimize h lhs)) (\<lambda>l'.
       res_bind (need (optimize h rhs)) (\<lambda>r'. Normal (Some (OPERACION_LOGICA op l' r'))))"
| "optimize h (OPERACION_UNARIA op operando) =
     res_bind (need (optimize h operando)) (\<lambda>e'. Normal (Some (OPERACION_UNARIA op e')))"
| "optimize h (LLAMADA callee argumentos) =
     res_bind (need (optimize h callee)) (\<lambda>c'.
       res_bind (collect (map (optimize h) argumentos)) (\<lambda>as'. Normal (Some (LLAMADA c' as'))))"
| "optimize h (LLAMADA_NATIVA nombre argumentos) =
     res_bind (collect (map (optimize h) argumentos))
       (\<lambda>as'. Normal (Some (LLAMADA_NATIVA nombre as')))"
| "optimize h (CONSTRUCTOR clase argumentos) =
     res_bind (collect (map (optimize h) argumentos))
       (\<lambda>as'. Normal (Some (CONSTRUCTOR clase as')))"
| "optimize h (ACCESO_MIEMBRO objeto miembro) =
     res_bind (need (optimize h objeto)) (\<lambda>e'. Normal (Some (ACCESO_MIEMBRO e' miembro)))"
| "optimize h (ACCESO_INDICE coleccion indice) =
     res_bind (need (optimize h coleccion)) (\<lambda>c'.
       res_bind (need (optimize h indice)) (\<lambda>i'. Normal (Some (ACCESO_INDICE c' i'))))"
| "optimize h (IDENTIFICADOR name) = Normal (Some (IDENTIFICADOR name))"
| "optimize h ESTE = Normal (Some ESTE)"
| "optimize h (NUMERO n) = Normal (Some (NUMERO n))"
| "optimize h (CADENA t) = Normal (Some (CADENA t))"
| "optimize h (BOOLEANO b) = Normal (Some (BOOLEANO b))"
| "optimize h NULO = Normal (Some NULO)"
| "optimize h (LISTA_LITERAL elementos) =
     res_bind (collect (map (optimize h) elementos))
       (\<lambda>es'. Normal (Some (LISTA_LITERAL es')))"
| "optimize h (OBJETO_LITERAL propiedades) =
     res_bind (collect_props (map (map_prod id (optimize h)) propiedades))
       (\<lambda>ps'. Normal (Some (OBJETO_LITERAL ps')))"

text \<open>
  The expressions built solely from numeric literals and the binary operators
  \<^verbatim>\<open>+ - * /\<close>.
\<close>

primrec is_arith :: "'f node \<Rightarrow> bool" where
  "is_arith (PROGRAMA ds) = False"
| "is_arith (BLOQUE ss) = False"
| "is_arith (DECLARACION_VAR name tipo valor) = False"
| "is_arith (DECLARACION_CONST name tipo valor) = False"
| "is_arith (DECLARACION_VAR_MIEMBRO name tipo valor es_estatico es_publico) = False"
| "is_arith (DECLARACION_CONST_MIEMBRO name tipo valor es_estatico es_publico) = False"
| "is_arith (FUNCION name params tipo_retorno cuerpo) = False"
| "is_arith (METODO name params tipo_retorno cuerpo es_estatico es_publico) = False"
| "is_arith (CLASE name superclase miembros) = False"
| "is_arith (IMPORTA path alias) = False"
| "is_arith (SI cond si_b sino_b) = False"
| "is_arith (MIENTRAS cond cuerpo) = False"
| "is_arith (PARA inicializacion condicion actualizacion cuerpo) = False"
| "is_arith (HACER_MIENTRAS cuerpo condicion) = False"
| "is_arith (RETORNA valor lc) = False"
| "is_arith (BREAK lc) = False"
| "is_arith (CONTINUA lc) = False"
| "is_arith (TRY_CATCH bloque_try error_var bloque_catch bloque_finally) = False"
| "is_arith (ASIGNACION operador izquierda derecha) = False"
| "is_arith (OPERACION_ARITMETICA op lhs rhs) =
     ((op = ''+'' \<or> op = ''-'' \<or> op = ''*'' \<or> op = ''/'') \<and> is_arith lhs \<and> is_arith rhs)"
| "is_arith (OPERACION_COMPARACION op lhs rhs) = False"
| "is_arith (OPERACION_LOGICA op lhs rhs) = False"
| "is_arith (OPERACION_UNARIA op operando) = False"
| "is_arith (LLAMADA callee argumentos) = False"
| "is_arith (LLAMADA_NATIVA nombre argumentos) = False"
| "is_arith (CONSTRUCTOR clase argumentos) = False"
| "is_arith (ACCESO_MIEMBRO objeto miembro) = False"
| "is_arith (ACCESO_INDICE coleccion indice) = False"
| "is_arith (IDENTIFICADOR name) = False"
| "is_arith ESTE = False"
| "is_arith (NUMERO n) = True"
| "is_arith (CADENA t) = False"
| "is_arith (BOOLEANO b) = False"
| "is_arith NULO = False"
| "is_arith (LISTA_LITERAL elementos) = False"
| "is_arith (OBJETO_LITERAL propiedades) = False"

text \<open>\<^verbatim>\<open>1 / 0\<close>\<close>

definition one_over_zero :: "real node" where
  "one_over_zero = OPERACION_ARITMETICA ''/'' (NUMERO (NInt 1)) (NUMERO (NInt 0))"

section \<open>The parser (class ZiskParser)\<close>

text \<open>
  A token is the lexer's tuple: kind, lexeme, line, column. The parser holds the token
  list, the index of the current token, the stack of parse-time scopes (innermost last)
  and the name of the class being parsed. \<^verbatim>\<open>self.current_token\<close> is kept by the source equal
  to the token at the index, or \<^verbatim>\<open>None\<close> past the end; here it is computed from the two.
  A scope maps a name to its declaration kind and declared type.
\<close>

type_synonym token = "string \<times> string \<times> int \<times> int"

definition tok_kind :: "token \<Rightarrow> string" where
  "tok_kind t = fst t"

definition tok_value :: "token \<Rightarrow> string" where
  "tok_value t = fst (snd t)"

definition tok_line :: "token \<Rightarrow> int" where
  "tok_line t = fst (snd (snd t))"

definition tok_col :: "token \<Rightarrow> int" where
  "tok_col t = snd (snd (snd t))"

type_synonym pscope = "(string \<times> string \<times> string option) list"

record parser =
  tokens :: "token list"
  token_index :: nat
  p_scopes :: "pscope list"
  current_class :: "string option"

definition init_parser :: parser where
  "init_parser = \<lparr> tokens = [], token_index = 0, p_scopes = [[]], current_class = None \<rparr>"

definition current_token :: "parser \<Rightarrow> token option" where
  "current_token p =
     (if token_index p < length (tokens p) then Some (tokens p ! token_index p) else None)"

text \<open>The current token is of the given kind (and lexeme).\<close>

definition at_kind :: "parser \<Rightarrow> string \<Rightarrow> bool" where
  "at_kind p k = (case current_token p of None \<Rightarrow> False | Some t \<Rightarrow> tok_kind t = k)"

definition at_kind_value :: "parser \<Rightarrow> string \<Rightarrow> string \<Rightarrow> bool" where
  "at_kind_value p k v =
     (case current_token p of None \<Rightarrow> False | Some t \<Rightarrow> tok_kind t = k \<and> tok_value t = v)"

text \<open>\<^verbatim>\<open>self.current_token and self.current_token[1] != v\<close>\<close>

definition not_at_value :: "parser \<Rightarrow> string \<Rightarrow> bool" where
  "not_at_value p v = (case current_token p of None \<Rightarrow> False | Some t \<Rightarrow> tok_value t \<noteq> v)"

definition p_enter_scope :: "parser \<Rightarrow> parser" where
  "p_enter_scope p = p\<lparr> p_scopes := p_scopes p @ [[]] \<rparr>"

definition p_exit_scope :: "parser \<Rightarrow> parser" where
  "p_exit_scope p =
     (if length (p_scopes p) > 1 then p\<lparr> p_scopes := butlast (p_scopes p) \<rparr> else p)"

definition current_scope :: "parser \<Rightarrow> pscope" where
  "current_scope p = last (p_scopes p)"

definition variable_declared_in_current_scope :: "parser \<Rightarrow> string \<Rightarrow> bool" where
  "variable_declared_in_current_scope p name = (map_of (current_scope p) name \<noteq> None)"

text \<open>\<^verbatim>\<open>self.current_scope()[name] = (kind, tipo)\<close>\<close>

definition record_declaration :: "parser \<Rightarrow> string \<Rightarrow> string \<Rightarrow> string option \<Rightarrow> parser" where
  "record_declaration p name kind tipo =
     p\<lparr> p_scopes := butlast (p_scopes p) @ [AList.update name (kind, tipo) (current_scope p)] \<rparr>"

text \<open>
  A parse returns its result and the parser as it leaves it, or raises; \<open>PFuel\<close> is the
  model's bound on the depth of calls.
\<close>

datatype 'a presult = POk 'a parser | PErr error | PFuel

definition pbind :: "'a presult \<Rightarrow> ('a \<Rightarrow> parser \<Rightarrow> 'b presult) \<Rightarrow> 'b presult" where
  "pbind m f = (case m of POk x p \<Rightarrow> f x p | PErr e \<Rightarrow> PErr e | PFuel \<Rightarrow> PFuel)"

text \<open>\<^verbatim>\<open>str\<close> of an integer, for the messages that quote a position.\<close>

fun str_nat :: "nat \<Rightarrow> string" where
  "str_nat n =
     (if n < 10 then [char_of (48 + n)] else str_nat (n div 10) @ [char_of (48 + n mod 10)])"

definition str_int :: "int \<Rightarrow> string" where
  "str_int i = (if i < 0 then ''-'' @ str_nat (nat (- i)) else str_nat (nat i))"

text \<open>
  \<^verbatim>\<open>consume\<close>: the current token, checked against the expected kind and lexeme when they
  are given (and not empty); at the end of input the error is placed behind the last token,
  or at (1, 1).
\<close>

definition expected_info :: "string option \<Rightarrow> string option \<Rightarrow> string" where
  "expected_info expected_type expected_value =
     (if given_type expected_type then ''tipo '' @ the expected_type else [])
     @ (if given_type expected_value
        then (if given_type expected_type then '' '' else [])
             @ ''valor '' @ sq @ the expected_value @ sq
        else [])"

definition consume ::
  "string option \<Rightarrow> string option \<Rightarrow> parser \<Rightarrow> token presult" where
  "consume expected_type expected_value p =
     (case current_token p of
        None \<Rightarrow>
          PErr (Err ZiskError
                 (''Se esperaba ''
                  @ (if expected_info expected_type expected_value \<noteq> []
                     then expected_info expected_type expected_value else ''un token'')
                  @ '' pero se llego al final del codigo.''
                  @ (if tokens p \<noteq> [] then
                       '' Ultimo token procesado: '' @ sq @ tok_value (last (tokens p)) @ sq
                       @ '' (tipo '' @ tok_kind (last (tokens p)) @ '') en linea ''
                       @ str_int (tok_line (last (tokens p))) @ '', columna ''
                       @ str_int (tok_col (last (tokens p))) @ ''.''
                     else []))
                 (if tokens p = [] then 1 else tok_line (last (tokens p)))
                 (if tokens p = [] then 1
                  else tok_col (last (tokens p)) + int (length (tok_value (last (tokens p))))))
      | Some t \<Rightarrow>
          if given_type expected_type \<and> tok_kind t \<noteq> the expected_type then
            PErr (Err ZiskError
                   (''Se esperaba token de tipo '' @ the expected_type @ '', pero se encontro ''
                    @ tok_kind t @ '' ('' @ sq @ tok_value t @ sq @ '')'')
                   (tok_line t) (tok_col t))
          else if given_type expected_value \<and> tok_value t \<noteq> the expected_value then
            PErr (Err ZiskError
                   (''Se esperaba valor '' @ sq @ the expected_value @ sq
                    @ '', pero se encontro '' @ sq @ tok_value t @ sq) (tok_line t) (tok_col t))
          else POk t (p\<lparr> token_index := token_index p + 1 \<rparr>))"

definition consume_optional_semicolon :: "parser \<Rightarrow> parser presult" where
  "consume_optional_semicolon p =
     (if at_kind p ''PUNTO_COMA''
      then pbind (consume (Some ''PUNTO_COMA'') None p) (\<lambda>t p'. POk p' p')
      else POk p p)"

text \<open>Error raised where a construct is expected and the input has ended.\<close>

definition eof_error :: "parser \<Rightarrow> string \<Rightarrow> error" where
  "eof_error p what =
     Err ZiskError (''Se esperaba '' @ what @ '', pero se encontro el fin del archivo.'')
       (if tokens p = [] then 1 else tok_line (last (tokens p)))
       (if tokens p = [] then 1 else tok_col (last (tokens p)))"

subsection \<open>Naming conventions\<close>

definition is_lower :: "char \<Rightarrow> bool" where
  "is_lower c = (97 \<le> (of_char c :: nat) \<and> (of_char c :: nat) \<le> 122)"

definition is_upper :: "char \<Rightarrow> bool" where
  "is_upper c = (65 \<le> (of_char c :: nat) \<and> (of_char c :: nat) \<le> 90)"

definition is_digit :: "char \<Rightarrow> bool" where
  "is_digit c = (48 \<le> (of_char c :: nat) \<and> (of_char c :: nat) \<le> 57)"

definition is_word :: "char \<Rightarrow> bool" where
  "is_word c = (is_lower c \<or> is_upper c \<or> is_digit c \<or> c = CHR ''_'')"

text \<open>
  \<^verbatim>\<open>re.match(r'^F R*$', s)\<close> for a first-character class \<open>F\<close> and a class \<open>R\<close> of the rest;
  \<^verbatim>\<open>$\<close> also matches just before a final newline.
\<close>

definition re_name :: "(char \<Rightarrow> bool) \<Rightarrow> (char \<Rightarrow> bool) \<Rightarrow> string \<Rightarrow> bool" where
  "re_name F R s =
     (case s of
        [] \<Rightarrow> False
      | c # cs \<Rightarrow> F c \<and> (list_all R cs
                         \<or> (cs \<noteq> [] \<and> last cs = CHR 0x0A \<and> list_all R (butlast cs))))"

text \<open>\<^verbatim>\<open>^[a-z_][a-zA-Z0-9_]*$\<close>: functions, variables, public methods.\<close>

definition lower_name :: "string \<Rightarrow> bool" where
  "lower_name s = re_name (\<lambda>c. is_lower c \<or> c = CHR ''_'') is_word s"

text \<open>\<^verbatim>\<open>^[A-Z][a-zA-Z0-9_]*$\<close>: classes.\<close>

definition pascal_name :: "string \<Rightarrow> bool" where
  "pascal_name s = re_name is_upper is_word s"

text \<open>\<^verbatim>\<open>^[A-Z_][A-Z0-9_]*$\<close>: constants.\<close>

definition upper_name :: "string \<Rightarrow> bool" where
  "upper_name s =
     re_name (\<lambda>c. is_upper c \<or> c = CHR ''_'') (\<lambda>c. is_upper c \<or> is_digit c \<or> c = CHR ''_'') s"

subsection \<open>Literals\<close>

text \<open>\<^verbatim>\<open>int(token_value)\<close> on a lexeme of decimal digits.\<close>

definition int_of_digits :: "string \<Rightarrow> int" where
  "int_of_digits s = foldl (\<lambda>n c. 10 * n + int (of_char c - 48)) 0 s"


subsection \<open>Expressions\<close>

text \<open>
  The functions of the parser call one another; as for the evaluator, each is written
  as one step over a record of the functions it calls back, and the recursion is closed
  over the fuel. The record holds the entry points of the recursion: \<^verbatim>\<open>parse_declaracion\<close>,
  \<^verbatim>\<open>parse_expresion\<close> (which is \<^verbatim>\<open>parse_expresion_asignacion\<close>), \<^verbatim>\<open>parse_expresion_unaria\<close>,
  and the \<^verbatim>\<open>while\<close> loops: of a binary-operator level, of the postfix chain, of a
  comma-separated list of expressions up to a closing lexeme, of the properties of an
  object literal, of a parameter list, of the statements of a block, of a program, of the
  members of a class and of the modifiers of a member.
\<close>

datatype level = L_or | L_and | L_cmp | L_add | L_mul

record 'f pcalls =
  c_declaracion :: "parser \<Rightarrow> 'f node presult"
  c_expresion :: "parser \<Rightarrow> 'f node presult"
  c_unaria :: "parser \<Rightarrow> 'f node presult"
  c_binloop :: "level \<Rightarrow> 'f node \<Rightarrow> parser \<Rightarrow> 'f node presult"
  c_postfix :: "'f node \<Rightarrow> parser \<Rightarrow> 'f node presult"
  c_exprs :: "string \<Rightarrow> 'f node list \<Rightarrow> parser \<Rightarrow> 'f node list presult"
  c_props :: "(string \<times> 'f node) list \<Rightarrow> parser \<Rightarrow> (string \<times> 'f node) list presult"
  c_params :: "bool \<Rightarrow> (string \<times> string option) list \<Rightarrow> parser
                 \<Rightarrow> (string \<times> string option) list presult"
  c_stmts :: "'f node list \<Rightarrow> parser \<Rightarrow> 'f node list presult"
  c_programa :: "'f node list \<Rightarrow> parser \<Rightarrow> 'f node list presult"
  c_miembros :: "'f node list \<Rightarrow> parser \<Rightarrow> 'f node list presult"
  c_modifiers :: "bool \<Rightarrow> bool \<Rightarrow> parser \<Rightarrow> (bool \<times> bool) presult"

definition level_ops :: "level \<Rightarrow> string list" where
  "level_ops lvl =
     (case lvl of
        L_or \<Rightarrow> [''||'']
      | L_and \<Rightarrow> [''&&'']
      | L_cmp \<Rightarrow> [''=='', ''!='', ''<'', ''>'', ''<='', ''>='']
      | L_add \<Rightarrow> [''+'', ''-'']
      | L_mul \<Rightarrow> [''*'', ''/'', ''%''])"

definition level_node :: "level \<Rightarrow> string \<Rightarrow> 'f node \<Rightarrow> 'f node \<Rightarrow> 'f node" where
  "level_node lvl op izquierda derecha =
     (case lvl of
        L_or \<Rightarrow> OPERACION_LOGICA op izquierda derecha
      | L_and \<Rightarrow> OPERACION_LOGICA op izquierda derecha
      | L_cmp \<Rightarrow> OPERACION_COMPARACION op izquierda derecha
      | L_add \<Rightarrow> OPERACION_ARITMETICA op izquierda derecha
      | L_mul \<Rightarrow> OPERACION_ARITMETICA op izquierda derecha)"

definition parse_expresion_multiplicacion :: "'f pcalls \<Rightarrow> parser \<Rightarrow> 'f node presult" where
  "parse_expresion_multiplicacion C p = pbind (c_unaria C p) (\<lambda>izquierda. c_binloop C L_mul izquierda)"

definition parse_expresion_adicion :: "'f pcalls \<Rightarrow> parser \<Rightarrow> 'f node presult" where
  "parse_expresion_adicion C p =
     pbind (parse_expresion_multiplicacion C p) (\<lambda>izquierda. c_binloop C L_add izquierda)"

definition parse_expresion_comparacion :: "'f pcalls \<Rightarrow> parser \<Rightarrow> 'f node presult" where
  "parse_expresion_comparacion C p =
     pbind (parse_expresion_adicion C p) (\<lambda>izquierda. c_binloop C L_cmp izquierda)"

definition parse_expresion_logica_y :: "'f pcalls \<Rightarrow> parser \<Rightarrow> 'f node presult" where
  "parse_expresion_logica_y C p =
     pbind (parse_expresion_comparacion C p) (\<lambda>izquierda. c_binloop C L_and izquierda)"

definition parse_expresion_logica_o :: "'f pcalls \<Rightarrow> parser \<Rightarrow> 'f node presult" where
  "parse_expresion_logica_o C p =
     pbind (parse_expresion_logica_y C p) (\<lambda>izquierda. c_binloop C L_or izquierda)"

text \<open>The right operand of a level: the next level up.\<close>

definition parse_operand :: "'f pcalls \<Rightarrow> level \<Rightarrow> parser \<Rightarrow> 'f node presult" where
  "parse_operand C lvl p =
     (case lvl of
        L_or \<Rightarrow> parse_expresion_logica_y C p
      | L_and \<Rightarrow> parse_expresion_comparacion C p
      | L_cmp \<Rightarrow> parse_expresion_adicion C p
      | L_add \<Rightarrow> parse_expresion_multiplicacion C p
      | L_mul \<Rightarrow> c_unaria C p)"

text \<open>\<^verbatim>\<open>while\<close> the current token is an operator of the level: consume it, parse the right
  operand, and build the node on the left.\<close>

definition binloop_step :: "'f pcalls \<Rightarrow> level \<Rightarrow> 'f node \<Rightarrow> parser \<Rightarrow> 'f node presult" where
  "binloop_step C lvl izquierda p =
     (case current_token p of
        None \<Rightarrow> POk izquierda p
      | Some t \<Rightarrow>
          if tok_kind t = ''OPERADOR'' \<and> tok_value t \<in> set (level_ops lvl) then
            pbind (consume (Some ''OPERADOR'') None p) (\<lambda>operador_token p1.
              pbind (parse_operand C lvl p1) (\<lambda>derecha p2.
                c_binloop C lvl (level_node lvl (tok_value operador_token) izquierda derecha) p2))
          else POk izquierda p)"

definition is_lvalue :: "'f node \<Rightarrow> bool" where
  "is_lvalue n =
     (case n of IDENTIFICADOR x \<Rightarrow> True | ACCESO_MIEMBRO e m \<Rightarrow> True
              | ACCESO_INDICE e i \<Rightarrow> True | _ \<Rightarrow> False)"

text \<open>\<^verbatim>\<open>parse_expresion_asignacion\<close>\<close>

definition expresion_step :: "'f pcalls \<Rightarrow> parser \<Rightarrow> 'f node presult" where
  "expresion_step C p =
     pbind (parse_expresion_logica_o C p) (\<lambda>izquierda p1.
       case current_token p1 of
         None \<Rightarrow> POk izquierda p1
       | Some t \<Rightarrow>
           if tok_kind t = ''OPERADOR''
              \<and> tok_value t \<in> set [''='', ''+='', ''-='', ''*='', ''/='', ''%=''] then
             pbind (consume (Some ''OPERADOR'') None p1) (\<lambda>op_token p2.
               if \<not> is_lvalue izquierda then
                 PErr (Err ZiskError
                        ''El lado izquierdo de una asignacion debe ser una variable, propiedad o elemento de lista.''
                        (tok_line op_token) (tok_col op_token))
               else
                 pbind (c_expresion C p2) (\<lambda>derecha p3.
                   POk (ASIGNACION (tok_value op_token) izquierda derecha) p3))
           else POk izquierda p1)"

text \<open>\<^verbatim>\<open>while\<close> the current lexeme is not the closing one: a comma after the first
  element, then an expression.\<close>

definition exprs_step ::
  "'f pcalls \<Rightarrow> string \<Rightarrow> 'f node list \<Rightarrow> parser \<Rightarrow> 'f node list presult" where
  "exprs_step C closing acc p =
     (if not_at_value p closing then
        pbind (if acc \<noteq> [] then pbind (consume (Some ''COMA'') None p) (\<lambda>t p'. POk () p')
               else POk () p) (\<lambda>u p1.
          pbind (c_expresion C p1) (\<lambda>e p2. c_exprs C closing (acc @ [e]) p2))
      else POk acc p)"

definition propiedades_step ::
  "'f pcalls \<Rightarrow> (string \<times> 'f node) list \<Rightarrow> parser \<Rightarrow> (string \<times> 'f node) list presult" where
  "propiedades_step C acc p =
     (if not_at_value p ''}'' then
        pbind (if acc \<noteq> [] then pbind (consume (Some ''COMA'') None p) (\<lambda>t p'. POk () p')
               else POk () p) (\<lambda>u p1.
          case current_token p1 of
            None \<Rightarrow> PErr (Err PyTypeError ''NoneType object is not subscriptable'' 0 0)
          | Some clave_token \<Rightarrow>
              pbind
                (if tok_kind clave_token = ''IDENTIFICADOR'' then
                   pbind (consume (Some ''IDENTIFICADOR'') None p1)
                     (\<lambda>t p'. POk (tok_value clave_token) p')
                 else if tok_kind clave_token = ''CADENA'' then
                   pbind (consume (Some ''CADENA'') None p1)
                     (\<lambda>t p'. POk (butlast (tl (tok_value clave_token))) p')
                 else
                   PErr (Err ZiskError
                          ''Se esperaba un identificador o cadena como clave de objeto.''
                          (tok_line clave_token) (tok_col clave_token)))
                (\<lambda>clave_str p2.
                   pbind (consume (Some ''DOS_PUNTOS'') None p2) (\<lambda>t p3.
                     pbind (c_expresion C p3) (\<lambda>valor_expr p4.
                       c_props C (acc @ [(clave_str, valor_expr)]) p4))))
      else POk acc p)"

definition parse_lista_literal :: "'f pcalls \<Rightarrow> parser \<Rightarrow> 'f node presult" where
  "parse_lista_literal C p =
     pbind (consume (Some ''CORCHETE'') (Some ''['') p) (\<lambda>t p1.
       pbind (c_exprs C '']'' [] p1) (\<lambda>elementos p2.
         pbind (consume (Some ''CORCHETE'') (Some '']'') p2) (\<lambda>t p3.
           POk (LISTA_LITERAL elementos) p3)))"

definition parse_objeto_literal :: "'f pcalls \<Rightarrow> parser \<Rightarrow> 'f node presult" where
  "parse_objeto_literal C p =
     pbind (consume (Some ''LLAVE'') (Some ''{'') p) (\<lambda>t p1.
       pbind (c_props C [] p1) (\<lambda>propiedades p2.
         pbind (consume (Some ''LLAVE'') (Some ''}'') p2) (\<lambda>t p3.
           POk (OBJETO_LITERAL propiedades) p3)))"

text \<open>An argument list: \<^verbatim>\<open>(\<close>, expressions, \<^verbatim>\<open>)\<close>.\<close>

definition parse_argumentos :: "'f pcalls \<Rightarrow> parser \<Rightarrow> 'f node list presult" where
  "parse_argumentos C p =
     pbind (consume (Some ''PARENTESIS'') (Some ''('') p) (\<lambda>t p1.
       pbind (c_exprs C '')'' [] p1) (\<lambda>argumentos p2.
         pbind (consume (Some ''PARENTESIS'') (Some '')'') p2) (\<lambda>t p3. POk argumentos p3)))"

definition parse_expresion_primaria :: "'f host \<Rightarrow> 'f pcalls \<Rightarrow> parser \<Rightarrow> 'f node presult" where
  "parse_expresion_primaria h C p =
     (case current_token p of
        None \<Rightarrow> PErr (eof_error p ''una expresion primaria'')
      | Some t \<Rightarrow>
          if tok_kind t = ''IDENTIFICADOR'' then
            pbind (consume (Some ''IDENTIFICADOR'') None p) (\<lambda>u p1.
              POk (IDENTIFICADOR (tok_value t)) p1)
          else if tok_kind t = ''NUMERO'' then
            pbind (consume (Some ''NUMERO'') None p) (\<lambda>u p1.
              if CHR ''.'' \<in> set (tok_value t) then
                (case f_of_str h (tok_value t) of
                   None \<Rightarrow> PErr (Err PyValueError ''could not convert string to float'' 0 0)
                 | Some x \<Rightarrow> POk (NUMERO (NFloat x)) p1)
              else if tok_value t \<noteq> [] \<and> list_all is_digit (tok_value t) then
                POk (NUMERO (NInt (int_of_digits (tok_value t)))) p1
              else PErr (Err PyValueError ''invalid literal for int() with base 10'' 0 0))
          else if tok_kind t = ''CADENA'' then
            pbind (consume (Some ''CADENA'') None p) (\<lambda>u p1.
              POk (CADENA (butlast (tl (tok_value t)))) p1)
          else if tok_kind t = ''VERDADERO'' then
            pbind (consume (Some ''VERDADERO'') None p) (\<lambda>u p1. POk (BOOLEANO True) p1)
          else if tok_kind t = ''FALSO'' then
            pbind (consume (Some ''FALSO'') None p) (\<lambda>u p1. POk (BOOLEANO False) p1)
          else if tok_kind t = ''NULO'' then
            pbind (consume (Some ''NULO'') None p) (\<lambda>u p1. POk NULO p1)
          else if tok_kind t = ''PARENTESIS'' \<and> tok_value t = ''('' then
            pbind (consume (Some ''PARENTESIS'') (Some ''('') p) (\<lambda>u p1.
              pbind (c_expresion C p1) (\<lambda>expresion p2.
                pbind (consume (Some ''PARENTESIS'') (Some '')'') p2) (\<lambda>u p3.
                  POk expresion p3)))
          else if tok_kind t = ''CORCHETE'' \<and> tok_value t = ''['' then parse_lista_literal C p
          else if tok_kind t = ''LLAVE'' \<and> tok_value t = ''{'' then parse_objeto_literal C p
          else if tok_kind t = ''ESTE'' then
            pbind (consume (Some ''ESTE'') None p) (\<lambda>u p1.
              if \<not> given_type (current_class p1) then
                PErr (Err ZiskError
                       (sq @ ''este'' @ sq @ '' solo puede usarse dentro de un metodo de clase.'')
                       (tok_line t) (tok_col t))
              else POk ESTE p1)
          else if tok_kind t = ''NUEVO'' then
            pbind (consume (Some ''NUEVO'') None p) (\<lambda>u p1.
              pbind (consume (Some ''IDENTIFICADOR'') None p1) (\<lambda>clase_nombre_token p2.
                pbind (parse_argumentos C p2) (\<lambda>argumentos p3.
                  POk (CONSTRUCTOR (tok_value clase_nombre_token) argumentos) p3)))
          else if tok_kind t = ''INGRESAR'' then
            pbind (consume (Some ''INGRESAR'') None p) (\<lambda>u p1.
              pbind (consume (Some ''PARENTESIS'') (Some ''('') p1) (\<lambda>u p2.
                pbind (if not_at_value p2 '')''
                       then pbind (c_expresion C p2) (\<lambda>e p'. POk [e] p')
                       else POk [] p2) (\<lambda>prompt p3.
                  pbind (consume (Some ''PARENTESIS'') (Some '')'') p3) (\<lambda>u p4.
                    POk (LLAMADA_NATIVA ''ingresar'' prompt) p4))))
          else
            PErr (Err ZiskError
                   (''Expresion primaria no valida: token inesperado '' @ sq @ tok_value t @ sq
                    @ '' (tipo '' @ tok_kind t @ '')'')
                   (tok_line t) (tok_col t)))"

text \<open>The loop of \<^verbatim>\<open>parse_expresion_llamada_o_acceso\<close> over the suffixes of a primary.\<close>

definition postfix_step :: "'f pcalls \<Rightarrow> 'f node \<Rightarrow> parser \<Rightarrow> 'f node presult" where
  "postfix_step C expr p =
     (case current_token p of
        None \<Rightarrow> POk expr p
      | Some t \<Rightarrow>
          if tok_kind t = ''PARENTESIS'' \<and> tok_value t = ''('' then
            pbind (parse_argumentos C p) (\<lambda>argumentos p1.
              c_postfix C (LLAMADA expr argumentos) p1)
          else if tok_kind t = ''CORCHETE'' \<and> tok_value t = ''['' then
            pbind (consume (Some ''CORCHETE'') (Some ''['') p) (\<lambda>u p1.
              pbind (c_expresion C p1) (\<lambda>indice p2.
                pbind (consume (Some ''CORCHETE'') (Some '']'') p2) (\<lambda>u p3.
                  c_postfix C (ACCESO_INDICE expr indice) p3)))
          else if tok_kind t = ''PUNTO'' then
            pbind (consume (Some ''PUNTO'') None p) (\<lambda>u p1.
              pbind (consume (Some ''IDENTIFICADOR'') None p1) (\<lambda>miembro_token p2.
                c_postfix C (ACCESO_MIEMBRO expr (tok_value miembro_token)) p2))
          else POk expr p)"

definition parse_expresion_llamada_o_acceso ::
  "'f host \<Rightarrow> 'f pcalls \<Rightarrow> parser \<Rightarrow> 'f node presult" where
  "parse_expresion_llamada_o_acceso h C p =
     pbind (parse_expresion_primaria h C p) (\<lambda>expr p1. c_postfix C expr p1)"

text \<open>\<^verbatim>\<open>parse_expresion_unaria\<close>\<close>

definition unaria_step :: "'f host \<Rightarrow> 'f pcalls \<Rightarrow> parser \<Rightarrow> 'f node presult" where
  "unaria_step h C p =
     (if at_kind_value p ''OPERADOR'' ''-'' \<or> at_kind_value p ''OPERADOR'' ''!'' then
        pbind (consume (Some ''OPERADOR'') None p) (\<lambda>operador_token p1.
          pbind (c_unaria C p1) (\<lambda>expresion p2.
            POk (OPERACION_UNARIA (tok_value operador_token) expresion) p2))
      else parse_expresion_llamada_o_acceso h C p)"


subsection \<open>Statements and declarations\<close>

text \<open>An optional type annotation: \<^verbatim>\<open>:\<close> followed by a \<^verbatim>\<open>TIPO\<close> token.\<close>

definition parse_tipo_opcional :: "parser \<Rightarrow> string option presult" where
  "parse_tipo_opcional p =
     (if at_kind p ''DOS_PUNTOS'' then
        pbind (consume (Some ''DOS_PUNTOS'') None p) (\<lambda>t p1.
          pbind (consume (Some ''TIPO'') None p1) (\<lambda>tipo_token p2.
            POk (Some (tok_value tipo_token)) p2))
      else POk None p)"

text \<open>The loop of \<^verbatim>\<open>parse_bloque\<close>: declarations until \<^verbatim>\<open>}\<close>.\<close>

definition stmts_loop_step :: "'f pcalls \<Rightarrow> 'f node list \<Rightarrow> parser \<Rightarrow> 'f node list presult" where
  "stmts_loop_step C acc p =
     (if not_at_value p ''}'' then
        pbind (c_declaracion C p) (\<lambda>d p1. c_stmts C (acc @ [d]) p1)
      else POk acc p)"

text \<open>\<^verbatim>\<open>parse_bloque\<close>: a function or method body reuses the scope of its parameters;
  the scope is left at the end in both cases.\<close>

definition parse_bloque :: "'f pcalls \<Rightarrow> bool \<Rightarrow> parser \<Rightarrow> 'f node presult" where
  "parse_bloque C is_function_body p =
     pbind (consume (Some ''LLAVE'') (Some ''{'')
              (if \<not> is_function_body then p_enter_scope p else p)) (\<lambda>t p1.
       pbind (c_stmts C [] p1) (\<lambda>sentencias p2.
         pbind (consume (Some ''LLAVE'') (Some ''}'') p2) (\<lambda>t p3.
           POk (BLOQUE sentencias) (p_exit_scope p3))))"

definition parse_bloque_o_sentencia :: "'f pcalls \<Rightarrow> parser \<Rightarrow> 'f node presult" where
  "parse_bloque_o_sentencia C p =
     (if at_kind_value p ''LLAVE'' ''{'' then parse_bloque C False p
      else pbind (c_declaracion C (p_enter_scope p)) (\<lambda>sentencia p1.
             POk (BLOQUE [sentencia]) (p_exit_scope p1)))"

text \<open>
  \<^verbatim>\<open>parse_declaracion_variable\<close>. The test for a name already in the innermost scope, and
  the recording of the name, are both skipped for a class member.
\<close>

definition parse_declaracion_variable ::
  "'f pcalls \<Rightarrow> bool \<Rightarrow> bool \<Rightarrow> bool \<Rightarrow> parser \<Rightarrow> 'f node presult" where
  "parse_declaracion_variable C es_miembro es_estatico_miembro es_publico_miembro p =
     pbind (consume (Some ''VAR'') None p) (\<lambda>start_token p1.
       pbind (consume (Some ''IDENTIFICADOR'') None p1) (\<lambda>nombre_token p2.
         if \<not> lower_name (tok_value nombre_token) then
           PErr (Err ZiskError
                  ''Nombre de variable debe usar camelCase o snake_case comenzando con minuscula.''
                  (tok_line nombre_token) (tok_col nombre_token))
         else if \<not> es_miembro \<and> variable_declared_in_current_scope p2 (tok_value nombre_token) then
           PErr (Err ZiskError
                  (''Variable '' @ sq @ tok_value nombre_token @ sq
                   @ '' ya declarada en este ambito.'')
                  (tok_line nombre_token) (tok_col nombre_token))
         else
           pbind (parse_tipo_opcional p2) (\<lambda>tipo p3.
             pbind (if at_kind_value p3 ''OPERADOR'' ''='' then
                      pbind (consume (Some ''OPERADOR'') (Some ''='') p3) (\<lambda>t p'.
                        pbind (c_expresion C p') (\<lambda>v p''. POk (Some v) p''))
                    else POk None p3) (\<lambda>valor p4.
               pbind (consume_optional_semicolon
                        (if \<not> es_miembro
                         then record_declaration p4 (tok_value nombre_token) ''VAR'' tipo
                         else p4)) (\<lambda>u p5.
                 POk (if es_miembro
                      then DECLARACION_VAR_MIEMBRO (tok_value nombre_token) tipo valor
                             es_estatico_miembro es_publico_miembro
                      else DECLARACION_VAR (tok_value nombre_token) tipo valor) p5)))))"

definition parse_declaracion_constante ::
  "'f pcalls \<Rightarrow> bool \<Rightarrow> bool \<Rightarrow> bool \<Rightarrow> parser \<Rightarrow> 'f node presult" where
  "parse_declaracion_constante C es_miembro es_estatico_miembro es_publico_miembro p =
     pbind (consume (Some ''CONST'') None p) (\<lambda>start_token p1.
       pbind (consume (Some ''IDENTIFICADOR'') None p1) (\<lambda>nombre_token p2.
         if \<not> upper_name (tok_value nombre_token) then
           PErr (Err ZiskError
                  ''Nombre de constante debe usar MAYUSCULAS_CON_GUIONES_BAJOS.''
                  (tok_line nombre_token) (tok_col nombre_token))
         else if \<not> es_miembro \<and> variable_declared_in_current_scope p2 (tok_value nombre_token) then
           PErr (Err ZiskError
                  (''Constante '' @ sq @ tok_value nombre_token @ sq
                   @ '' ya declarada en este ambito.'')
                  (tok_line nombre_token) (tok_col nombre_token))
         else
           pbind (parse_tipo_opcional p2) (\<lambda>tipo p3.
             pbind (consume (Some ''OPERADOR'') (Some ''='') p3) (\<lambda>t p4.
               pbind (c_expresion C p4) (\<lambda>valor p5.
                 pbind (consume_optional_semicolon
                          (if \<not> es_miembro
                           then record_declaration p5 (tok_value nombre_token) ''CONST'' tipo
                           else p5)) (\<lambda>u p6.
                   POk (if es_miembro
                        then DECLARACION_CONST_MIEMBRO (tok_value nombre_token) tipo (Some valor)
                               es_estatico_miembro es_publico_miembro
                        else DECLARACION_CONST (tok_value nombre_token) tipo (Some valor)) p6))))))"

definition parse_si :: "'f pcalls \<Rightarrow> parser \<Rightarrow> 'f node presult" where
  "parse_si C p =
     pbind (consume (Some ''SI'') None p) (\<lambda>t p1.
       pbind (c_expresion C p1) (\<lambda>condicion p2.
         pbind (if at_kind p2 ''ENTONCES''
                then pbind (consume (Some ''ENTONCES'') None p2) (\<lambda>t p'. POk () p')
                else POk () p2) (\<lambda>u p3.
           pbind (parse_bloque_o_sentencia C p3) (\<lambda>bloque_si p4.
             pbind (if at_kind p4 ''SINO'' then
                      pbind (consume (Some ''SINO'') None p4) (\<lambda>t p'.
                        pbind (parse_bloque_o_sentencia C p') (\<lambda>b p''. POk (Some b) p''))
                    else POk None p4) (\<lambda>bloque_sino p5.
               POk (SI condicion bloque_si bloque_sino) p5)))))"

definition parse_mientras :: "'f pcalls \<Rightarrow> parser \<Rightarrow> 'f node presult" where
  "parse_mientras C p =
     pbind (consume (Some ''MIENTRAS'') None p) (\<lambda>t p1.
       pbind (c_expresion C p1) (\<lambda>condicion p2.
         pbind (parse_bloque_o_sentencia C p2) (\<lambda>cuerpo p3.
           POk (MIENTRAS condicion cuerpo) p3)))"

definition parse_para :: "'f pcalls \<Rightarrow> parser \<Rightarrow> 'f node presult" where
  "parse_para C p =
     pbind (consume (Some ''PARA'') None p) (\<lambda>t p1.
       pbind (consume (Some ''PARENTESIS'') (Some ''('') p1) (\<lambda>t p2.
         pbind (if current_token p2 \<noteq> None \<and> \<not> at_kind p2 ''PUNTO_COMA'' then
                  (if at_kind p2 ''VAR'' then
                     pbind (parse_declaracion_variable C False False True p2)
                       (\<lambda>d p'. POk (Some d) p')
                   else
                     pbind (c_expresion C p2) (\<lambda>e p'.
                       pbind (consume (Some ''PUNTO_COMA'') None p') (\<lambda>t p''. POk (Some e) p'')))
                else pbind (consume (Some ''PUNTO_COMA'') None p2) (\<lambda>t p'. POk None p'))
           (\<lambda>inicializacion p3.
              pbind (if current_token p3 \<noteq> None \<and> \<not> at_kind p3 ''PUNTO_COMA''
                     then pbind (c_expresion C p3) (\<lambda>e p'. POk (Some e) p')
                     else POk None p3) (\<lambda>condicion p4.
                pbind (consume (Some ''PUNTO_COMA'') None p4) (\<lambda>t p5.
                  pbind (if not_at_value p5 '')''
                         then pbind (c_expresion C p5) (\<lambda>e p'. POk (Some e) p')
                         else POk None p5) (\<lambda>actualizacion p6.
                    pbind (consume (Some ''PARENTESIS'') (Some '')'') p6) (\<lambda>t p7.
                      pbind (parse_bloque_o_sentencia C p7) (\<lambda>cuerpo p8.
                        POk (PARA inicializacion condicion actualizacion cuerpo) p8))))))))"

definition parse_hacer_mientras :: "'f pcalls \<Rightarrow> parser \<Rightarrow> 'f node presult" where
  "parse_hacer_mientras C p =
     pbind (consume (Some ''HACER_MIENTRAS'') None p) (\<lambda>t p1.
       pbind (parse_bloque_o_sentencia C p1) (\<lambda>cuerpo p2.
         pbind (consume (Some ''MIENTRAS'') None p2) (\<lambda>t p3.
           pbind (c_expresion C p3) (\<lambda>condicion p4.
             pbind (consume_optional_semicolon p4) (\<lambda>u p5.
               POk (HACER_MIENTRAS cuerpo condicion) p5)))))"

definition parse_mostrar :: "'f pcalls \<Rightarrow> parser \<Rightarrow> 'f node presult" where
  "parse_mostrar C p =
     pbind (consume (Some ''MOSTRAR'') None p) (\<lambda>t p1.
       pbind (parse_argumentos C p1) (\<lambda>argumentos p2.
         pbind (consume_optional_semicolon p2) (\<lambda>u p3.
           POk (LLAMADA_NATIVA ''mostrar'' argumentos) p3)))"

definition parse_retorna :: "'f pcalls \<Rightarrow> parser \<Rightarrow> 'f node presult" where
  "parse_retorna C p =
     pbind (consume (Some ''RETORNA'') None p) (\<lambda>start_token p1.
       pbind (if current_token p1 \<noteq> None
                 \<and> \<not> (at_kind p1 ''PUNTO_COMA'' \<or> at_kind_value p1 ''LLAVE'' ''}'')
              then pbind (c_expresion C p1) (\<lambda>e p'. POk (Some e) p')
              else POk None p1) (\<lambda>valor p2.
         pbind (consume_optional_semicolon p2) (\<lambda>u p3.
           POk (RETORNA valor (tok_line start_token, tok_col start_token)) p3)))"

definition parse_break :: "parser \<Rightarrow> 'f node presult" where
  "parse_break p =
     pbind (consume (Some ''BREAK'') None p) (\<lambda>start_token p1.
       pbind (consume_optional_semicolon p1) (\<lambda>u p2.
         POk (BREAK (tok_line start_token, tok_col start_token)) p2))"

definition parse_continua :: "parser \<Rightarrow> 'f node presult" where
  "parse_continua p =
     pbind (consume (Some ''CONTINUA'') None p) (\<lambda>start_token p1.
       pbind (consume_optional_semicolon p1) (\<lambda>u p2.
         POk (CONTINUA (tok_line start_token, tok_col start_token)) p2))"

text \<open>
  \<^verbatim>\<open>parse_try_catch\<close>. For a \<^verbatim>\<open>catch\<close> clause the source enters a scope for the error
  variable and then calls \<^verbatim>\<open>parse_bloque()\<close>, which enters a scope of its own and leaves
  one: the scope of the error variable stays on the stack.
\<close>

definition parse_try_catch :: "'f pcalls \<Rightarrow> parser \<Rightarrow> 'f node presult" where
  "parse_try_catch C p =
     pbind (consume (Some ''TRY'') None p) (\<lambda>t p1.
       pbind (parse_bloque C False p1) (\<lambda>bloque_try p2.
         pbind (if at_kind p2 ''CATCH'' then
                  pbind (consume (Some ''CATCH'') None p2) (\<lambda>t p3.
                    pbind (consume (Some ''PARENTESIS'') (Some ''('') p3) (\<lambda>t p4.
                      pbind (consume (Some ''IDENTIFICADOR'') None p4) (\<lambda>error_var_token p5.
                        pbind (consume (Some ''PARENTESIS'') (Some '')'') p5) (\<lambda>t p6.
                          pbind (parse_bloque C False
                                   (record_declaration (p_enter_scope p6)
                                      (tok_value error_var_token) ''VAR_ERROR'' None))
                            (\<lambda>bloque_catch p7.
                               POk (Some (tok_value error_var_token), Some bloque_catch) p7)))))
                else POk (None, None) p2) (\<lambda>(error_var_nombre, bloque_catch) p8.
           pbind (if at_kind p8 ''FINALLY'' then
                    pbind (consume (Some ''FINALLY'') None p8) (\<lambda>t p'.
                      pbind (parse_bloque C False p') (\<lambda>b p''. POk (Some b) p''))
                  else POk None p8) (\<lambda>bloque_finally p9.
             POk (TRY_CATCH bloque_try error_var_nombre bloque_catch bloque_finally) p9))))"

definition parse_importa :: "parser \<Rightarrow> 'f node presult" where
  "parse_importa p =
     pbind (consume (Some ''IMPORTA'') None p) (\<lambda>t p1.
       case current_token p1 of
         None \<Rightarrow> PErr (Err PyTypeError ''NoneType object is not subscriptable'' 0 0)
       | Some t1 \<Rightarrow>
           pbind (if tok_kind t1 = ''CADENA'' then
                    pbind (consume (Some ''CADENA'') None p1)
                      (\<lambda>path_token p'. POk (butlast (tl (tok_value path_token))) p')
                  else if tok_kind t1 = ''IDENTIFICADOR'' then
                    pbind (consume (Some ''IDENTIFICADOR'') None p1)
                      (\<lambda>modulo_token p'. POk (tok_value modulo_token) p')
                  else
                    PErr (Err ZiskError
                           (''Se esperaba un nombre de modulo (identificador) o una ruta (cadena) despues de ''
                            @ sq @ ''importa'' @ sq @ ''.'')
                           (tok_line t1) (tok_col t1))) (\<lambda>path_modulo_str p2.
             pbind (if at_kind p2 ''COMO'' then
                      pbind (consume (Some ''COMO'') None p2) (\<lambda>t p'.
                        pbind (consume (Some ''IDENTIFICADOR'') None p') (\<lambda>alias_token p''.
                          POk (Some (tok_value alias_token)) p''))
                    else POk None p2) (\<lambda>alias_modulo p3.
               pbind (consume_optional_semicolon p3) (\<lambda>u p4.
                 POk (IMPORTA path_modulo_str alias_modulo) p4))))"

definition parse_sentencia :: "'f pcalls \<Rightarrow> parser \<Rightarrow> 'f node presult" where
  "parse_sentencia C p =
     (case current_token p of
        None \<Rightarrow> PErr (eof_error p ''una sentencia'')
      | Some t \<Rightarrow>
          if tok_kind t = ''SI'' then parse_si C p
          else if tok_kind t = ''MIENTRAS'' then parse_mientras C p
          else if tok_kind t = ''PARA'' then parse_para C p
          else if tok_kind t = ''HACER_MIENTRAS'' then parse_hacer_mientras C p
          else if tok_kind t = ''MOSTRAR'' then parse_mostrar C p
          else if tok_kind t = ''INGRESAR'' then
            pbind (c_expresion C p) (\<lambda>expr p1.
              pbind (consume_optional_semicolon p1) (\<lambda>u p2. POk expr p2))
          else if tok_kind t = ''RETORNA'' then parse_retorna C p
          else if tok_kind t = ''BREAK'' then parse_break p
          else if tok_kind t = ''CONTINUA'' then parse_continua p
          else if tok_kind t = ''TRY'' then parse_try_catch C p
          else if tok_kind t = ''LLAVE'' \<and> tok_value t = ''{'' then parse_bloque C False p
          else
            pbind (c_expresion C p) (\<lambda>expr p1.
              pbind (consume_optional_semicolon p1) (\<lambda>u p2. POk expr p2)))"

text \<open>
  The loop over a parameter list, which records each parameter in the scope entered
  for them; a method rejects the name \<^verbatim>\<open>este\<close>.
\<close>

definition params_step ::
  "'f pcalls \<Rightarrow> bool \<Rightarrow> (string \<times> string option) list \<Rightarrow> parser
     \<Rightarrow> (string \<times> string option) list presult" where
  "params_step C is_method parametros p =
     (if not_at_value p '')'' then
        pbind (if parametros \<noteq> [] then pbind (consume (Some ''COMA'') None p) (\<lambda>t p'. POk () p')
               else POk () p) (\<lambda>u p1.
          pbind (consume (Some ''IDENTIFICADOR'') None p1) (\<lambda>param_token p2.
            if is_method \<and> tok_value param_token = ''este'' then
              PErr (Err ZiskError
                     (sq @ ''este'' @ sq
                      @ '' es una palabra reservada y no puede ser un nombre de parametro.'')
                     (tok_line param_token) (tok_col param_token))
            else
              pbind (parse_tipo_opcional p2) (\<lambda>tipo_param p3.
                c_params C is_method (parametros @ [(tok_value param_token, tipo_param)])
                  (record_declaration p3 (tok_value param_token) ''PARAM'' tipo_param))))
      else POk parametros p)"

definition parse_funcion :: "'f pcalls \<Rightarrow> parser \<Rightarrow> 'f node presult" where
  "parse_funcion C p =
     pbind (consume (Some ''FUNCION'') None p) (\<lambda>t p1.
       pbind (consume (Some ''IDENTIFICADOR'') None p1) (\<lambda>nombre_token p2.
         if \<not> lower_name (tok_value nombre_token) then
           PErr (Err ZiskError
                  ''Nombre de funcion debe usar camelCase o snake_case comenzando con minuscula.''
                  (tok_line nombre_token) (tok_col nombre_token))
         else
           pbind (consume (Some ''PARENTESIS'') (Some ''('') p2) (\<lambda>t p3.
             pbind (c_params C False [] (p_enter_scope p3)) (\<lambda>parametros p4.
               pbind (consume (Some ''PARENTESIS'') (Some '')'') p4) (\<lambda>t p5.
                 pbind (parse_tipo_opcional p5) (\<lambda>tipo_retorno p6.
                   pbind (parse_bloque C True p6) (\<lambda>cuerpo p7.
                     POk (FUNCION (tok_value nombre_token) parametros tipo_retorno cuerpo)
                       p7)))))))"

definition parse_metodo_clase :: "'f pcalls \<Rightarrow> bool \<Rightarrow> bool \<Rightarrow> parser \<Rightarrow> 'f node presult" where
  "parse_metodo_clase C es_estatico es_publico p =
     pbind (consume (Some ''FUNCION'') None p) (\<lambda>t p1.
       pbind (consume (Some ''IDENTIFICADOR'') None p1) (\<lambda>nombre_token p2.
         if es_publico \<and> \<not> lower_name (tok_value nombre_token) then
           PErr (Err ZiskError
                  ''Nombre de metodo publico debe usar camelCase o snake_case comenzando con minuscula.''
                  (tok_line nombre_token) (tok_col nombre_token))
         else if \<not> es_publico
                 \<and> \<not> (take 1 (tok_value nombre_token) = ''_'' \<or> lower_name (tok_value nombre_token))
                 \<and> take 1 (tok_value nombre_token) \<noteq> ''_'' then
           PErr (Err ZiskError
                  (''Nombre de metodo privado convencionalmente debe comenzar con '' @ sq @ ''_''
                   @ sq @ ''.'')
                  (tok_line nombre_token) (tok_col nombre_token))
         else
           pbind (consume (Some ''PARENTESIS'') (Some ''('') p2) (\<lambda>t p3.
             pbind (c_params C True [] (p_enter_scope p3)) (\<lambda>parametros p4.
               pbind (consume (Some ''PARENTESIS'') (Some '')'') p4) (\<lambda>t p5.
                 pbind (parse_tipo_opcional p5) (\<lambda>tipo_retorno p6.
                   pbind (parse_bloque C True p6) (\<lambda>cuerpo p7.
                     POk (METODO (tok_value nombre_token) parametros tipo_retorno cuerpo
                            es_estatico es_publico) p7)))))))"

definition parse_declaracion_miembro_clase ::
  "'f pcalls \<Rightarrow> bool \<Rightarrow> bool \<Rightarrow> parser \<Rightarrow> 'f node presult" where
  "parse_declaracion_miembro_clase C es_estatico es_publico p =
     (if at_kind p ''VAR'' then parse_declaracion_variable C True es_estatico es_publico p
      else if at_kind p ''CONST'' then parse_declaracion_constante C True es_estatico es_publico p
      else case current_token p of
             None \<Rightarrow> PErr (Err PyTypeError ''NoneType object is not subscriptable'' 0 0)
           | Some t \<Rightarrow>
               PErr (Err ZiskError ''Se esperaba declaracion de variable o constante de miembro.''
                      (tok_line t) (tok_col t)))"

text \<open>The loop over the modifiers of a member: the flags as they stand after it.\<close>

definition modifiers_step ::
  "'f pcalls \<Rightarrow> bool \<Rightarrow> bool \<Rightarrow> parser \<Rightarrow> (bool \<times> bool) presult" where
  "modifiers_step C es_estatico es_publico p =
     (if at_kind p ''ESTATICO'' \<or> at_kind p ''PUBLICO'' \<or> at_kind p ''PRIVADO'' then
        pbind (consume None None p) (\<lambda>mod_token p1.
          if tok_kind mod_token = ''ESTATICO'' then c_modifiers C True es_publico p1
          else if tok_kind mod_token = ''PUBLICO'' then c_modifiers C es_estatico True p1
          else c_modifiers C es_estatico False p1)
      else POk (es_estatico, es_publico) p)"

text \<open>The loop over the members of a class body.\<close>

definition miembros_step :: "'f pcalls \<Rightarrow> 'f node list \<Rightarrow> parser \<Rightarrow> 'f node list presult" where
  "miembros_step C miembros p =
     (if not_at_value p ''}'' then
        pbind (c_modifiers C False True p) (\<lambda>(es_estatico, es_publico) p1.
          if at_kind p1 ''VAR'' \<or> at_kind p1 ''CONST'' then
            pbind (parse_declaracion_miembro_clase C es_estatico es_publico p1) (\<lambda>m p2.
              c_miembros C (miembros @ [m]) p2)
          else if at_kind p1 ''FUNCION'' then
            pbind (parse_metodo_clase C es_estatico es_publico p1) (\<lambda>m p2.
              c_miembros C (miembros @ [m]) p2)
          else
            (case current_token p1 of
               None \<Rightarrow>
                 PErr (Err ZiskError
                        (''Se esperaba un miembro de clase o '' @ sq @ ''}'' @ sq
                         @ '' pero se encontro el fin del archivo.'')
                        (tok_line (last (tokens p1))) (tok_col (last (tokens p1))))
             | Some t \<Rightarrow>
                 PErr (Err ZiskError
                        (''En una clase solo se permiten variables, constantes y metodos. Encontrado: ''
                         @ tok_kind t) (tok_line t) (tok_col t))))
      else POk miembros p)"

definition parse_clase :: "'f pcalls \<Rightarrow> parser \<Rightarrow> 'f node presult" where
  "parse_clase C p =
     pbind (consume (Some ''CLASE'') None p) (\<lambda>t p1.
       pbind (consume (Some ''IDENTIFICADOR'') None p1) (\<lambda>nombre_token p2.
         if \<not> pascal_name (tok_value nombre_token) then
           PErr (Err ZiskError ''Nombre de clase debe usar PascalCase.''
                  (tok_line nombre_token) (tok_col nombre_token))
         else
           pbind (if at_kind p2 ''EXTIENDE'' then
                    pbind (consume (Some ''EXTIENDE'') None p2) (\<lambda>t p'.
                      pbind (consume (Some ''IDENTIFICADOR'') None p') (\<lambda>superclase_token p''.
                        POk (Some (tok_value superclase_token)) p''))
                  else POk None p2) (\<lambda>superclase p3.
             pbind (consume (Some ''LLAVE'') (Some ''{'')
                      (p_enter_scope (p3\<lparr> current_class := Some (tok_value nombre_token) \<rparr>)))
               (\<lambda>t p4.
                  pbind (c_miembros C [] p4) (\<lambda>miembros p5.
                    pbind (consume (Some ''LLAVE'') (Some ''}'') p5) (\<lambda>t p6.
                      POk (CLASE (tok_value nombre_token) superclase miembros)
                        ((p_exit_scope p6)\<lparr> current_class := current_class p3 \<rparr>)))))))"

text \<open>\<^verbatim>\<open>parse_declaracion\<close>\<close>

definition declaracion_step :: "'f pcalls \<Rightarrow> parser \<Rightarrow> 'f node presult" where
  "declaracion_step C p =
     (case current_token p of
        None \<Rightarrow> PErr (eof_error p ''una declaracion'')
      | Some t \<Rightarrow>
          if tok_kind t = ''FUNCION'' then parse_funcion C p
          else if tok_kind t = ''CLASE'' then parse_clase C p
          else if tok_kind t = ''VAR'' then parse_declaracion_variable C False False True p
          else if tok_kind t = ''CONST'' then parse_declaracion_constante C False False True p
          else if tok_kind t = ''IMPORTA'' then parse_importa p
          else parse_sentencia C p)"

text \<open>The loop of \<^verbatim>\<open>parse_programa\<close>: declarations while a token remains.\<close>

definition programa_step :: "'f pcalls \<Rightarrow> 'f node list \<Rightarrow> parser \<Rightarrow> 'f node list presult" where
  "programa_step C declaraciones p =
     (if current_token p \<noteq> None then
        pbind (c_declaracion C p) (\<lambda>d p1. c_programa C (declaraciones @ [d]) p1)
      else POk declaraciones p)"

text \<open>Closing the recursion over the fuel.\<close>

primrec parser_at :: "'f host \<Rightarrow> nat \<Rightarrow> 'f pcalls" where
  "parser_at h 0 =
     \<lparr> c_declaracion = (\<lambda>p. PFuel), c_expresion = (\<lambda>p. PFuel), c_unaria = (\<lambda>p. PFuel),
       c_binloop = (\<lambda>lvl izquierda p. PFuel), c_postfix = (\<lambda>expr p. PFuel),
       c_exprs = (\<lambda>closing acc p. PFuel), c_props = (\<lambda>acc p. PFuel),
       c_params = (\<lambda>is_method acc p. PFuel), c_stmts = (\<lambda>acc p. PFuel),
       c_programa = (\<lambda>acc p. PFuel), c_miembros = (\<lambda>acc p. PFuel),
       c_modifiers = (\<lambda>es_estatico es_publico p. PFuel) \<rparr>"
| "parser_at h (Suc k) =
     \<lparr> c_declaracion = declaracion_step (parser_at h k),
       c_expresion = expresion_step (parser_at h k),
       c_unaria = unaria_step h (parser_at h k),
       c_binloop = binloop_step (parser_at h k),
       c_postfix = postfix_step (parser_at h k),
       c_exprs = exprs_step (parser_at h k),
       c_props = propiedades_step (parser_at h k),
       c_params = params_step (parser_at h k),
       c_stmts = stmts_loop_step (parser_at h k),
       c_programa = programa_step (parser_at h k),
       c_miembros = miembros_step (parser_at h k),
       c_modifiers = modifiers_step (parser_at h k) \<rparr>"

definition parse_declaracion :: "'f host \<Rightarrow> nat \<Rightarrow> parser \<Rightarrow> 'f node presult" where
  "parse_declaracion h k = c_declaracion (parser_at h k)"

definition parse_expresion :: "'f host \<Rightarrow> nat \<Rightarrow> parser \<Rightarrow> 'f node presult" where
  "parse_expresion h k = c_expresion (parser_at h k)"

definition parse_programa :: "'f host \<Rightarrow> nat \<Rightarrow> parser \<Rightarrow> 'f node presult" where
  "parse_programa h k p =
     pbind (c_programa (parser_at h k) [] p) (\<lambda>declaraciones p1. POk (PROGRAMA declaraciones) p1)"

text \<open>\<^verbatim>\<open>parse\<close>: a new token list, from its start; the scopes are those the parser holds.\<close>

definition parse :: "'f host \<Rightarrow> nat \<Rightarrow> token list \<Rightarrow> parser \<Rightarrow> 'f node presult" where
  "parse h k toks p = parse_programa h k (p\<lparr> tokens := toks, token_index := 0 \<rparr>)"


subsection \<open>Functions that leave the scopes as they found them\<close>

text \<open>
  A parsing function keeps the scopes when, whenever it returns, the stack of scopes is
  the one it was called with. The functions of the expression grammar do, provided the
  functions they call back do.
\<close>

definition keeps_scopes :: "(parser \<Rightarrow> 'a presult) \<Rightarrow> bool" where
  "keeps_scopes f = (\<forall>p r p'. f p = POk r p' \<longrightarrow> p_scopes p' = p_scopes p)"

definition expression_calls_keep_scopes :: "'f pcalls \<Rightarrow> bool" where
  "expression_calls_keep_scopes C =
     (keeps_scopes (c_expresion C) \<and> keeps_scopes (c_unaria C)
      \<and> (\<forall>lvl izquierda. keeps_scopes (c_binloop C lvl izquierda))
      \<and> (\<forall>expr. keeps_scopes (c_postfix C expr))
      \<and> (\<forall>closing acc. keeps_scopes (c_exprs C closing acc))
      \<and> (\<forall>acc. keeps_scopes (c_props C acc)))"


section \<open>Concrete inputs\<close>

text \<open>
  A host to run examples on: exact arithmetic on the reals in place of floating point, and
  a reading of the decimal literals of the lexer (digits, a point, digits) only.
  None of the examples below computes with a floating-point number.
\<close>

definition real_of_decimal :: "string \<Rightarrow> real option" where
  "real_of_decimal s =
     (let a = takeWhile (\<lambda>c. c \<noteq> CHR ''.'') s;
          b = drop 1 (dropWhile (\<lambda>c. c \<noteq> CHR ''.'') s)
      in if a \<noteq> [] \<and> b \<noteq> [] \<and> list_all is_digit a \<and> list_all is_digit b
         then Some (real_of_int (int_of_digits a) + real_of_int (int_of_digits b) / 10 ^ length b)
         else None)"

definition exact_host :: "real host" where
  "exact_host = \<lparr> f_of_int = (\<lambda>i. Some (real_of_int i)), f_add = (+), f_sub = (-), f_mul = (*),
     f_truediv = (/), f_mod = (\<lambda>x y. x - y * of_int \<lfloor>x / y\<rfloor>), f_neg = uminus, f_is_zero = (\<lambda>x. x = 0),
     i_truediv = (\<lambda>i j. Some (real_of_int i / real_of_int j)), f_of_str = real_of_decimal \<rparr>"

text \<open>\<^verbatim>\<open>const X = 1; X = 2;\<close>\<close>

definition prog_const :: "real node" where
  "prog_const = PROGRAMA [DECLARACION_CONST ''X'' None (Some (NUMERO (NInt 1))),
   ASIGNACION ''='' (IDENTIFICADOR ''X'') (NUMERO (NInt 2))]"

text \<open>\<^verbatim>\<open>try { 5 / 0; } catch (e) { mostrar("caught"); }\<close>\<close>

definition prog_try_div :: "real node" where
  "prog_try_div =
     TRY_CATCH (BLOQUE [OPERACION_ARITMETICA ''/'' (NUMERO (NInt 5)) (NUMERO (NInt 0))])
       (Some ''e'') (Some (BLOQUE [LLAMADA_NATIVA ''mostrar'' [CADENA ''caught'']])) None"

text \<open>The initial state inside one loop.\<close>

definition loop_state :: "real state" where
  "loop_state = init_state\<lparr> is_in_loop := 1 \<rparr>"

text \<open>The state after \<^verbatim>\<open>var l = [10, 20];\<close>\<close>

definition list_state :: "real state" where
  "list_state = init_state\<lparr> scopes := [[(''l'', (VList 0, False, ''lista''))]],
                             store := [OList [VInt 10, VInt 20]] \<rparr>"

text \<open>
  What the development asks of a host where it compares the optimizer with the
  evaluator: the integer zero converts to a floating-point zero.
\<close>

definition host_ok :: "'f host \<Rightarrow> bool" where
  "host_ok h = (\<forall>z. f_of_int h 0 = Some z \<longrightarrow> f_is_zero h z)"

text \<open>
  Token lists, as the lexer produces them (kind, lexeme, line, column), of four one-line
  programs.

  \<^verbatim>\<open>clase A { var x; var x; }\<close>
\<close>

definition class_tokens :: "token list" where
  "class_tokens =
     [(''CLASE'', ''clase'', 1, 1), (''IDENTIFICADOR'', ''A'', 1, 7), (''LLAVE'', ''{'', 1, 9),
      (''VAR'', ''var'', 1, 11), (''IDENTIFICADOR'', ''x'', 1, 15), (''PUNTO_COMA'', '';'', 1, 16),
      (''VAR'', ''var'', 1, 18), (''IDENTIFICADOR'', ''x'', 1, 22), (''PUNTO_COMA'', '';'', 1, 23),
      (''LLAVE'', ''}'', 1, 25)]"

text \<open>\<^verbatim>\<open>var x = 1; var x = 2;\<close>\<close>

definition redeclared_tokens :: "token list" where
  "redeclared_tokens =
     [(''VAR'', ''var'', 1, 1), (''IDENTIFICADOR'', ''x'', 1, 5), (''OPERADOR'', ''='', 1, 7),
      (''NUMERO'', ''1'', 1, 9), (''PUNTO_COMA'', '';'', 1, 10),
      (''VAR'', ''var'', 1, 12), (''IDENTIFICADOR'', ''x'', 1, 16), (''OPERADOR'', ''='', 1, 18),
      (''NUMERO'', ''2'', 1, 20), (''PUNTO_COMA'', '';'', 1, 21)]"

text \<open>The parser once it has parsed the first declaration of \<^verbatim>\<open>var x = 1; var x = 2;\<close>\<close>

definition after_first_declaration :: parser where
  "after_first_declaration =
     \<lparr> tokens = redeclared_tokens, token_index = 5, p_scopes = [[(''x'', ''VAR'', None)]],
       current_class = None \<rparr>"

text \<open>\<^verbatim>\<open>var x = 1; { var x = 2; }\<close>\<close>

definition shadowing_tokens :: "token list" where
  "shadowing_tokens =
     [(''VAR'', ''var'', 1, 1), (''IDENTIFICADOR'', ''x'', 1, 5), (''OPERADOR'', ''='', 1, 7),
      (''NUMERO'', ''1'', 1, 9), (''PUNTO_COMA'', '';'', 1, 10), (''LLAVE'', ''{'', 1, 12),
      (''VAR'', ''var'', 1, 14), (''IDENTIFICADOR'', ''x'', 1, 18), (''OPERADOR'', ''='', 1, 20),
      (''NUMERO'', ''2'', 1, 22), (''PUNTO_COMA'', '';'', 1, 23), (''LLAVE'', ''}'', 1, 25)]"

text \<open>\<^verbatim>\<open>var x; try {} catch (e) {} var x;\<close>\<close>

definition catch_tokens :: "token list" where
  "catch_tokens =
     [(''VAR'', ''var'', 1, 1), (''IDENTIFICADOR'', ''x'', 1, 5), (''PUNTO_COMA'', '';'', 1, 6),
      (''TRY'', ''try'', 1, 8), (''LLAVE'', ''{'', 1, 12), (''LLAVE'', ''}'', 1, 13),
      (''CATCH'', ''catch'', 1, 15), (''PARENTESIS'', ''('', 1, 21),
      (''IDENTIFICADOR'', ''e'', 1, 22), (''PARENTESIS'', '')'', 1, 23),
      (''LLAVE'', ''{'', 1, 25), (''LLAVE'', ''}'', 1, 26),
      (''VAR'', ''var'', 1, 28), (''IDENTIFICADOR'', ''x'', 1, 32), (''PUNTO_COMA'', '';'', 1, 33)]"


section \<open>Properties of the type system\<close>

lemma in_hierarchy_A_B: "in_hierarchy hierarchy_A_B ''A''"
  by (simp add: in_hierarchy_def hierarchy_A_B_def add_class_def init_type_system_def)




text \<open>
  C8: whatever the expected type name (or none), the context, the position and the
  \<open>is_return\<close> flag, \<open>validate_assignment\<close> of the null value returns without raising.
\<close>

theorem validate_assignment_null_permitted:
  "validate_assignment ts ctx VNone expected linea col is_return = Inr ()"
  by (simp add: validate_assignment_def split: option.splits)

section \<open>Unfolding the evaluator\<close>

text \<open>
  The record of functions at a given fuel is never unfolded as a whole: a field is
  unfolded when it is applied. \<open>then_do\<close> evaluates its first argument before its
  continuation is looked at.
\<close>

declare evaluator_at.simps [simp del]

lemma ev_Suc [simp]:
  "ev_execute (evaluator_at h (Suc k)) = execute_node h (evaluator_at h k)"
  "ev_stmts (evaluator_at h (Suc k)) = stmts_step h (evaluator_at h k)"
  "ev_list (evaluator_at h (Suc k)) = list_step h (evaluator_at h k)"
  "ev_props (evaluator_at h (Suc k)) = props_step h (evaluator_at h k)"
  "ev_mientras (evaluator_at h (Suc k)) = mientras_step h (evaluator_at h k)"
  "ev_para (evaluator_at h (Suc k)) = para_step h (evaluator_at h k)"
  "ev_hacer (evaluator_at h (Suc k)) = hacer_step h (evaluator_at h k)"
  "ev_lvalue (evaluator_at h (Suc k)) = lvalue_step h (evaluator_at h k)"
  "ev_call (evaluator_at h (Suc k)) = call_step h (evaluator_at h k)"
  by (simp_all add: evaluator_at.simps)

lemma then_do_simps [simp]:
  "then_do (Normal v, s) f = f v s"
  "then_do (Raise e, s) f = (Raise e, s)"
  "then_do (ReturnEx w, s) f = (ReturnEx w, s)"
  "then_do (BreakEx, s) f = (BreakEx, s)"
  "then_do (ContinueEx, s) f = (ContinueEx, s)"
  "then_do (OutOfFuel, s) f = (OutOfFuel, s)"
  "then_do (NotModelled, s) f = (NotModelled, s)"
  by (simp_all add: then_do_def)

lemma then_do_weak_cong [cong]: "m = m' \<Longrightarrow> then_do m f = then_do m' f"
  by simp

lemmas ev_defs = execute_def exec_stmts_def exec_list_def lvalue_location_def of_sum_def
  declare_variable_def get_current_scope_def enter_scope_def exit_scope_def init_state_def
  init_type_system_def given_type_def validate_assignment_def check_type_def in_hierarchy_def
  infer_type_def type_map_def add_variable_annotation_def perform_assignment_def
  get_variable_value_def binary_result_def arith_operands_ok_def wrap_type_error_def
  py_arith_def py_num_op_def py_eq_zero_def caught_error_def uncaught_error_def
  lvalue_step_def call_step_def mientras_step_def para_step_def hacer_step_def
  truthy_def numeral_eq_Suc Let_def

lemma execute_Suc: "execute h (Suc k) n s = execute_node h (evaluator_at h k) n s"
  by (simp add: execute_def)

lemma ev_execute_fold: "ev_execute (evaluator_at h k) = execute h k"
  by (simp add: execute_def)

lemma lvalue_location_Suc: "lvalue_location h (Suc k) n s = lvalue_step h (evaluator_at h k) n s"
  by (simp add: lvalue_location_def)

lemma ev_lvalue_fold: "ev_lvalue (evaluator_at h k) = lvalue_location h k"
  by (simp add: lvalue_location_def)

lemma lvalue_location_list:
  assumes "execute h k coll s1 = (Normal (VList a), s2)"
      and "execute h k idx_node s2 = (Normal iv, s3)"
  shows "lvalue_location h (Suc k) (ACCESO_INDICE coll idx_node) s1 =
           (if \<not> isinstance iv PyInt
            then (Raise (Err ZiskTypeError ''El indice de la lista debe ser un entero.'' 0 0), s3)
            else (Normal (LocList a iv), s3))"
  using assms by (simp add: lvalue_location_Suc lvalue_step_def ev_execute_fold)

section \<open>Constants\<close>

text \<open>
  C2 fails at \<^verbatim>\<open>const X = 1; X = 2;\<close>: the assignment raises nothing, evaluates to 2, and
  leaves \<open>X\<close> bound to 2 with its \<^verbatim>\<open>is_const\<close> flag cleared. The \<^verbatim>\<open>ASIGNACION\<close> branch
  writes the scope entry without reading the flag; the check lives in
  \<open>assign_variable\<close>, which \<^verbatim>\<open>execute\<close> never calls.
\<close>

theorem const_overwritten:
  "fst (execute exact_host 10 prog_const init_state) = Normal (VInt 2) \<and>
   scopes (snd (execute exact_host 10 prog_const init_state)) = [[(''X'', (VInt 2, False, ''entero''))]]"
  by (simp add: ev_defs prog_const_def)

section \<open>Logical operators\<close>







section \<open>Assignment to a list element\<close>




section \<open>Division by zero and try/catch\<close>

text \<open>
  C5 fails at \<^verbatim>\<open>try { 5 / 0; } catch (e) { mostrar("caught"); }\<close>: the division raises
  its \<^verbatim>\<open>ZiskRuntimeError\<close>, but binding it to \<open>e\<close> with the declared type \<^verbatim>\<open>objeto\<close> fails
  the type check (an exception object is not a host dictionary), so a
  \<^verbatim>\<open>ZiskTypeError\<close> leaves the statement and nothing is printed.
\<close>

theorem division_error_not_caught:
  "fst (execute exact_host 10 prog_try_div init_state)
     = Raise (Err ZiskTypeError
         (''Tipos incompatibles: no se puede asignar valor de tipo '' @ sq @ ''desconocido'' @ sq
           @ '' a '' @ sq @ ''e'' @ sq @ '' de tipo '' @ sq @ ''objeto'' @ sq @ ''.'') 0 0) \<and>
   stdout (snd (execute exact_host 10 prog_try_div init_state)) = []"
  by (simp add: ev_defs prog_try_div_def)

section \<open>Control transfer through try/catch/finally\<close>

text \<open>
  C4, as stated, fails: inside a loop, the try block of
  \<^verbatim>\<open>try { break; } finally { 1 / 0; }\<close> ends in the break event, yet the statement ends
  in the \<^verbatim>\<open>ZiskRuntimeError\<close> raised by the finally block: the event does not continue.
\<close>

theorem finally_replaces_event_counterexample:
  "execute exact_host 10 (BLOQUE [BREAK (1, 1)]) (init_state\<lparr>is_in_loop := 1\<rparr>)
     = (BreakEx, init_state\<lparr>is_in_loop := 1\<rparr>) \<and>
   execute exact_host 5
     (TRY_CATCH (BLOQUE [BREAK (1, 1)]) None None
        (Some (BLOQUE [OPERACION_ARITMETICA ''/'' (NUMERO (NInt 1)) (NUMERO (NInt 0))])))
     (init_state\<lparr>is_in_loop := 1\<rparr>)
     = (Raise (Err ZiskRuntimeError ''Division por cero.'' 0 0), init_state\<lparr>is_in_loop := 1\<rparr>)"
  by (simp add: ev_defs)

text \<open>
  C4, amended: when the try block ends in a return, break or continue event, the catch
  block is not executed (the outcome is the same for every catch clause); without a
  finally block the event propagates from the state the try block left; with a finally
  block that completes normally the event propagates from the state the finally block
  left; and when the finally block itself ends in an error or a control transfer, that
  outcome replaces the event.
\<close>

theorem control_transfer_through_try:
  assumes "execute h k try_b s = (ev, s1)"
      and "ev = BreakEx \<or> ev = ContinueEx \<or> ev = ReturnEx v"
  shows "execute h (Suc k) (TRY_CATCH try_b err_var_name catch_b None) s = (ev, s1)
       \<and> (\<forall>fb fv s2. execute h k fb s1 = (Normal fv, s2) \<longrightarrow>
             execute h (Suc k) (TRY_CATCH try_b err_var_name catch_b (Some fb)) s = (ev, s2))
       \<and> (\<forall>fb r s2. execute h k fb s1 = (r, s2) \<and> (\<forall>fv. r \<noteq> Normal fv) \<longrightarrow>
             execute h (Suc k) (TRY_CATCH try_b err_var_name catch_b (Some fb)) s = (r, s2))"
  using assms
  by (auto simp: execute_Suc ev_execute_fold split: res.splits)


text \<open>
  The theorem at \<^verbatim>\<open>try { break; } catch (e) { mostrar("catch"); } finally { mostrar("fin"); }\<close>
  inside a loop: only \<^verbatim>\<open>fin\<close> is printed, and the break event propagates.
\<close>

theorem control_transfer_through_try_witness:
  "execute exact_host 5 (BLOQUE [BREAK (1, 1)]) loop_state = (BreakEx, loop_state) \<and>
   execute exact_host 5 (BLOQUE [LLAMADA_NATIVA ''mostrar'' [CADENA ''fin'']]) loop_state
     = (Normal VNone, loop_state\<lparr> stdout := [[VStr ''fin'']] \<rparr>) \<and>
   execute exact_host 6
     (TRY_CATCH (BLOQUE [BREAK (1, 1)]) (Some ''e'')
        (Some (BLOQUE [LLAMADA_NATIVA ''mostrar'' [CADENA ''catch'']]))
        (Some (BLOQUE [LLAMADA_NATIVA ''mostrar'' [CADENA ''fin'']])))
     loop_state
     = (BreakEx, loop_state\<lparr> stdout := [[VStr ''fin'']] \<rparr>)"
proof -
  have t: "execute exact_host 5 (BLOQUE [BREAK (1, 1)]) loop_state = (BreakEx, loop_state)"
    by (simp add: ev_defs loop_state_def numeral_eq_Suc)
  have f: "execute exact_host 5 (BLOQUE [LLAMADA_NATIVA ''mostrar'' [CADENA ''fin'']]) loop_state
     = (Normal VNone, loop_state\<lparr> stdout := [[VStr ''fin'']] \<rparr>)"
    by (simp add: ev_defs loop_state_def numeral_eq_Suc)
  have "execute exact_host (Suc 5)
     (TRY_CATCH (BLOQUE [BREAK (1, 1)]) (Some ''e'')
        (Some (BLOQUE [LLAMADA_NATIVA ''mostrar'' [CADENA ''catch'']]))
        (Some (BLOQUE [LLAMADA_NATIVA ''mostrar'' [CADENA ''fin'']])))
     loop_state
     = (BreakEx, loop_state\<lparr> stdout := [[VStr ''fin'']] \<rparr>)"
    using control_transfer_through_try [OF t, of undefined] f by blast
  then show ?thesis using t f by (simp add: eval_nat_numeral)
qed

section \<open>Constant folding\<close>

text \<open>
  C3 fails at \<^verbatim>\<open>1 / 0\<close>: the optimizer does not return a tree, it lets the host's
  \<^verbatim>\<open>ZeroDivisionError\<close> escape (the \<^verbatim>\<open>ZiskError\<close> it builds for a zero divisor is never
  raised), whereas executing the tree as parsed raises the evaluator's
  \<^verbatim>\<open>ZiskRuntimeError\<close>.
\<close>

theorem optimizer_division_by_zero:
  "optimize exact_host one_over_zero = Raise zero_division_error \<and>
   execute exact_host 10 one_over_zero init_state
     = (Raise (Err ZiskRuntimeError ''Division por cero.'' 0 0), init_state)"
  by (simp add: ev_defs one_over_zero_def res_bind_def need_def fold_constants_def
        zero_division_error_def)

text \<open>
  Where the optimizer does return a tree the claim holds: an expression built from
  numeric literals and \<^verbatim>\<open>+ - * /\<close> is folded to one literal, and executing the
  expression as parsed returns that literal's value and leaves the state unchanged,
  as executing the literal does.
\<close>

lemma py_num_op_not_type_error:
  "py_num_op h op a b = Inl e \<Longrightarrow> err_kind_of e \<noteq> PyTypeError"
  by (auto simp: py_num_op_def overflow_error_def zero_division_error_def
           split: num.splits option.splits if_splits)

lemma binary_result_folded:
  assumes "host_ok h" and "op = ''+'' \<or> op = ''-'' \<or> op = ''*'' \<or> op = ''/''"
      and "py_num_op h op a b = Inr n"
  shows "binary_result h s Aritmetica op (num_val a) (num_val b) = Normal (num_val n)"
  using assms
  by (cases a; cases b)
     (auto simp: binary_result_def arith_operands_ok_def wrap_type_error_def py_arith_def
                 py_eq_zero_def py_num_op_def host_ok_def
           split: option.splits if_splits)

lemma constant_folding_agrees:
  assumes "host_ok h"
  shows "is_arith e \<Longrightarrow> optimize h e = Normal (Some e') \<Longrightarrow>
         \<exists>n. e' = NUMERO n \<and> (\<exists>k0. \<forall>k\<ge>k0. \<forall>s. execute h k e s = (Normal (num_val n), s))"
proof (induction e arbitrary: e')
  case (NUMERO x)
  then have "e' = NUMERO x" by simp
  moreover have "\<forall>k\<ge>Suc 0. \<forall>s. execute h k (NUMERO x) s = (Normal (num_val x), s)"
  proof (intro allI impI)
    fix k :: nat and s :: "'a state"
    assume "Suc 0 \<le> k"
    then obtain k' where "k = Suc k'" by (cases k) auto
    then show "execute h k (NUMERO x) s = (Normal (num_val x), s)"
      by (simp add: execute_Suc)
  qed
  ultimately show ?case by blast
next
  case (OPERACION_ARITMETICA op l r)
  from OPERACION_ARITMETICA.prems(1)
  have op: "op = ''+'' \<or> op = ''-'' \<or> op = ''*'' \<or> op = ''/''"
    and al: "is_arith l" and ar: "is_arith r" by auto
  from OPERACION_ARITMETICA.prems(2)
  obtain l' r' where ol: "optimize h l = Normal (Some l')" and orr: "optimize h r = Normal (Some r')"
    and f: "fold_constants h op l' r' = Normal (Some e')"
    by (auto simp: res_bind_def need_def split: res.splits option.splits)
  from OPERACION_ARITMETICA.IH(1) [OF al ol]
  obtain a k1 where l': "l' = NUMERO a"
    and e1: "\<forall>k\<ge>k1. \<forall>s. execute h k l s = (Normal (num_val a), s)" by blast
  from OPERACION_ARITMETICA.IH(2) [OF ar orr]
  obtain b k2 where r': "r' = NUMERO b"
    and e2: "\<forall>k\<ge>k2. \<forall>s. execute h k r s = (Normal (num_val b), s)" by blast
  from f l' r' op obtain n where n: "py_num_op h op a b = Inr n" and e': "e' = NUMERO n"
    using py_num_op_not_type_error [of h op a b]
    by (auto simp: fold_constants_def split: sum.splits if_splits)
  have "\<forall>k\<ge>Suc (max k1 k2). \<forall>s.
          execute h k (OPERACION_ARITMETICA op l r) s = (Normal (num_val n), s)"
  proof (intro allI impI)
    fix k :: nat and s :: "'a state"
    assume "Suc (max k1 k2) \<le> k"
    then obtain k' where k: "k = Suc k'" and k': "k1 \<le> k'" "k2 \<le> k'" by (cases k) auto
    show "execute h k (OPERACION_ARITMETICA op l r) s = (Normal (num_val n), s)"
      using e1 e2 k' binary_result_folded [OF assms op n]
      by (simp add: k execute_Suc ev_execute_fold)
  qed
  with e' show ?case by blast
qed simp_all


section \<open>Redeclaration in the parser\<close>

subsection \<open>Unfolding the parser\<close>

declare parser_at.simps [simp del]

lemma pa_Suc [simp]:
  "c_declaracion (parser_at h (Suc k)) = declaracion_step (parser_at h k)"
  "c_expresion (parser_at h (Suc k)) = expresion_step (parser_at h k)"
  "c_unaria (parser_at h (Suc k)) = unaria_step h (parser_at h k)"
  "c_binloop (parser_at h (Suc k)) = binloop_step (parser_at h k)"
  "c_postfix (parser_at h (Suc k)) = postfix_step (parser_at h k)"
  "c_exprs (parser_at h (Suc k)) = exprs_step (parser_at h k)"
  "c_props (parser_at h (Suc k)) = propiedades_step (parser_at h k)"
  "c_params (parser_at h (Suc k)) = params_step (parser_at h k)"
  "c_stmts (parser_at h (Suc k)) = stmts_loop_step (parser_at h k)"
  "c_programa (parser_at h (Suc k)) = programa_step (parser_at h k)"
  "c_miembros (parser_at h (Suc k)) = miembros_step (parser_at h k)"
  "c_modifiers (parser_at h (Suc k)) = modifiers_step (parser_at h k)"
  by (simp_all add: parser_at.simps)

lemma pbind_simps [simp]:
  "pbind (POk x p) f = f x p"
  "pbind (PErr e) g = PErr e"
  "pbind PFuel g' = PFuel"
  by (simp_all add: pbind_def)

lemma pbind_weak_cong [cong]: "m = m' \<Longrightarrow> pbind m f = pbind m' f"
  by simp

lemmas parse_defs = parse_def parse_programa_def parse_declaracion_def parse_expresion_def
  programa_step_def
  declaracion_step_def parse_clase_def miembros_step_def modifiers_step_def
  parse_declaracion_miembro_clase_def parse_declaracion_variable_def
  parse_declaracion_constante_def parse_tipo_opcional_def consume_def
  consume_optional_semicolon_def current_token_def at_kind_def at_kind_value_def
  not_at_value_def tok_kind_def tok_value_def tok_line_def tok_col_def given_type_def
  p_enter_scope_def p_exit_scope_def current_scope_def variable_declared_in_current_scope_def
  record_declaration_def init_parser_def lower_name_def upper_name_def pascal_name_def
  re_name_def is_lower_def is_upper_def is_digit_def is_word_def
  parse_sentencia_def parse_bloque_def stmts_loop_step_def
  expresion_step_def parse_expresion_logica_o_def parse_expresion_logica_y_def
  parse_expresion_comparacion_def parse_expresion_adicion_def
  parse_expresion_multiplicacion_def binloop_step_def unaria_step_def
  parse_expresion_llamada_o_acceso_def postfix_step_def parse_expresion_primaria_def
  level_ops_def int_of_digits_def parse_try_catch_def sq_def
  numeral_eq_Suc Let_def


subsection \<open>Expressions leave the scopes unchanged\<close>

lemma pbind_POk:
  "pbind m f = POk r p' \<longleftrightarrow> (\<exists>x q. m = POk x q \<and> f x q = POk r p')"
  by (cases m) simp_all

lemma keeps_scopesD: "keeps_scopes f \<Longrightarrow> f p = POk r p' \<Longrightarrow> p_scopes p' = p_scopes p"
  by (simp add: keeps_scopes_def)

lemma keeps_pbind:
  assumes "keeps_scopes m" and "\<And>x. keeps_scopes (f x)"
  shows "keeps_scopes (\<lambda>p. pbind (m p) f)"
  unfolding keeps_scopes_def
proof (intro allI impI)
  fix p r p' assume "pbind (m p) f = POk r p'"
  then obtain x q where 1: "m p = POk x q" and 2: "f x q = POk r p'"
    by (auto simp: pbind_POk)
  from keeps_scopesD [OF assms(1) 1] keeps_scopesD [OF assms(2) 2]
  show "p_scopes p' = p_scopes p" by simp
qed

lemma keeps_pbind_dep:
  assumes "keeps_scopes m" and "\<And>p x. keeps_scopes (f p x)"
  shows "keeps_scopes (\<lambda>p. pbind (m p) (f p))"
  unfolding keeps_scopes_def
proof (intro allI impI)
  fix p r p' assume "pbind (m p) (f p) = POk r p'"
  then obtain x q where 1: "m p = POk x q" and 2: "f p x q = POk r p'"
    by (auto simp: pbind_POk)
  from keeps_scopesD [OF assms(1) 1] keeps_scopesD [OF assms(2) 2]
  show "p_scopes p' = p_scopes p" by simp
qed

lemma keeps_consume [simp]: "keeps_scopes (consume a b)"
  by (auto simp: keeps_scopes_def consume_def split: option.splits if_splits)

lemma keeps_POk [simp]: "keeps_scopes (POk x)" "keeps_scopes (\<lambda>p. POk (g p) p)"
  by (simp_all add: keeps_scopes_def)

lemma keeps_PErr [simp]: "keeps_scopes (\<lambda>p. PErr (e p))" "keeps_scopes (\<lambda>p. PFuel)"
  by (simp_all add: keeps_scopes_def)

lemma keeps_if:
  "keeps_scopes f \<Longrightarrow> keeps_scopes g \<Longrightarrow> keeps_scopes (\<lambda>p. if c p then f p else g p)"
  by (simp add: keeps_scopes_def)

lemma keeps_case_token:
  "keeps_scopes f \<Longrightarrow> (\<And>t. keeps_scopes (g t))
   \<Longrightarrow> keeps_scopes (\<lambda>p. case current_token p of None \<Rightarrow> f p | Some t \<Rightarrow> g t p)"
  by (auto simp add: keeps_scopes_def split: option.splits)

lemma keeps_case_option:
  "keeps_scopes f \<Longrightarrow> (\<And>x. keeps_scopes (g x))
   \<Longrightarrow> keeps_scopes (\<lambda>p. case v of None \<Rightarrow> f p | Some x \<Rightarrow> g x p)"
  by (cases v) simp_all

lemmas keeps_intros = keeps_pbind keeps_pbind_dep keeps_if keeps_case_token


lemma C_keeps:
  assumes "expression_calls_keep_scopes C"
  shows "keeps_scopes (c_expresion C)" "keeps_scopes (c_unaria C)"
    "keeps_scopes (c_binloop C lvl izquierda)" "keeps_scopes (c_postfix C expr)"
    "keeps_scopes (c_exprs C closing acc)" "keeps_scopes (c_props C acc')"
  using assms by (simp_all add: expression_calls_keep_scopes_def)

lemma keeps_multiplicacion:
  "expression_calls_keep_scopes C \<Longrightarrow> keeps_scopes (parse_expresion_multiplicacion C)"
  unfolding parse_expresion_multiplicacion_def [abs_def]
  by (intro keeps_intros) (simp_all add: C_keeps)

lemma keeps_adicion:
  "expression_calls_keep_scopes C \<Longrightarrow> keeps_scopes (parse_expresion_adicion C)"
  unfolding parse_expresion_adicion_def [abs_def]
  by (intro keeps_intros) (simp_all add: C_keeps keeps_multiplicacion)

lemma keeps_comparacion:
  "expression_calls_keep_scopes C \<Longrightarrow> keeps_scopes (parse_expresion_comparacion C)"
  unfolding parse_expresion_comparacion_def [abs_def]
  by (intro keeps_intros) (simp_all add: C_keeps keeps_adicion)

lemma keeps_logica_y:
  "expression_calls_keep_scopes C \<Longrightarrow> keeps_scopes (parse_expresion_logica_y C)"
  unfolding parse_expresion_logica_y_def [abs_def]
  by (intro keeps_intros) (simp_all add: C_keeps keeps_comparacion)

lemma keeps_logica_o:
  "expression_calls_keep_scopes C \<Longrightarrow> keeps_scopes (parse_expresion_logica_o C)"
  unfolding parse_expresion_logica_o_def [abs_def]
  by (intro keeps_intros) (simp_all add: C_keeps keeps_logica_y)

lemma keeps_operand:
  "expression_calls_keep_scopes C \<Longrightarrow> keeps_scopes (parse_operand C lvl)"
  unfolding parse_operand_def [abs_def]
  by (cases lvl)
     (simp_all add: C_keeps keeps_multiplicacion keeps_adicion keeps_comparacion keeps_logica_y)

lemma keeps_binloop:
  "expression_calls_keep_scopes C \<Longrightarrow> keeps_scopes (binloop_step C lvl izquierda)"
  unfolding binloop_step_def [abs_def]
  by (intro keeps_intros) (simp_all add: C_keeps keeps_operand)

lemma keeps_expresion:
  "expression_calls_keep_scopes C \<Longrightarrow> keeps_scopes (expresion_step C)"
  unfolding expresion_step_def [abs_def]
  by (intro keeps_intros) (simp_all add: C_keeps keeps_logica_o)

lemma keeps_exprs:
  "expression_calls_keep_scopes C \<Longrightarrow> keeps_scopes (exprs_step C closing acc)"
  unfolding exprs_step_def [abs_def]
  by (intro keeps_intros) (simp_all add: C_keeps)

lemma keeps_propiedades:
  "expression_calls_keep_scopes C \<Longrightarrow> keeps_scopes (propiedades_step C acc)"
  unfolding propiedades_step_def [abs_def]
  by (intro keeps_intros) (simp_all add: C_keeps)

lemma keeps_lista_literal:
  "expression_calls_keep_scopes C \<Longrightarrow> keeps_scopes (parse_lista_literal C)"
  unfolding parse_lista_literal_def [abs_def]
  by (intro keeps_intros) (simp_all add: C_keeps)

lemma keeps_objeto_literal:
  "expression_calls_keep_scopes C \<Longrightarrow> keeps_scopes (parse_objeto_literal C)"
  unfolding parse_objeto_literal_def [abs_def]
  by (intro keeps_intros) (simp_all add: C_keeps)

lemma keeps_argumentos:
  "expression_calls_keep_scopes C \<Longrightarrow> keeps_scopes (parse_argumentos C)"
  unfolding parse_argumentos_def [abs_def]
  by (intro keeps_intros) (simp_all add: C_keeps)

lemma keeps_primaria:
  "expression_calls_keep_scopes C \<Longrightarrow> keeps_scopes (parse_expresion_primaria h C)"
  unfolding parse_expresion_primaria_def [abs_def]
  by (intro keeps_intros keeps_case_option)
     (simp_all add: C_keeps keeps_lista_literal keeps_objeto_literal keeps_argumentos)

lemma keeps_postfix:
  "expression_calls_keep_scopes C \<Longrightarrow> keeps_scopes (postfix_step C expr)"
  unfolding postfix_step_def [abs_def]
  by (intro keeps_intros) (simp_all add: C_keeps keeps_argumentos)

lemma keeps_llamada_o_acceso:
  "expression_calls_keep_scopes C \<Longrightarrow> keeps_scopes (parse_expresion_llamada_o_acceso h C)"
  unfolding parse_expresion_llamada_o_acceso_def [abs_def]
  by (intro keeps_intros) (simp_all add: C_keeps keeps_primaria)

lemma keeps_unaria:
  "expression_calls_keep_scopes C \<Longrightarrow> keeps_scopes (unaria_step h C)"
  unfolding unaria_step_def [abs_def]
  by (intro keeps_intros) (simp_all add: C_keeps keeps_llamada_o_acceso)

lemma parser_at_keeps_scopes: "expression_calls_keep_scopes (parser_at h k)"
proof (induction k)
  case 0
  show ?case by (simp add: expression_calls_keep_scopes_def parser_at.simps)
next
  case (Suc k)
  then show ?case
    unfolding expression_calls_keep_scopes_def [of "parser_at h (Suc k)"] pa_Suc
    by (simp add: keeps_expresion keeps_unaria keeps_binloop keeps_postfix keeps_exprs
          keeps_propiedades)
qed

lemma parse_expresion_keeps_scopes:
  "parse_expresion h k p = POk v p' \<Longrightarrow> p_scopes p' = p_scopes p"
  using parser_at_keeps_scopes [of h k]
  by (auto simp: parse_expresion_def expression_calls_keep_scopes_def keeps_scopes_def)



subsection \<open>A declaration whose name is, or is not, in the innermost scope\<close>

lemma current_token_drop:
  "drop (token_index p) (tokens p) = t # rest \<Longrightarrow> current_token p = Some t"
  by (metis current_token_def drop_eq_Nil2 hd_drop_conv_nth linorder_not_less list.discI list.sel(1))

lemma drop_advance: "drop i xs = t # rest \<Longrightarrow> drop (Suc i) xs = rest"
  by (metis drop_Suc list.sel(3) tl_drop)

lemma consume_kind:
  "current_token p = Some t \<Longrightarrow> tok_kind t = k
   \<Longrightarrow> consume (Some k) None p = POk t (p\<lparr> token_index := token_index p + 1 \<rparr>)"
  by (simp add: consume_def given_type_def)

lemma consume_kind_value:
  "current_token p = Some t \<Longrightarrow> tok_kind t = k \<Longrightarrow> tok_value t = v
   \<Longrightarrow> consume (Some k) (Some v) p = POk t (p\<lparr> token_index := token_index p + 1 \<rparr>)"
  by (simp add: consume_def given_type_def)

lemma declared_token_index [simp]:
  "variable_declared_in_current_scope (p\<lparr> token_index := i \<rparr>) n
   = variable_declared_in_current_scope p n"
  by (simp add: variable_declared_in_current_scope_def current_scope_def)

lemma declared_cong:
  "p_scopes p' = p_scopes p
   \<Longrightarrow> variable_declared_in_current_scope p' n = variable_declared_in_current_scope p n"
  by (simp add: variable_declared_in_current_scope_def current_scope_def)

lemma declared_record_declaration [simp]:
  "variable_declared_in_current_scope (record_declaration p n kind tipo) n"
  by (simp add: variable_declared_in_current_scope_def current_scope_def record_declaration_def
        update_conv')

lemma not_declared_enter_scope [simp]:
  "\<not> variable_declared_in_current_scope (p_enter_scope p) n"
  by (simp add: variable_declared_in_current_scope_def current_scope_def p_enter_scope_def)

lemma keeps_tipo_opcional: "keeps_scopes parse_tipo_opcional"
  unfolding parse_tipo_opcional_def [abs_def]
  by (intro keeps_intros) simp_all

lemma keeps_optional_semicolon: "keeps_scopes consume_optional_semicolon"
  unfolding consume_optional_semicolon_def [abs_def]
  by (intro keeps_intros) simp_all

lemma optional_semicolon_declared:
  "consume_optional_semicolon p = POk u p'
   \<Longrightarrow> variable_declared_in_current_scope p' n = variable_declared_in_current_scope p n"
  by (rule declared_cong) (rule keeps_scopesD [OF keeps_optional_semicolon])

lemma declaration_heads:
  assumes toks: "drop (token_index p) (tokens p) = (kw, v0, l0, c0) # (''IDENTIFICADOR'', n, l, c) # rest"
  shows "current_token p = Some (kw, v0, l0, c0)"
    and "consume (Some kw) None p = POk (kw, v0, l0, c0) (p\<lparr> token_index := Suc (token_index p) \<rparr>)"
    and "consume (Some ''IDENTIFICADOR'') None (p\<lparr> token_index := Suc (token_index p) \<rparr>)
         = POk (''IDENTIFICADOR'', n, l, c) (p\<lparr> token_index := Suc (Suc (token_index p)) \<rparr>)"
proof -
  show ct: "current_token p = Some (kw, v0, l0, c0)"
    using toks by (rule current_token_drop)
  show "consume (Some kw) None p = POk (kw, v0, l0, c0) (p\<lparr> token_index := Suc (token_index p) \<rparr>)"
    using ct by (simp add: consume_def given_type_def tok_kind_def)
  have "drop (token_index (p\<lparr> token_index := Suc (token_index p) \<rparr>))
          (tokens (p\<lparr> token_index := Suc (token_index p) \<rparr>)) = (''IDENTIFICADOR'', n, l, c) # rest"
    using drop_advance [OF toks] by simp
  then have "current_token (p\<lparr> token_index := Suc (token_index p) \<rparr>) = Some (''IDENTIFICADOR'', n, l, c)"
    by (rule current_token_drop)
  then show "consume (Some ''IDENTIFICADOR'') None (p\<lparr> token_index := Suc (token_index p) \<rparr>)
         = POk (''IDENTIFICADOR'', n, l, c) (p\<lparr> token_index := Suc (Suc (token_index p)) \<rparr>)"
    by (simp add: consume_def given_type_def tok_kind_def)
qed

lemma declaration_rejected:
  assumes toks: "drop (token_index p) (tokens p) = (kw, v0, l0, c0) # (''IDENTIFICADOR'', n, l, c) # rest"
    and kw: "kw = ''VAR'' \<or> kw = ''CONST''"
    and declared: "variable_declared_in_current_scope p n"
  shows "\<exists>msg. parse_declaracion h (Suc k) p = PErr (Err ZiskError msg l c)"
  using kw
proof
  assume kw: "kw = ''VAR''"
  note hs = declaration_heads [OF toks, unfolded kw]
  show ?thesis
    by (cases "lower_name n")
       (simp_all add: parse_declaracion_def declaracion_step_def parse_declaracion_variable_def
          hs declared tok_kind_def tok_value_def tok_line_def tok_col_def)
next
  assume kw: "kw = ''CONST''"
  note hs = declaration_heads [OF toks, unfolded kw]
  show ?thesis
    by (cases "upper_name n")
       (simp_all add: parse_declaracion_def declaracion_step_def parse_declaracion_constante_def
          hs declared tok_kind_def tok_value_def tok_line_def tok_col_def)
qed

lemma if_PErr_POk:
  "((if c then PErr e else x) = POk d p') \<longleftrightarrow> (\<not> c \<and> x = POk d p')"
  by simp

lemma keeps_initial_value:
  "expression_calls_keep_scopes C
   \<Longrightarrow> keeps_scopes (\<lambda>p3. if at_kind_value p3 ''OPERADOR'' ''='' then
                            pbind (consume (Some ''OPERADOR'') (Some ''='') p3) (\<lambda>t p'.
                              pbind (c_expresion C p') (\<lambda>v p''. POk (Some v) p''))
                          else POk None p3)"
  by (intro keeps_intros) (simp_all add: C_keeps)

lemma record_declaration_scopes:
  "p_scopes p' = p_scopes p
   \<Longrightarrow> p_scopes (record_declaration p' n kind tipo) = p_scopes (record_declaration p n kind tipo)"
  by (simp add: record_declaration_def current_scope_def)

lemma declaration_recorded:
  assumes toks: "drop (token_index p) (tokens p) = (kw, v0, l0, c0) # (''IDENTIFICADOR'', n, l, c) # rest"
    and kw: "kw = ''VAR'' \<or> kw = ''CONST''"
    and ok: "parse_declaracion h (Suc k) p = POk d p1"
  shows "\<exists>tipo. p_scopes p1 = p_scopes (record_declaration p n kw tipo)"
  using kw
proof
  assume kw: "kw = ''VAR''"
  note hs = declaration_heads [OF toks, unfolded kw]
  let ?p2 = "p\<lparr> token_index := Suc (Suc (token_index p)) \<rparr>"
  from ok have "parse_declaracion_variable (parser_at h k) False False True p = POk d p1"
    by (simp add: parse_declaracion_def declaracion_step_def tok_kind_def hs)
  then obtain tipo p3 valor p4 u where
    t: "parse_tipo_opcional ?p2 = POk tipo p3"
    and i: "(if at_kind_value p3 ''OPERADOR'' ''='' then
               pbind (consume (Some ''OPERADOR'') (Some ''='') p3) (\<lambda>t p'.
                 pbind (c_expresion (parser_at h k) p') (\<lambda>v p''. POk (Some v) p''))
             else POk None p3) = POk valor p4"
    and r: "consume_optional_semicolon (record_declaration p4 n ''VAR'' tipo) = POk u p1"
    unfolding parse_declaracion_variable_def
    by (simp add: hs tok_value_def if_PErr_POk pbind_POk) blast
  have "p_scopes p3 = p_scopes ?p2"
    using keeps_tipo_opcional t by (rule keeps_scopesD)
  moreover have "p_scopes p4 = p_scopes p3"
    using keeps_initial_value [OF parser_at_keeps_scopes] i by (rule keeps_scopesD)
  moreover have "p_scopes p1 = p_scopes (record_declaration p4 n ''VAR'' tipo)"
    using keeps_optional_semicolon r by (rule keeps_scopesD)
  ultimately have "p_scopes p1 = p_scopes (record_declaration p n kw tipo)"
    by (simp add: kw record_declaration_scopes [of p4 p])
  then show ?thesis ..
next
  assume kw: "kw = ''CONST''"
  note hs = declaration_heads [OF toks, unfolded kw]
  let ?p2 = "p\<lparr> token_index := Suc (Suc (token_index p)) \<rparr>"
  from ok have "parse_declaracion_constante (parser_at h k) False False True p = POk d p1"
    by (simp add: parse_declaracion_def declaracion_step_def tok_kind_def hs)
  then obtain tipo p3 t p4 valor p5 u where
    t: "parse_tipo_opcional ?p2 = POk tipo p3"
    and e: "consume (Some ''OPERADOR'') (Some ''='') p3 = POk t p4"
    and i: "c_expresion (parser_at h k) p4 = POk valor p5"
    and r: "consume_optional_semicolon (record_declaration p5 n ''CONST'' tipo) = POk u p1"
    unfolding parse_declaracion_constante_def
    by (simp add: hs tok_value_def if_PErr_POk pbind_POk) blast
  have "p_scopes p3 = p_scopes ?p2"
    using keeps_tipo_opcional t by (rule keeps_scopesD)
  moreover have "p_scopes p4 = p_scopes p3"
    using keeps_consume e by (rule keeps_scopesD)
  moreover have "p_scopes p5 = p_scopes p4"
    using C_keeps(1) [OF parser_at_keeps_scopes] i by (rule keeps_scopesD)
  moreover have "p_scopes p1 = p_scopes (record_declaration p5 n ''CONST'' tipo)"
    using keeps_optional_semicolon r by (rule keeps_scopesD)
  ultimately have "p_scopes p1 = p_scopes (record_declaration p n kw tipo)"
    by (simp add: kw record_declaration_scopes [of p5 p])
  then show ?thesis ..
qed

lemma declared_after_record:
  "p_scopes p1 = p_scopes (record_declaration p n kind tipo)
   \<Longrightarrow> variable_declared_in_current_scope p1 n"
  using declared_cong [of p1 "record_declaration p n kind tipo" n] by simp

lemma optional_semicolon_total:
  "\<exists>p'. consume_optional_semicolon p = POk p' p' \<and> p_scopes p' = p_scopes p"
  by (auto simp add: consume_optional_semicolon_def at_kind_def consume_def given_type_def
        split: option.splits)

lemma tipo_opcional_absent:
  "current_token p = Some t \<Longrightarrow> tok_kind t \<noteq> ''DOS_PUNTOS'' \<Longrightarrow> parse_tipo_opcional p = POk None p"
  by (simp add: parse_tipo_opcional_def at_kind_def)

lemma declaration_accepted:
  assumes toks: "drop (token_index p) (tokens p)
                 = (kw, v0, l0, c0) # (''IDENTIFICADOR'', n, l, c) # (''OPERADOR'', ''='', l2, c2) # rest"
    and kw: "kw = ''VAR'' \<and> lower_name n \<or> kw = ''CONST'' \<and> upper_name n"
    and fresh: "\<not> variable_declared_in_current_scope p n"
    and init: "parse_expresion h k (p\<lparr> token_index := token_index p + 3 \<rparr>) = POk v p4"
  shows "\<exists>p5. parse_declaracion h (Suc k) p
               = POk (if kw = ''VAR'' then DECLARACION_VAR n None (Some v)
                      else DECLARACION_CONST n None (Some v)) p5"
proof -
  let ?p2 = "p\<lparr> token_index := Suc (Suc (token_index p)) \<rparr>"
  have "drop (token_index ?p2) (tokens ?p2) = (''OPERADOR'', ''='', l2, c2) # rest"
    using drop_advance [OF drop_advance [OF toks]] by simp
  then have ct2: "current_token ?p2 = Some (''OPERADOR'', ''='', l2, c2)"
    by (rule current_token_drop)
  have tipo: "parse_tipo_opcional ?p2 = POk None ?p2"
    using ct2 by (rule tipo_opcional_absent) (simp add: tok_kind_def)
  have eq: "consume (Some ''OPERADOR'') (Some ''='') ?p2
            = POk (''OPERADOR'', ''='', l2, c2) (p\<lparr> token_index := Suc (Suc (Suc (token_index p))) \<rparr>)"
    using ct2 by (simp add: consume_def given_type_def tok_kind_def tok_value_def)
  have at: "at_kind_value ?p2 ''OPERADOR'' ''=''"
    using ct2 by (simp add: at_kind_value_def tok_kind_def tok_value_def)
  have init': "c_expresion (parser_at h k) (p\<lparr> token_index := Suc (Suc (Suc (token_index p))) \<rparr>)
               = POk v p4"
    using init by (simp add: parse_expresion_def numeral_3_eq_3)
  from kw show ?thesis
  proof
    assume a: "kw = ''VAR'' \<and> lower_name n"
    note hs = declaration_heads [OF toks, unfolded conjunct1 [OF a]]
    obtain p5 where "consume_optional_semicolon (record_declaration p4 n ''VAR'' None) = POk p5 p5"
      using optional_semicolon_total by blast
    then show ?thesis
      using a fresh
      by (simp add: parse_declaracion_def declaracion_step_def parse_declaracion_variable_def
            hs tipo eq at init' tok_kind_def tok_value_def)
  next
    assume a: "kw = ''CONST'' \<and> upper_name n"
    note hs = declaration_heads [OF toks, unfolded conjunct1 [OF a]]
    obtain p5 where "consume_optional_semicolon (record_declaration p4 n ''CONST'' None) = POk p5 p5"
      using optional_semicolon_total by blast
    then show ?thesis
      using a fresh
      by (simp add: parse_declaracion_def declaracion_step_def parse_declaracion_constante_def
            hs tipo eq at init' tok_kind_def tok_value_def)
  qed
qed







text \<open>
  The two programs of the specification: \<^verbatim>\<open>var x = 1; var x = 2;\<close> is rejected at the
  second \<^verbatim>\<open>x\<close>, and \<^verbatim>\<open>var x = 1; { var x = 2; }\<close> is parsed.
\<close>

lemma redeclaration_example:
  "parse exact_host 10 redeclared_tokens init_parser
   = PErr (Err ZiskError (''Variable '' @ sq @ ''x'' @ sq @ '' ya declarada en este ambito.'') 1 16)"
  by (simp add: parse_defs redeclared_tokens_def)

lemma shadowing_example:
  "parse exact_host 12 shadowing_tokens init_parser
   = POk (PROGRAMA [DECLARACION_VAR ''x'' None (Some (NUMERO (NInt 1))),
                    BLOQUE [DECLARACION_VAR ''x'' None (Some (NUMERO (NInt 2)))]])
       \<lparr> tokens = shadowing_tokens, token_index = 12, p_scopes = [[(''x'', ''VAR'', None)]],
         current_class = None \<rparr>"
  by (simp add: parse_defs shadowing_tokens_def)


text \<open>
  \<^verbatim>\<open>parse_try_catch\<close> enters a scope for the variable of a \<^verbatim>\<open>catch\<close> and never leaves it
  (the block that follows enters and leaves one of its own): after a \<^verbatim>\<open>try\<close> with a
  \<^verbatim>\<open>catch\<close> the innermost scope is a new one, and \<^verbatim>\<open>var x; try {} catch (e) {} var x;\<close> is
  parsed although both declarations stand at the top level.
\<close>

lemma catch_scope_left_open:
  "parse exact_host 10 catch_tokens init_parser
   = POk (PROGRAMA [DECLARACION_VAR ''x'' None None,
                    TRY_CATCH (BLOQUE []) (Some ''e'') (Some (BLOQUE [])) None,
                    DECLARACION_VAR ''x'' None None])
       \<lparr> tokens = catch_tokens, token_index = 15,
         p_scopes = [[(''x'', ''VAR'', None)], [(''e'', ''VAR_ERROR'', None), (''x'', ''VAR'', None)]],
         current_class = None \<rparr>"
  by (simp add: parse_defs catch_tokens_def)

end
